theory Spec2Isabelle
  imports Complex_Main
begin

section \<open>Price oracle (src/src/oracle.ts)\<close>

text \<open>
  JavaScript numbers are modelled as mathematical reals: rounding, NaN and the infinities
  of IEEE-754 doubles are outside the model. A division whose divisor is zero gives
  Infinity or NaN in the source and 0 in HOL, so every theorem below that divides by a
  reserve or a price assumes that divisor to be non-zero. \<open>Date.now()\<close> is the
  parameter \<open>now\<close>, read once per call of a synchronous method.
\<close>

datatype SwapDirection = OCT_TO_ETH | ETH_TO_OCT

datatype PriceReason = swap | initial | ema_update | circuit_breaker

record PriceRecord =
  pr_rate :: real
  pr_timestamp :: real
  pr_reason :: PriceReason
  pr_volume :: "real option"
  pr_direction :: "SwapDirection option"

record TWAPDataPoint =
  dp_price :: real
  dp_timestamp :: real
  dp_weight :: real

record VirtualReserves =
  octReserve :: real
  ethReserve :: real
  k :: real

record VolumeEntry =
  ve_timestamp :: real
  ve_octAmount :: real
  ve_direction :: SwapDirection

text \<open>The constant \<open>CONFIG\<close> of oracle.ts; its values come from the process environment.\<close>

record CONFIG =
  initialRate :: real
  minRate :: real
  maxRate :: real
  emaAlpha :: real
  twapWindowMs :: real
  maxPriceChangePercent :: real
  feeBps :: real

text \<open>
  The private fields of class \<open>PriceOracle\<close>. \<open>resetTimers\<close> holds the due times of the
  callbacks that \<open>triggerCircuitBreaker\<close> registers with \<open>setTimeout\<close>.
\<close>

record PriceOracle =
  reserves :: VirtualReserves
  spotPrice :: real
  emaPrice :: real
  twapDataPoints :: "TWAPDataPoint list"
  priceHistory :: "PriceRecord list"
  volumeHistory :: "VolumeEntry list"
  circuitBreakerActive :: bool
  lastCircuitBreakerReset :: real
  resetTimers :: "real list"

definition calculateSpotPrice :: "PriceOracle \<Rightarrow> real" where
  "calculateSpotPrice orc = ethReserve (reserves orc) / octReserve (reserves orc)"

definition calculateEthOut :: "PriceOracle \<Rightarrow> real \<Rightarrow> real \<Rightarrow> real" where
  "calculateEthOut orc octAmount fee_bps =
     (let newOctReserve = octReserve (reserves orc) + octAmount;
          newEthReserve = k (reserves orc) / newOctReserve;
          grossEthOut = ethReserve (reserves orc) - newEthReserve;
          fee = grossEthOut * (fee_bps / 10000);
          netEthOut = grossEthOut - fee
      in max 0 netEthOut)"

definition calculateOctOut :: "PriceOracle \<Rightarrow> real \<Rightarrow> real \<Rightarrow> real" where
  "calculateOctOut orc ethAmount fee_bps =
     (let newEthReserve = ethReserve (reserves orc) + ethAmount;
          newOctReserve = k (reserves orc) / newEthReserve;
          grossOctOut = octReserve (reserves orc) - newOctReserve;
          fee = grossOctOut * (fee_bps / 10000);
          netOctOut = grossOctOut - fee
      in max 0 netOctOut)"

text \<open>The quote of a direction: the method the solver calls for it.\<close>

definition quote :: "PriceOracle \<Rightarrow> SwapDirection \<Rightarrow> real \<Rightarrow> real \<Rightarrow> real" where
  "quote orc direction amountIn fee_bps =
     (case direction of
        OCT_TO_ETH \<Rightarrow> calculateEthOut orc amountIn fee_bps
      | ETH_TO_OCT \<Rightarrow> calculateOctOut orc amountIn fee_bps)"

text \<open>
  \<open>calculatePriceImpact\<close>: the fee-free quote against the field \<open>spotPrice\<close>.
\<close>

record PriceImpact =
  pi_priceImpactPercent :: real
  pi_effectivePrice :: real
  pi_spotPrice :: real

definition calculatePriceImpact :: "PriceOracle \<Rightarrow> SwapDirection \<Rightarrow> real \<Rightarrow> PriceImpact" where
  "calculatePriceImpact orc direction amount =
     (let spot = spotPrice orc
      in case direction of
           OCT_TO_ETH \<Rightarrow>
             (let ethOut = calculateEthOut orc amount 0;
                  effectivePrice = ethOut / amount;
                  priceImpactPercent = ((spot - effectivePrice) / spot) * 100
              in \<lparr>pi_priceImpactPercent = priceImpactPercent,
                  pi_effectivePrice = effectivePrice, pi_spotPrice = spot\<rparr>)
         | ETH_TO_OCT \<Rightarrow>
             (let octOut = calculateOctOut orc amount 0;
                  effectivePrice = amount / octOut;
                  priceImpactPercent = ((effectivePrice - spot) / spot) * 100
              in \<lparr>pi_priceImpactPercent = priceImpactPercent,
                  pi_effectivePrice = effectivePrice, pi_spotPrice = spot\<rparr>))"

text \<open>The input-side and output-side reserve of a direction.\<close>

definition reserveIn :: "PriceOracle \<Rightarrow> SwapDirection \<Rightarrow> real" where
  "reserveIn orc direction =
     (case direction of
        OCT_TO_ETH \<Rightarrow> octReserve (reserves orc)
      | ETH_TO_OCT \<Rightarrow> ethReserve (reserves orc))"

definition reserveOut :: "PriceOracle \<Rightarrow> SwapDirection \<Rightarrow> real" where
  "reserveOut orc direction =
     (case direction of
        OCT_TO_ETH \<Rightarrow> ethReserve (reserves orc)
      | ETH_TO_OCT \<Rightarrow> octReserve (reserves orc))"

text \<open>
  \<open>getEffectivePrice\<close> and the TWAP: the loop of \<open>calculateTWAP\<close> over the data points
  carries the pair (totalWeight, weightedSum).
\<close>

fun twapLoop :: "TWAPDataPoint list \<Rightarrow> real \<times> real \<Rightarrow> real \<times> real" where
  "twapLoop [] acc = acc"
| "twapLoop (dp # dps) (totalWeight, weightedSum) =
     (if dp_weight dp > 0
      then twapLoop dps (totalWeight + dp_weight dp, weightedSum + dp_price dp * dp_weight dp)
      else twapLoop dps (totalWeight, weightedSum))"

definition calculateTWAP :: "PriceOracle \<Rightarrow> real" where
  "calculateTWAP orc =
     (if length (twapDataPoints orc) = 0 then spotPrice orc
      else (case twapLoop (twapDataPoints orc) (0, 0) of
              (totalWeight, weightedSum) \<Rightarrow>
                if totalWeight = 0 then spotPrice orc else weightedSum / totalWeight))"

definition getEffectivePrice :: "PriceOracle \<Rightarrow> real" where
  "getEffectivePrice orc =
     (let twap = calculateTWAP orc
      in if circuitBreakerActive orc then twap
         else emaPrice orc * 0.7 + twap * 0.3)"

definition updateEMA :: "CONFIG \<Rightarrow> PriceOracle \<Rightarrow> PriceOracle" where
  "updateEMA cfg orc =
     orc\<lparr>emaPrice := emaAlpha cfg * spotPrice orc + (1 - emaAlpha cfg) * emaPrice orc\<rparr>"

definition updateTWAP :: "CONFIG \<Rightarrow> real \<Rightarrow> PriceOracle \<Rightarrow> PriceOracle" where
  "updateTWAP cfg now orc =
     (let windowStart = now - twapWindowMs cfg;
          pts = twapDataPoints orc;
          pts1 = (if length pts > 0
                  then butlast pts @ [(last pts)\<lparr>dp_weight := now - dp_timestamp (last pts)\<rparr>]
                  else pts);
          fresh = \<lparr>dp_price = spotPrice orc, dp_timestamp = now, dp_weight = 0\<rparr>;
          pts2 = pts1 @ [fresh];
          pts3 = filter (\<lambda>dp. dp_timestamp dp \<ge> windowStart) pts2;
          pts4 = (if length pts3 = 0 then pts3 @ [fresh] else pts3)
      in orc\<lparr>twapDataPoints := pts4\<rparr>)"

text \<open>
  \<open>triggerCircuitBreaker\<close> sets the flag, falls back to the EMA for the spot price and
  registers a callback for 5 minutes later; \<open>circuitBreakerTimeout\<close> is that callback, and
  \<open>runTimers\<close> is the event loop running every callback that is due.
\<close>

definition triggerCircuitBreaker :: "real \<Rightarrow> real \<Rightarrow> PriceOracle \<Rightarrow> PriceOracle" where
  "triggerCircuitBreaker now previousPrice orc =
     orc\<lparr>circuitBreakerActive := True,
         lastCircuitBreakerReset := now,
         spotPrice := emaPrice orc,
         resetTimers := resetTimers orc @ [now + 5 * 60 * 1000]\<rparr>"

definition circuitBreakerTimeout :: "PriceOracle \<Rightarrow> PriceOracle" where
  "circuitBreakerTimeout orc = orc\<lparr>circuitBreakerActive := False\<rparr>"

definition runTimers :: "real \<Rightarrow> PriceOracle \<Rightarrow> PriceOracle" where
  "runTimers now orc =
     (let due = filter (\<lambda>t. t \<le> now) (resetTimers orc);
          orc1 = orc\<lparr>resetTimers := filter (\<lambda>t. \<not> t \<le> now) (resetTimers orc)\<rparr>
      in if due = [] then orc1 else circuitBreakerTimeout orc1)"

definition applyPriceBounds :: "CONFIG \<Rightarrow> PriceOracle \<Rightarrow> PriceOracle" where
  "applyPriceBounds cfg orc =
     (let oldPrice = spotPrice orc;
          orc1 = (if spotPrice orc < minRate cfg then orc\<lparr>spotPrice := minRate cfg\<rparr>
                  else if spotPrice orc > maxRate cfg then orc\<lparr>spotPrice := maxRate cfg\<rparr>
                  else orc);
          orc2 = orc1\<lparr>emaPrice := max (minRate cfg) (min (maxRate cfg) (emaPrice orc1))\<rparr>
      in if spotPrice orc2 \<noteq> oldPrice
         then orc2\<lparr>reserves := (reserves orc2)
                \<lparr>octReserve := sqrt (k (reserves orc2) / spotPrice orc2),
                 ethReserve := sqrt (k (reserves orc2) * spotPrice orc2)\<rparr>\<rparr>
         else orc2)"

definition cleanupVolumeHistory :: "real \<Rightarrow> PriceOracle \<Rightarrow> PriceOracle" where
  "cleanupVolumeHistory now orc =
     (let oneDayAgo = now - 24 * 60 * 60 * 1000
      in orc\<lparr>volumeHistory := filter (\<lambda>v. ve_timestamp v \<ge> oneDayAgo) (volumeHistory orc)\<rparr>)"

text \<open>
  \<open>recordPrice\<close> appends to the in-memory tail and keeps its last 1000 entries
  (\<open>slice(-1000)\<close>). The row it also writes to the table oracle_history is not read back
  by the oracle and is left out.
\<close>

definition recordPrice ::
  "real \<Rightarrow> real \<Rightarrow> PriceReason \<Rightarrow> real option \<Rightarrow> SwapDirection option \<Rightarrow> PriceOracle \<Rightarrow> PriceOracle"
where
  "recordPrice now r reason vol dir orc =
     (let h = priceHistory orc @
                [\<lparr>pr_rate = r, pr_timestamp = now, pr_reason = reason,
                  pr_volume = vol, pr_direction = dir\<rparr>]
      in orc\<lparr>priceHistory := (if length h > 1000 then drop (length h - 1000) h else h)\<rparr>)"

text \<open>The trade update of \<open>recordSwap\<close>: its first statement block.\<close>

definition applyTrade :: "real \<Rightarrow> SwapDirection \<Rightarrow> real \<Rightarrow> PriceOracle \<Rightarrow> PriceOracle" where
  "applyTrade now direction amount orc =
     (case direction of
        OCT_TO_ETH \<Rightarrow>
          (let ethOut = calculateEthOut orc amount 0
           in orc\<lparr>reserves := (reserves orc)
                    \<lparr>octReserve := octReserve (reserves orc) + amount,
                     ethReserve := ethReserve (reserves orc) - ethOut\<rparr>,
                  volumeHistory := volumeHistory orc @
                    [\<lparr>ve_timestamp = now, ve_octAmount = amount, ve_direction = direction\<rparr>]\<rparr>)
      | ETH_TO_OCT \<Rightarrow>
          (let octOut = calculateOctOut orc amount 0
           in orc\<lparr>reserves := (reserves orc)
                    \<lparr>ethReserve := ethReserve (reserves orc) + amount,
                     octReserve := octReserve (reserves orc) - octOut\<rparr>,
                  volumeHistory := volumeHistory orc @
                    [\<lparr>ve_timestamp = now, ve_octAmount = octOut, ve_direction = direction\<rparr>]\<rparr>))"

definition recordSwap :: "CONFIG \<Rightarrow> real \<Rightarrow> SwapDirection \<Rightarrow> real \<Rightarrow> PriceOracle \<Rightarrow> PriceOracle" where
  "recordSwap cfg now direction amount orc =
     (let oldSpot = spotPrice orc;
          orc1 = applyTrade now direction amount orc;
          orc2 = orc1\<lparr>spotPrice := calculateSpotPrice orc1\<rparr>;
          priceChange = \<bar>(spotPrice orc2 - oldSpot) / oldSpot\<bar> * 100;
          orc3 = (if priceChange > maxPriceChangePercent cfg
                  then triggerCircuitBreaker now oldSpot orc2 else orc2);
          orc4 = updateEMA cfg orc3;
          orc5 = updateTWAP cfg now orc4;
          orc6 = applyPriceBounds cfg orc5;
          orc7 = recordPrice now (spotPrice orc6) swap (Some amount) (Some direction) orc6
      in cleanupVolumeHistory now orc7)"

text \<open>\<open>getRate\<close> refreshes the TWAP window and returns the effective price.\<close>

definition getRate :: "CONFIG \<Rightarrow> real \<Rightarrow> PriceOracle \<Rightarrow> (real \<times> real) \<times> PriceOracle" where
  "getRate cfg now orc =
     (let orc1 = updateTWAP cfg now orc
      in ((getEffectivePrice orc1, now), orc1))"

text \<open>
  The constructor, from the configured virtual reserves
  (\<open>VIRTUAL_OCT_RESERVE\<close>, \<open>VIRTUAL_ETH_RESERVE\<close>).
\<close>

definition newPriceOracle :: "real \<Rightarrow> real \<Rightarrow> real \<Rightarrow> PriceOracle" where
  "newPriceOracle now virtualOct virtualEth =
     (let rs = \<lparr>octReserve = virtualOct, ethReserve = virtualEth, k = virtualOct * virtualEth\<rparr>;
          spot = virtualEth / virtualOct;
          orc = \<lparr>reserves = rs, spotPrice = spot, emaPrice = spot,
                 twapDataPoints = [\<lparr>dp_price = spot, dp_timestamp = now, dp_weight = 0\<rparr>],
                 priceHistory = [], volumeHistory = [], circuitBreakerActive = False,
                 lastCircuitBreakerReset = 0, resetTimers = []\<rparr>
      in recordPrice now spot initial None None orc)"

text \<open>
  A reserve state at steady state: both reserves positive and their product the stored
  constant \<open>k\<close>.
\<close>

definition reserves_ok :: "PriceOracle \<Rightarrow> bool" where
  "reserves_ok orc \<longleftrightarrow>
     0 < octReserve (reserves orc) \<and> 0 < ethReserve (reserves orc)
     \<and> octReserve (reserves orc) * ethReserve (reserves orc) = k (reserves orc)"

text \<open>The default configuration and the oracle it starts from, at time 0.\<close>

definition defaultConfig :: CONFIG where
  "defaultConfig =
     \<lparr>initialRate = 1 / 1000, minRate = (1 / 1000) * (50 / 100),
      maxRate = (1 / 1000) * (200 / 100), emaAlpha = 1 / 10,
      twapWindowMs = 15 * 60 * 1000, maxPriceChangePercent = 10, feeBps = 50\<rparr>"

definition defaultOracle :: PriceOracle where
  "defaultOracle = newPriceOracle 0 1000000 1000"

text \<open>
  The statements of \<open>recordSwap\<close> up to, and not including, \<open>applyPriceBounds\<close>: the state
  whose spot price the clamp then compares with the bounds.
\<close>

definition recordSwap_upto_bounds ::
  "CONFIG \<Rightarrow> real \<Rightarrow> SwapDirection \<Rightarrow> real \<Rightarrow> PriceOracle \<Rightarrow> PriceOracle"
where
  "recordSwap_upto_bounds cfg now direction amount orc =
     (let oldSpot = spotPrice orc;
          orc1 = applyTrade now direction amount orc;
          orc2 = orc1\<lparr>spotPrice := calculateSpotPrice orc1\<rparr>;
          priceChange = \<bar>(spotPrice orc2 - oldSpot) / oldSpot\<bar> * 100;
          orc3 = (if priceChange > maxPriceChangePercent cfg
                  then triggerCircuitBreaker now oldSpot orc2 else orc2);
          orc4 = updateEMA cfg orc3
      in updateTWAP cfg now orc4)"

text \<open>A sequence of recorded swaps, each with its time, direction and amount.\<close>

fun recordSwaps :: "CONFIG \<Rightarrow> (real \<times> SwapDirection \<times> real) list \<Rightarrow> PriceOracle \<Rightarrow> PriceOracle" where
  "recordSwaps cfg [] orc = orc"
| "recordSwaps cfg ((now, direction, amount) # rest) orc =
     recordSwaps cfg rest (recordSwap cfg now direction amount orc)"

text \<open>
  A configuration whose lower bound is a quarter of the initial rate and whose circuit
  breaker needs a move of more than 100 percent.
\<close>

definition wideConfig :: CONFIG where
  "wideConfig = defaultConfig\<lparr>minRate := 1 / 4000, maxPriceChangePercent := 100\<rparr>"

text \<open>
  Two swaps on the default oracle: 10000 OCT one minute after the start, which moves the
  spot price by less than the threshold, then 200000 OCT a minute later, which moves it
  by more.
\<close>

definition cb_state1 :: PriceOracle where
  "cb_state1 = recordSwap defaultConfig 60000 OCT_TO_ETH 10000 defaultOracle"

definition cb_state2 :: PriceOracle where
  "cb_state2 = recordSwap defaultConfig 120000 OCT_TO_ETH 200000 cb_state1"

text \<open>The percentage \<open>priceChange\<close> that \<open>recordSwap\<close> compares with the threshold.\<close>

definition swapPriceChange :: "real \<Rightarrow> SwapDirection \<Rightarrow> real \<Rightarrow> PriceOracle \<Rightarrow> real" where
  "swapPriceChange now direction amount orc =
     \<bar>(calculateSpotPrice (applyTrade now direction amount orc) - spotPrice orc)
        / spotPrice orc\<bar> * 100"

section \<open>Types (src/src/types.ts)\<close>

datatype IntentStatus = OPEN | PENDING | FULFILLED | EXPIRED | REJECTED | FAILED

datatype TxStatus = pending | confirmed | failed

text \<open>
  \<open>SwapIntentPayload\<close>; the literal-typed fields keep the value they carry. Fields of
  the records below are prefixed (\<open>p_\<close>, \<open>i_\<close>, \<open>otx_\<close>, \<open>stx_\<close>) because several
  interfaces share field names.
\<close>

record SwapIntentPayload =
  p_version :: real
  p_intentType :: string
  p_fromAsset :: string
  p_toAsset :: string
  p_amountIn :: real
  p_minAmountOut :: real
  p_targetChain :: string
  p_targetAddress :: string
  p_expiry :: real
  p_nonce :: string

record Intent =
  i_intentId :: string
  i_direction :: SwapDirection
  i_sourceAddress :: string
  i_sourceTxHash :: string
  i_amountIn :: real
  i_targetAddress :: string
  i_targetTxHash :: "string option"
  i_amountOut :: "real option"
  i_minAmountOut :: real
  i_status :: IntentStatus
  i_expiry :: real
  i_createdAt :: real
  i_fulfilledAt :: "real option"
  i_error :: "string option"
  i_payload :: SwapIntentPayload

record OctraTransaction =
  otx_hash :: string
  otx_from :: string
  otx_to :: string
  otx_amount :: real
  otx_message :: "nat list option"
  otx_status :: TxStatus

text \<open>
  \<open>SepoliaTransaction\<close>; \<open>stx_value\<close> is the number that \<open>parseFloat(tx.value)\<close> reads
  from the decimal string of wei.
\<close>

record SepoliaTransaction =
  stx_hash :: string
  stx_from :: string
  stx_to :: string
  stx_value :: real
  stx_status :: TxStatus
  stx_input :: "string option"

text \<open>
  The message of a \<open>SubmitResponse\<close> is a template string in the source; the model keeps
  which template it is and the values it interpolates. \<open>PayloadHashMismatch\<close> is
  'Payload hash mismatch - data may have been tampered', \<open>InvalidPayloadStructure\<close> is
  'Invalid payload structure', \<open>FailedToParseEnvelope\<close> is 'Failed to parse EVM envelope'
  and \<open>NoPayloadInTxInput\<close> is 'No payload in tx.input'; the other constructors carry
  the words of their message in their name.
\<close>

datatype Message =
    AlreadySubmitted
  | TxNotFound
  | TxNotConfirmed TxStatus
  | InvalidIntentPayload
  | NotSentToEscrow string string
  | AmountMismatch real real
  | IntentHasExpired
  | InvalidTargetEvmAddress
  | NonceAlreadyUsed
  | OutputBelowMinimum real real
  | NoPayloadInTxInput
  | PayloadHashMismatch
  | InvalidPayloadStructure
  | FailedToParseEnvelope
  | InvalidOctraAddressFormat
  | InvalidEthAmount
  | FulfillmentInProgress
  | QueuedForLiquidity

record SubmitResponse =
  r_intentId :: string
  r_status :: IntentStatus
  r_message :: Message

section \<open>Database and intent store (db.ts, store.ts)\<close>

text \<open>
  The tables \<open>intents\<close> (rows in insertion order) and \<open>nonces\<close>. The only constraint on
  \<open>intents\<close> is the primary key \<open>intent_id\<close>; \<open>source_tx_hash\<close> is indexed, not unique.
\<close>

record Database =
  intents :: "Intent list"
  nonces :: "string set"

datatype Exn = SqliteConstraint | TypeError | RangeError

definition toLowerChar :: "char \<Rightarrow> char" where
  "toLowerChar c =
     (let n = (of_char c :: nat) in if 65 \<le> n \<and> n \<le> 90 then char_of (n + 32) else c)"

definition toLowerCase :: "string \<Rightarrow> string" where
  "toLowerCase s = map toLowerChar s"

text \<open>\<open>x || null\<close> on an optional string or number: the empty string and 0 are falsy.\<close>

definition strOrNull :: "string option \<Rightarrow> string option" where
  "strOrNull x = (case x of Some s \<Rightarrow> (if s = [] then None else Some s) | None \<Rightarrow> None)"

definition numOrNull :: "real option \<Rightarrow> real option" where
  "numOrNull x = (case x of Some n \<Rightarrow> (if n = 0 then None else Some n) | None \<Rightarrow> None)"

definition getIntent :: "Database \<Rightarrow> string \<Rightarrow> Intent option" where
  "getIntent d intentId = find (\<lambda>row. i_intentId row = intentId) (intents d)"

definition getIntentByTxHash :: "Database \<Rightarrow> string \<Rightarrow> Intent option" where
  "getIntentByTxHash d txHash = find (\<lambda>row. i_sourceTxHash row = txHash) (intents d)"

text \<open>
  \<open>addIntent\<close>: the INSERT raises on a duplicate primary key; \<open>storedRow\<close> is the row it
  writes, with the addresses in lower case and falsy optional columns as NULL.
\<close>

definition storedRow :: "Intent \<Rightarrow> Intent" where
  "storedRow intent =
     intent\<lparr>i_sourceAddress := toLowerCase (i_sourceAddress intent),
            i_targetAddress := toLowerCase (i_targetAddress intent),
            i_targetTxHash := strOrNull (i_targetTxHash intent),
            i_amountOut := numOrNull (i_amountOut intent),
            i_fulfilledAt := numOrNull (i_fulfilledAt intent),
            i_error := strOrNull (i_error intent)\<rparr>"

definition addIntent :: "Intent \<Rightarrow> Database \<Rightarrow> Exn + Database" where
  "addIntent intent d =
     (if getIntent d (i_intentId intent) \<noteq> None then Inl SqliteConstraint
      else Inr (d\<lparr>intents := intents d @ [storedRow intent]\<rparr>))"

definition isNonceUsed :: "Database \<Rightarrow> string \<Rightarrow> bool" where
  "isNonceUsed d nonce \<longleftrightarrow> nonce \<in> nonces d"

definition addNonce :: "string \<Rightarrow> Database \<Rightarrow> Database" where
  "addNonce nonce d = d\<lparr>nonces := insert nonce (nonces d)\<rparr>"

text \<open>
  The keys of \<open>Partial<Intent>\<close> that the solver passes to \<open>update\<close>; \<open>None\<close> is an absent
  key.
\<close>

record IntentUpdates =
  u_status :: "IntentStatus option"
  u_targetTxHash :: "string option"
  u_amountOut :: "real option"
  u_fulfilledAt :: "real option"

definition statusOnly :: "IntentStatus \<Rightarrow> IntentUpdates" where
  "statusOnly s = \<lparr>u_status = Some s, u_targetTxHash = None, u_amountOut = None,
                   u_fulfilledAt = None\<rparr>"

definition mergeUpdates :: "Intent \<Rightarrow> IntentUpdates \<Rightarrow> Intent" where
  "mergeUpdates existing updates =
     existing\<lparr>i_status := (case u_status updates of Some s \<Rightarrow> s | None \<Rightarrow> i_status existing),
              i_targetTxHash := (case u_targetTxHash updates of Some h \<Rightarrow> Some h
                                 | None \<Rightarrow> i_targetTxHash existing),
              i_amountOut := (case u_amountOut updates of Some a \<Rightarrow> Some a
                              | None \<Rightarrow> i_amountOut existing),
              i_fulfilledAt := (case u_fulfilledAt updates of Some f \<Rightarrow> Some f
                                | None \<Rightarrow> i_fulfilledAt existing)\<rparr>"

text \<open>
  \<open>updateIntent\<close> writes the five mutable columns of every row with the given id, falsy
  values as NULL.
\<close>

definition updateIntent :: "string \<Rightarrow> IntentUpdates \<Rightarrow> Database \<Rightarrow> Database" where
  "updateIntent intentId updates d =
     (case getIntent d intentId of
        None \<Rightarrow> d
      | Some existing \<Rightarrow>
          (let updated = mergeUpdates existing updates
           in d\<lparr>intents := map (\<lambda>row. if i_intentId row = intentId
                                      then row\<lparr>i_targetTxHash := strOrNull (i_targetTxHash updated),
                                               i_amountOut := numOrNull (i_amountOut updated),
                                               i_status := i_status updated,
                                               i_fulfilledAt := numOrNull (i_fulfilledAt updated),
                                               i_error := strOrNull (i_error updated)\<rparr>
                                      else row) (intents d)\<rparr>))"

definition getOpenIntents :: "Database \<Rightarrow> Intent list" where
  "getOpenIntents d = sort_key i_createdAt (filter (\<lambda>row. i_status row = OPEN) (intents d))"

definition getPendingIntents :: "Database \<Rightarrow> Intent list" where
  "getPendingIntents d = sort_key i_createdAt (filter (\<lambda>row. i_status row = PENDING) (intents d))"

text \<open>\<open>IntentStore.add\<close>: the row, then the nonce of its payload.\<close>

definition store_add :: "Intent \<Rightarrow> Database \<Rightarrow> Exn + Database" where
  "store_add intent d =
     (case addIntent intent d of
        Inl e \<Rightarrow> Inl e
      | Inr d1 \<Rightarrow> Inr (addNonce (p_nonce (i_payload intent)) d1))"

section \<open>Envelope verification (crypto.ts, octra.ts)\<close>

text \<open>
  The values \<open>JSON.parse\<close> returns; an object is the list of its members in order, each
  key once. The library functions the verifier calls are
  parameters: \<open>Buffer.from(_, 'hex').toString('utf8')\<close>,
  \<open>Buffer.from(_, 'base64').toString('utf8')\<close>, \<open>JSON.parse\<close> (\<open>None\<close> when it throws),
  \<open>JSON.stringify\<close> and the hex digest of SHA-256. A text that is decoded, trimmed,
  matched or parsed (the decoded call data, the memo of an Octra transaction) is the list
  of its UTF-16 code units, as a JavaScript string is; \<open>codeUnits\<close> gives the code units
  of a literal. \<open>sqlBind\<close> is the SQLite driver binding a value that is not a string to
  the parameter of a statement on the TEXT column \<open>nonce\<close>: the text the column then holds
  or is compared with (a number is bound and rendered as text), or the exception the
  driver throws for a value it does not bind.
\<close>

definition codeUnits :: "string \<Rightarrow> nat list" where
  "codeUnits s = map of_char s"

datatype JSON =
    JNull
  | JBool bool
  | JNum real
  | JStr string
  | JArr "JSON list"
  | JObj "(string \<times> JSON) list"

record Runtime =
  hexToUtf8 :: "string \<Rightarrow> nat list"
  base64ToUtf8 :: "nat list \<Rightarrow> nat list"
  JSON_parse :: "nat list \<Rightarrow> JSON option"
  JSON_stringify :: "JSON \<Rightarrow> string"
  sha256Hex :: "string \<Rightarrow> string"
  sqlBind :: "JSON \<Rightarrow> Exn + string"

text \<open>
  Property access \<open>v.key\<close> on a non-null value (\<open>None\<close> is \<open>undefined\<close>), truthiness,
  and \<open>a || b\<close>.
\<close>

definition getProp :: "JSON \<Rightarrow> string \<Rightarrow> JSON option" where
  "getProp v key = (case v of JObj kvs \<Rightarrow> map_of kvs key | _ \<Rightarrow> None)"

definition truthy :: "JSON option \<Rightarrow> bool" where
  "truthy v =
     (case v of
        None \<Rightarrow> False
      | Some JNull \<Rightarrow> False
      | Some (JBool b) \<Rightarrow> b
      | Some (JNum n) \<Rightarrow> n \<noteq> 0
      | Some (JStr s) \<Rightarrow> s \<noteq> []
      | Some (JArr _) \<Rightarrow> True
      | Some (JObj _) \<Rightarrow> True)"

definition orElse :: "JSON option \<Rightarrow> JSON \<Rightarrow> JSON" where
  "orElse a b = (if truthy a then the a else b)"

definition typeofNumber :: "JSON option \<Rightarrow> bool" where
  "typeofNumber v = (case v of Some (JNum _) \<Rightarrow> True | _ \<Rightarrow> False)"

definition typeofString :: "JSON option \<Rightarrow> bool" where
  "typeofString v = (case v of Some (JStr _) \<Rightarrow> True | _ \<Rightarrow> False)"

definition numOf :: "JSON option \<Rightarrow> real" where
  "numOf v = (case v of Some (JNum n) \<Rightarrow> n | _ \<Rightarrow> 0)"

definition strOf :: "JSON option \<Rightarrow> string" where
  "strOf v = (case v of Some (JStr s) \<Rightarrow> s | _ \<Rightarrow> [])"

text \<open>
  String helpers. \<open>startsWith\<close>; \<open>trim\<close>, which strips the white space and line
  terminators of ECMAScript from both ends: U+0009 to U+000D, U+0020, U+00A0, U+1680,
  U+2000 to U+200A, U+2028, U+2029, U+202F, U+205F, U+3000 and U+FEFF; and the two
  regular expressions of the sources, \<open>/^[A-Za-z0-9+/=]+$/\<close> and
  \<open>/^0x[a-fA-F0-9]{40}$/\<close>.
\<close>

definition startsWith :: "'a list \<Rightarrow> 'a list \<Rightarrow> bool" where
  "startsWith s p \<longleftrightarrow> take (length p) s = p"

definition isSpace :: "nat \<Rightarrow> bool" where
  "isSpace c \<longleftrightarrow>
     (9 \<le> c \<and> c \<le> 13) \<or> c = 32 \<or> c = 160 \<or> c = 5760 \<or> (8192 \<le> c \<and> c \<le> 8202)
     \<or> c = 8232 \<or> c = 8233 \<or> c = 8239 \<or> c = 8287 \<or> c = 12288 \<or> c = 65279"

definition trim :: "nat list \<Rightarrow> nat list" where
  "trim s = rev (dropWhile isSpace (rev (dropWhile isSpace s)))"

definition isBase64Text :: "nat list \<Rightarrow> bool" where
  "isBase64Text s \<longleftrightarrow>
     s \<noteq> [] \<and>
     list_all
       (\<lambda>c. c \<in> set (codeUnits
          ''ABCDEFGHIJKLMNOPQRSTUVWXYZabcdefghijklmnopqrstuvwxyz0123456789+/='')) s"

definition isEvmAddress :: "string \<Rightarrow> bool" where
  "isEvmAddress s \<longleftrightarrow>
     length s = 42 \<and> take 2 s = ''0x'' \<and>
     list_all (\<lambda>c. c \<in> set ''0123456789abcdefABCDEF'') (drop 2 s)"

definition hashPayload :: "Runtime \<Rightarrow> JSON \<Rightarrow> string" where
  "hashPayload rt payload = sha256Hex rt (JSON_stringify rt payload)"

definition verifyPayloadHash :: "Runtime \<Rightarrow> JSON \<Rightarrow> JSON \<Rightarrow> bool" where
  "verifyPayloadHash rt payload expectedHash \<longleftrightarrow> JStr (hashPayload rt payload) = expectedHash"

text \<open>
  An object literal in key order; \<open>JSON.stringify\<close> leaves out a key whose value is
  \<open>undefined\<close>.
\<close>

definition objectOf :: "(string \<times> JSON option) list \<Rightarrow> JSON" where
  "objectOf kvs = JObj (concat (map (\<lambda>(key, v). case v of None \<Rightarrow> [] | Some x \<Rightarrow> [(key, x)]) kvs))"

text \<open>The \<open>fullPayload\<close> that \<open>parseAndVerifyEvmEnvelope\<close> rebuilds before hashing.\<close>

definition fullPayload :: "JSON \<Rightarrow> JSON" where
  "fullPayload payload =
     objectOf
       [(''version'', Some (JNum 1)),
        (''intentType'', Some (JStr ''swap'')),
        (''fromAsset'', Some (orElse (getProp payload ''fromAsset'') (JStr ''ETH''))),
        (''toAsset'', Some (orElse (getProp payload ''toAsset'') (JStr ''OCT''))),
        (''amountIn'', getProp payload ''amountIn''),
        (''minAmountOut'', getProp payload ''minAmountOut''),
        (''targetChain'', Some (orElse (getProp payload ''targetChain'') (JStr ''octra_mainnet''))),
        (''targetAddress'', getProp payload ''targetAddress''),
        (''expiry'', getProp payload ''expiry''),
        (''nonce'', getProp payload ''nonce'')]"

text \<open>
  The payload \<open>parseAndVerifyEvmEnvelope\<close> returns. Its \<open>targetAddress\<close> and \<open>nonce\<close> are
  only known to be truthy, so they stay JSON values.
\<close>

record EvmPayload =
  ep_targetAddress :: JSON
  ep_minAmountOut :: real
  ep_expiry :: real
  ep_nonce :: JSON

text \<open>
  The body of \<open>parseAndVerifyEvmEnvelope\<close> from the parsed envelope on. Reading
  \<open>envelope.payload\<close> of \<open>null\<close> throws, which the \<open>catch\<close> turns into the parse error.
\<close>

definition verifyEvmEnvelope :: "Runtime \<Rightarrow> JSON \<Rightarrow> Message + EvmPayload" where
  "verifyEvmEnvelope rt envelope =
     (if envelope = JNull then Inl FailedToParseEnvelope
      else
        (let payload = orElse (getProp envelope ''payload'') envelope;
             hash = getProp envelope ''hash''
         in if truthy hash \<and> \<not> verifyPayloadHash rt (fullPayload payload) (the hash)
            then Inl PayloadHashMismatch
            else if \<not> truthy (getProp payload ''targetAddress'')
                    \<or> \<not> typeofNumber (getProp payload ''minAmountOut'')
                    \<or> \<not> typeofNumber (getProp payload ''expiry'')
                    \<or> \<not> truthy (getProp payload ''nonce'')
            then Inl InvalidPayloadStructure
            else Inr \<lparr>ep_targetAddress = the (getProp payload ''targetAddress''),
                      ep_minAmountOut = numOf (getProp payload ''minAmountOut''),
                      ep_expiry = numOf (getProp payload ''expiry''),
                      ep_nonce = the (getProp payload ''nonce'')\<rparr>))"

text \<open>The decoding step: hex, then base64 when the text looks like base64, then JSON.\<close>

definition decodeEvmEnvelope :: "Runtime \<Rightarrow> string \<Rightarrow> JSON option" where
  "decodeEvmEnvelope rt txInput =
     (let hexData = (if startsWith txInput ''0x'' then drop 2 txInput else txInput);
          decodedHex = hexToUtf8 rt hexData;
          isBase64 = (\<not> startsWith (trim decodedHex) (codeUnits ''{'')
                      \<and> isBase64Text (trim decodedHex))
      in if isBase64 then JSON_parse rt (base64ToUtf8 rt decodedHex)
         else JSON_parse rt decodedHex)"

definition parseAndVerifyEvmEnvelope :: "Runtime \<Rightarrow> string \<Rightarrow> Message + EvmPayload" where
  "parseAndVerifyEvmEnvelope rt txInput =
     (if txInput = [] \<or> txInput = ''0x'' \<or> length txInput < 4 then Inl NoPayloadInTxInput
      else (case decodeEvmEnvelope rt txInput of
              None \<Rightarrow> Inl FailedToParseEnvelope
            | Some envelope \<Rightarrow> verifyEvmEnvelope rt envelope))"

text \<open>
  \<open>parseIntentPayload\<close> of octra.ts, the parser the solver calls on the Octra memo, from
  the parsed message on. It never reads \<open>parsed.hash\<close>.
\<close>

definition payloadOfParsed :: "JSON \<Rightarrow> SwapIntentPayload option" where
  "payloadOfParsed parsed =
     (if parsed = JNull then None
      else
        (let payload = orElse (getProp parsed ''payload'') parsed
         in if getProp payload ''version'' \<noteq> Some (JNum 1)
               \<or> getProp payload ''intentType'' \<noteq> Some (JStr ''swap'')
               \<or> getProp payload ''fromAsset'' \<noteq> Some (JStr ''OCT'')
               \<or> getProp payload ''toAsset'' \<noteq> Some (JStr ''ETH'')
               \<or> \<not> typeofNumber (getProp payload ''amountIn'')
               \<or> \<not> typeofNumber (getProp payload ''minAmountOut'')
               \<or> getProp payload ''targetChain'' \<noteq> Some (JStr ''ethereum_sepolia'')
               \<or> \<not> typeofString (getProp payload ''targetAddress'')
               \<or> \<not> typeofNumber (getProp payload ''expiry'')
               \<or> \<not> typeofString (getProp payload ''nonce'')
            then None
            else Some \<lparr>p_version = 1, p_intentType = ''swap'', p_fromAsset = ''OCT'',
                       p_toAsset = ''ETH'',
                       p_amountIn = numOf (getProp payload ''amountIn''),
                       p_minAmountOut = numOf (getProp payload ''minAmountOut''),
                       p_targetChain = ''ethereum_sepolia'',
                       p_targetAddress = strOf (getProp payload ''targetAddress''),
                       p_expiry = numOf (getProp payload ''expiry''),
                       p_nonce = strOf (getProp payload ''nonce'')\<rparr>))"

definition parseIntentPayload :: "Runtime \<Rightarrow> nat list option \<Rightarrow> SwapIntentPayload option" where
  "parseIntentPayload rt message =
     (case message of
        None \<Rightarrow> None
      | Some m \<Rightarrow>
          (if m = [] then None
           else (case JSON_parse rt m of
                   None \<Rightarrow> None
                 | Some parsed \<Rightarrow> payloadOfParsed parsed)))"

text \<open>\<open>validateIntentPayload\<close> of octra.ts: \<open>None\<close> is \<open>{ valid: true }\<close>.\<close>

definition validateIntentPayload ::
  "real \<Rightarrow> SwapIntentPayload \<Rightarrow> OctraTransaction \<Rightarrow> string \<Rightarrow> Message option"
where
  "validateIntentPayload now payload tx escrowAddress =
     (if otx_to tx \<noteq> escrowAddress then Some (NotSentToEscrow escrowAddress (otx_to tx))
      else if \<bar>otx_amount tx - p_amountIn payload\<bar> > 0.000001
           then Some (AmountMismatch (p_amountIn payload) (otx_amount tx))
      else if now > p_expiry payload then Some IntentHasExpired
      else if \<not> isEvmAddress (p_targetAddress payload) then Some InvalidTargetEvmAddress
      else None)"

section \<open>Solver (src/src/solver.ts)\<close>

text \<open>
  The state the solver works on: the database behind \<open>intentStore\<close>, the oracle, and the
  log of the calls made to \<open>sendETH\<close> and \<open>sendOCT\<close> (recipient and amount), which is how
  the model records a dispatched payout.
\<close>

datatype Payout = SendETH string real | SendOCT string real

record SolverState =
  db :: Database
  oracleSt :: PriceOracle
  dispatched :: "Payout list"

text \<open>The fields of \<open>config\<close> (config.ts) that the solver reads.\<close>

record SolverConfig =
  octraEscrowAddress :: string
  sepoliaEscrowAddress :: string
  cfg_feeBps :: real

definition LIQUIDITY_BUFFER :: real where
  "LIQUIDITY_BUFFER = 1.1"

definition rejected :: "Message \<Rightarrow> SubmitResponse" where
  "rejected m = \<lparr>r_intentId = [], r_status = REJECTED, r_message = m\<rparr>"

text \<open>
  What one call of \<open>processOctToEthSubmission\<close> gets from outside: the answer of
  \<open>fetchOctraTransaction\<close>, the clock when the payload is validated, the fresh hot-wallet
  balance, the generated id and the clock when the intent is built.
\<close>

record OctSubmitEnv =
  oe_tx :: "OctraTransaction option"
  oe_now :: real
  oe_ethBalance :: real
  oe_uuid :: string
  oe_createdAt :: real

text \<open>
  \<open>processOctToEthSubmission\<close>. The result is the response, the new state and, when the
  function ends by calling \<open>fulfillOctToEth(intentId, ethOut)\<close> without awaiting it, the
  arguments of that call: the fulfilment is modelled on its own (\<open>fulfillOctToEth\<close> below).
  A raised exception is \<open>Inl\<close>.
\<close>

definition processOctToEthSubmission ::
  "Runtime \<Rightarrow> SolverConfig \<Rightarrow> OctSubmitEnv \<Rightarrow> string \<Rightarrow> SolverState
     \<Rightarrow> Exn + (SubmitResponse \<times> SolverState \<times> (string \<times> real) option)"
where
  "processOctToEthSubmission rt scfg env octraTxHash st =
     (case getIntentByTxHash (db st) octraTxHash of
        Some existing \<Rightarrow>
          Inr (\<lparr>r_intentId = i_intentId existing, r_status = i_status existing,
                r_message = AlreadySubmitted\<rparr>, st, None)
      | None \<Rightarrow>
     (case oe_tx env of
        None \<Rightarrow> Inr (rejected TxNotFound, st, None)
      | Some tx \<Rightarrow>
     if otx_status tx \<noteq> confirmed then Inr (rejected (TxNotConfirmed (otx_status tx)), st, None)
     else
     (case parseIntentPayload rt (otx_message tx) of
        None \<Rightarrow> Inr (rejected InvalidIntentPayload, st, None)
      | Some payload \<Rightarrow>
     (case validateIntentPayload (oe_now env) payload tx (octraEscrowAddress scfg) of
        Some err \<Rightarrow> Inr (rejected err, st, None)
      | None \<Rightarrow>
     if isNonceUsed (db st) (p_nonce payload) then Inr (rejected NonceAlreadyUsed, st, None)
     else
     (let ethOut = calculateEthOut (oracleSt st) (p_amountIn payload) (cfg_feeBps scfg)
      in if ethOut < p_minAmountOut payload
         then Inr (rejected (OutputBelowMinimum ethOut (p_minAmountOut payload)), st, None)
         else
         (let requiredEth = ethOut * LIQUIDITY_BUFFER;
              hasLiquidity = (oe_ethBalance env \<ge> requiredEth);
              intentId = oe_uuid env;
              intent = \<lparr>i_intentId = intentId, i_direction = OCT_TO_ETH,
                        i_sourceAddress = otx_from tx, i_sourceTxHash = octraTxHash,
                        i_amountIn = p_amountIn payload,
                        i_targetAddress = p_targetAddress payload,
                        i_targetTxHash = None, i_amountOut = None,
                        i_minAmountOut = p_minAmountOut payload,
                        i_status = (if hasLiquidity then OPEN else PENDING),
                        i_expiry = p_expiry payload, i_createdAt = oe_createdAt env,
                        i_fulfilledAt = None, i_error = None, i_payload = payload\<rparr>
          in case store_add intent (db st) of
               Inl e \<Rightarrow> Inl e
             | Inr d1 \<Rightarrow>
                 if hasLiquidity
                 then Inr (\<lparr>r_intentId = intentId, r_status = OPEN,
                            r_message = FulfillmentInProgress\<rparr>,
                           st\<lparr>db := d1\<rparr>, Some (intentId, ethOut))
                 else Inr (\<lparr>r_intentId = intentId, r_status = PENDING,
                            r_message = QueuedForLiquidity\<rparr>,
                           st\<lparr>db := d1\<rparr>, None)))))))"

text \<open>
  The same function in the parts that its two awaits separate (solver.ts:46 and 91): the
  look-up of the deposit reference; the checks between the answer of
  \<open>fetchOctraTransaction\<close> and the balance probe, which end in a rejection or in the
  transaction, the payload and the quote that the last part needs; and the part after the
  probe, which stores the intent. Other calls run during an await, so each part works on
  the state it finds. \<open>processOctToEthSubmission\<close> above is the three parts on one state:
  a call during whose awaits nothing else runs.
\<close>

definition processOctToEthSubmission_lookup :: "string \<Rightarrow> SolverState \<Rightarrow> SubmitResponse option" where
  "processOctToEthSubmission_lookup octraTxHash st =
     (case getIntentByTxHash (db st) octraTxHash of
        Some existing \<Rightarrow>
          Some \<lparr>r_intentId = i_intentId existing, r_status = i_status existing,
                r_message = AlreadySubmitted\<rparr>
      | None \<Rightarrow> None)"

definition processOctToEthSubmission_validate ::
  "Runtime \<Rightarrow> SolverConfig \<Rightarrow> OctraTransaction option \<Rightarrow> real \<Rightarrow> SolverState
     \<Rightarrow> SubmitResponse + (OctraTransaction \<times> SwapIntentPayload \<times> real)"
where
  "processOctToEthSubmission_validate rt scfg fetched now st =
     (case fetched of
        None \<Rightarrow> Inl (rejected TxNotFound)
      | Some tx \<Rightarrow>
     if otx_status tx \<noteq> confirmed then Inl (rejected (TxNotConfirmed (otx_status tx)))
     else
     (case parseIntentPayload rt (otx_message tx) of
        None \<Rightarrow> Inl (rejected InvalidIntentPayload)
      | Some payload \<Rightarrow>
     (case validateIntentPayload now payload tx (octraEscrowAddress scfg) of
        Some err \<Rightarrow> Inl (rejected err)
      | None \<Rightarrow>
     if isNonceUsed (db st) (p_nonce payload) then Inl (rejected NonceAlreadyUsed)
     else
     (let ethOut = calculateEthOut (oracleSt st) (p_amountIn payload) (cfg_feeBps scfg)
      in if ethOut < p_minAmountOut payload
         then Inl (rejected (OutputBelowMinimum ethOut (p_minAmountOut payload)))
         else Inr (tx, payload, ethOut)))))"

definition processOctToEthSubmission_store ::
  "real \<Rightarrow> string \<Rightarrow> real \<Rightarrow> string \<Rightarrow> OctraTransaction \<times> SwapIntentPayload \<times> real
     \<Rightarrow> SolverState \<Rightarrow> Exn + (SubmitResponse \<times> SolverState \<times> (string \<times> real) option)"
where
  "processOctToEthSubmission_store ethBalance uuid createdAt octraTxHash checked st =
     (case checked of (tx, payload, ethOut) \<Rightarrow>
        (let requiredEth = ethOut * LIQUIDITY_BUFFER;
             hasLiquidity = (ethBalance \<ge> requiredEth);
             intentId = uuid;
             intent = \<lparr>i_intentId = intentId, i_direction = OCT_TO_ETH,
                       i_sourceAddress = otx_from tx, i_sourceTxHash = octraTxHash,
                       i_amountIn = p_amountIn payload,
                       i_targetAddress = p_targetAddress payload,
                       i_targetTxHash = None, i_amountOut = None,
                       i_minAmountOut = p_minAmountOut payload,
                       i_status = (if hasLiquidity then OPEN else PENDING),
                       i_expiry = p_expiry payload, i_createdAt = createdAt,
                       i_fulfilledAt = None, i_error = None, i_payload = payload\<rparr>
         in case store_add intent (db st) of
              Inl e \<Rightarrow> Inl e
            | Inr d1 \<Rightarrow>
                if hasLiquidity
                then Inr (\<lparr>r_intentId = intentId, r_status = OPEN,
                           r_message = FulfillmentInProgress\<rparr>,
                          st\<lparr>db := d1\<rparr>, Some (intentId, ethOut))
                else Inr (\<lparr>r_intentId = intentId, r_status = PENDING,
                           r_message = QueuedForLiquidity\<rparr>,
                          st\<lparr>db := d1\<rparr>, None)))"

text \<open>
  The result of \<open>sendETH\<close> or \<open>sendOCT\<close>, and what a fulfilment gets from outside: the
  clock at its expiry check, the result of the send, and the clock once the send has
  returned.
\<close>

record SendResult =
  sr_success :: bool
  sr_txHash :: "string option"

record FulfilEnv =
  fe_now :: real
  fe_result :: SendResult
  fe_doneAt :: real

definition sendSucceeded :: "SendResult \<Rightarrow> bool" where
  "sendSucceeded result \<longleftrightarrow> sr_success result \<and> strOrNull (sr_txHash result) \<noteq> None"

definition fulfilledUpdates :: "SendResult \<Rightarrow> real \<Rightarrow> real \<Rightarrow> IntentUpdates" where
  "fulfilledUpdates result amount doneAt =
     \<lparr>u_status = Some FULFILLED, u_targetTxHash = sr_txHash result,
      u_amountOut = Some amount, u_fulfilledAt = Some doneAt\<rparr>"

text \<open>
  \<open>fulfillOctToEth\<close>, in the two parts its \<open>await sendETH(...)\<close> separates: up to the call
  (the result names the intent read from the store when the send is made), and from the
  result of the send on.
\<close>

definition fulfillOctToEth_start ::
  "real \<Rightarrow> string \<Rightarrow> real \<Rightarrow> SolverState \<Rightarrow> SolverState \<times> Intent option"
where
  "fulfillOctToEth_start now intentId ethOut st =
     (case getIntent (db st) intentId of
        None \<Rightarrow> (st, None)
      | Some intent \<Rightarrow>
          if i_status intent \<noteq> OPEN \<and> i_status intent \<noteq> PENDING then (st, None)
          else if now > i_expiry intent
          then (st\<lparr>db := updateIntent intentId (statusOnly EXPIRED) (db st)\<rparr>, None)
          else (st\<lparr>dispatched := dispatched st @ [SendETH (i_targetAddress intent) ethOut]\<rparr>,
                Some intent))"

definition fulfillOctToEth_finish ::
  "CONFIG \<Rightarrow> SendResult \<Rightarrow> real \<Rightarrow> string \<Rightarrow> real \<Rightarrow> Intent \<Rightarrow> SolverState \<Rightarrow> SolverState"
where
  "fulfillOctToEth_finish ocfg result doneAt intentId ethOut intent st =
     (if sendSucceeded result
      then st\<lparr>db := updateIntent intentId (fulfilledUpdates result ethOut doneAt) (db st),
              oracleSt := recordSwap ocfg doneAt OCT_TO_ETH (i_amountIn intent) (oracleSt st)\<rparr>
      else st)"

definition fulfillOctToEth :: "CONFIG \<Rightarrow> FulfilEnv \<Rightarrow> string \<Rightarrow> real \<Rightarrow> SolverState \<Rightarrow> SolverState" where
  "fulfillOctToEth ocfg env intentId ethOut st =
     (case fulfillOctToEth_start (fe_now env) intentId ethOut st of
        (st1, None) \<Rightarrow> st1
      | (st1, Some intent) \<Rightarrow>
          fulfillOctToEth_finish ocfg (fe_result env) (fe_doneAt env) intentId ethOut intent st1)"

text \<open>
  What one call of \<open>processEthToOctSubmission\<close> gets from outside, as for the other
  direction; the balance is that of the OCT escrow.
\<close>

record EthSubmitEnv =
  ee_tx :: "SepoliaTransaction option"
  ee_now :: real
  ee_octBalance :: real
  ee_uuid :: string
  ee_createdAt :: real

text \<open>
  The verified nonce of an EVM envelope is any truthy value. \<open>isNonceUsed\<close> and \<open>addNonce\<close>
  hand it to the SQLite driver: a string is bound as it is, any other value as \<open>sqlBind\<close>
  says.
\<close>

definition nonceKey :: "Runtime \<Rightarrow> JSON \<Rightarrow> Exn + string" where
  "nonceKey rt v = (case v of JStr s \<Rightarrow> Inr s | _ \<Rightarrow> sqlBind rt v)"

text \<open>
  \<open>processEthToOctSubmission\<close>. \<open>intentData.targetAddress.startsWith\<close> raises a TypeError
  when the verified target address is not a string. The nonce is kept as the text the
  driver binds for it, also in the payload of the stored row.
\<close>

definition processEthToOctSubmission ::
  "Runtime \<Rightarrow> SolverConfig \<Rightarrow> EthSubmitEnv \<Rightarrow> string \<Rightarrow> SolverState
     \<Rightarrow> Exn + (SubmitResponse \<times> SolverState \<times> (string \<times> real) option)"
where
  "processEthToOctSubmission rt scfg env sepoliaTxHash st =
     (case getIntentByTxHash (db st) sepoliaTxHash of
        Some existing \<Rightarrow>
          Inr (\<lparr>r_intentId = i_intentId existing, r_status = i_status existing,
                r_message = AlreadySubmitted\<rparr>, st, None)
      | None \<Rightarrow>
     (case ee_tx env of
        None \<Rightarrow> Inr (rejected TxNotFound, st, None)
      | Some tx \<Rightarrow>
     if stx_status tx \<noteq> confirmed then Inr (rejected (TxNotConfirmed (stx_status tx)), st, None)
     else if toLowerCase (stx_to tx) \<noteq> toLowerCase (sepoliaEscrowAddress scfg)
     then Inr (rejected (NotSentToEscrow (sepoliaEscrowAddress scfg) (stx_to tx)), st, None)
     else
     (case parseAndVerifyEvmEnvelope rt (case stx_input tx of Some i \<Rightarrow> i | None \<Rightarrow> []) of
        Inl err \<Rightarrow> Inr (rejected err, st, None)
      | Inr intentData \<Rightarrow>
     (case ep_targetAddress intentData of
        JStr targetAddress \<Rightarrow>
          if \<not> startsWith targetAddress ''oct''
          then Inr (rejected InvalidOctraAddressFormat, st, None)
          else if ee_now env > ep_expiry intentData
          then Inr (rejected IntentHasExpired, st, None)
          else
          (case nonceKey rt (ep_nonce intentData) of
             Inl e \<Rightarrow> Inl e
           | Inr nonce \<Rightarrow>
               if isNonceUsed (db st) nonce then Inr (rejected NonceAlreadyUsed, st, None)
               else
               (let ethAmount = stx_value tx / 1000000000000000000
                in if ethAmount \<le> 0 then Inr (rejected InvalidEthAmount, st, None)
                   else
                   (let octOut = calculateOctOut (oracleSt st) ethAmount (cfg_feeBps scfg)
                    in if octOut < ep_minAmountOut intentData
                       then Inr (rejected (OutputBelowMinimum octOut (ep_minAmountOut intentData)),
                                 st, None)
                       else
                       (let requiredOct = octOut * LIQUIDITY_BUFFER;
                            hasLiquidity = (ee_octBalance env \<ge> requiredOct);
                            intentId = ee_uuid env;
                            payload = \<lparr>p_version = 1, p_intentType = ''swap'',
                                       p_fromAsset = ''ETH'', p_toAsset = ''OCT'',
                                       p_amountIn = ethAmount,
                                       p_minAmountOut = ep_minAmountOut intentData,
                                       p_targetChain = ''octra_mainnet'',
                                       p_targetAddress = targetAddress,
                                       p_expiry = ep_expiry intentData, p_nonce = nonce\<rparr>;
                            intent = \<lparr>i_intentId = intentId, i_direction = ETH_TO_OCT,
                                      i_sourceAddress = stx_from tx,
                                      i_sourceTxHash = sepoliaTxHash,
                                      i_amountIn = ethAmount,
                                      i_targetAddress = targetAddress,
                                      i_targetTxHash = None, i_amountOut = None,
                                      i_minAmountOut = ep_minAmountOut intentData,
                                      i_status = (if hasLiquidity then OPEN else PENDING),
                                      i_expiry = ep_expiry intentData,
                                      i_createdAt = ee_createdAt env,
                                      i_fulfilledAt = None, i_error = None,
                                      i_payload = payload\<rparr>
                        in case store_add intent (db st) of
                             Inl e \<Rightarrow> Inl e
                           | Inr d1 \<Rightarrow>
                               if hasLiquidity
                               then Inr (\<lparr>r_intentId = intentId, r_status = OPEN,
                                          r_message = FulfillmentInProgress\<rparr>,
                                         st\<lparr>db := d1\<rparr>, Some (intentId, octOut))
                               else Inr (\<lparr>r_intentId = intentId, r_status = PENDING,
                                          r_message = QueuedForLiquidity\<rparr>,
                                         st\<lparr>db := d1\<rparr>, None)))))
      | _ \<Rightarrow> Inl TypeError))))"

text \<open>
  \<open>processEthToOctSubmission\<close> in the parts that its awaits separate (solver.ts:183 and
  257), as for the other direction. The middle part hands on the transaction, the
  verified data, the target address, the nonce as bound, the ETH amount and the quote.
\<close>

definition processEthToOctSubmission_lookup :: "string \<Rightarrow> SolverState \<Rightarrow> SubmitResponse option" where
  "processEthToOctSubmission_lookup sepoliaTxHash st =
     (case getIntentByTxHash (db st) sepoliaTxHash of
        Some existing \<Rightarrow>
          Some \<lparr>r_intentId = i_intentId existing, r_status = i_status existing,
                r_message = AlreadySubmitted\<rparr>
      | None \<Rightarrow> None)"

definition processEthToOctSubmission_validate ::
  "Runtime \<Rightarrow> SolverConfig \<Rightarrow> SepoliaTransaction option \<Rightarrow> real \<Rightarrow> SolverState
     \<Rightarrow> Exn + (SubmitResponse
                + (SepoliaTransaction \<times> EvmPayload \<times> string \<times> string \<times> real \<times> real))"
where
  "processEthToOctSubmission_validate rt scfg fetched now st =
     (case fetched of
        None \<Rightarrow> Inr (Inl (rejected TxNotFound))
      | Some tx \<Rightarrow>
     if stx_status tx \<noteq> confirmed then Inr (Inl (rejected (TxNotConfirmed (stx_status tx))))
     else if toLowerCase (stx_to tx) \<noteq> toLowerCase (sepoliaEscrowAddress scfg)
     then Inr (Inl (rejected (NotSentToEscrow (sepoliaEscrowAddress scfg) (stx_to tx))))
     else
     (case parseAndVerifyEvmEnvelope rt (case stx_input tx of Some i \<Rightarrow> i | None \<Rightarrow> []) of
        Inl err \<Rightarrow> Inr (Inl (rejected err))
      | Inr intentData \<Rightarrow>
     (case ep_targetAddress intentData of
        JStr targetAddress \<Rightarrow>
          if \<not> startsWith targetAddress ''oct''
          then Inr (Inl (rejected InvalidOctraAddressFormat))
          else if now > ep_expiry intentData
          then Inr (Inl (rejected IntentHasExpired))
          else
          (case nonceKey rt (ep_nonce intentData) of
             Inl e \<Rightarrow> Inl e
           | Inr nonce \<Rightarrow>
               if isNonceUsed (db st) nonce then Inr (Inl (rejected NonceAlreadyUsed))
               else
               (let ethAmount = stx_value tx / 1000000000000000000
                in if ethAmount \<le> 0 then Inr (Inl (rejected InvalidEthAmount))
                   else
                   (let octOut = calculateOctOut (oracleSt st) ethAmount (cfg_feeBps scfg)
                    in if octOut < ep_minAmountOut intentData
                       then Inr (Inl (rejected
                                       (OutputBelowMinimum octOut (ep_minAmountOut intentData))))
                       else Inr (Inr (tx, intentData, targetAddress, nonce, ethAmount,
                                      octOut)))))
      | _ \<Rightarrow> Inl TypeError)))"

definition processEthToOctSubmission_store ::
  "real \<Rightarrow> string \<Rightarrow> real \<Rightarrow> string
     \<Rightarrow> SepoliaTransaction \<times> EvmPayload \<times> string \<times> string \<times> real \<times> real
     \<Rightarrow> SolverState \<Rightarrow> Exn + (SubmitResponse \<times> SolverState \<times> (string \<times> real) option)"
where
  "processEthToOctSubmission_store octBalance uuid createdAt sepoliaTxHash checked st =
     (case checked of (tx, intentData, targetAddress, nonce, ethAmount, octOut) \<Rightarrow>
        (let requiredOct = octOut * LIQUIDITY_BUFFER;
             hasLiquidity = (octBalance \<ge> requiredOct);
             intentId = uuid;
             payload = \<lparr>p_version = 1, p_intentType = ''swap'',
                        p_fromAsset = ''ETH'', p_toAsset = ''OCT'',
                        p_amountIn = ethAmount,
                        p_minAmountOut = ep_minAmountOut intentData,
                        p_targetChain = ''octra_mainnet'',
                        p_targetAddress = targetAddress,
                        p_expiry = ep_expiry intentData, p_nonce = nonce\<rparr>;
             intent = \<lparr>i_intentId = intentId, i_direction = ETH_TO_OCT,
                       i_sourceAddress = stx_from tx,
                       i_sourceTxHash = sepoliaTxHash,
                       i_amountIn = ethAmount,
                       i_targetAddress = targetAddress,
                       i_targetTxHash = None, i_amountOut = None,
                       i_minAmountOut = ep_minAmountOut intentData,
                       i_status = (if hasLiquidity then OPEN else PENDING),
                       i_expiry = ep_expiry intentData,
                       i_createdAt = createdAt,
                       i_fulfilledAt = None, i_error = None,
                       i_payload = payload\<rparr>
         in case store_add intent (db st) of
              Inl e \<Rightarrow> Inl e
            | Inr d1 \<Rightarrow>
                if hasLiquidity
                then Inr (\<lparr>r_intentId = intentId, r_status = OPEN,
                           r_message = FulfillmentInProgress\<rparr>,
                          st\<lparr>db := d1\<rparr>, Some (intentId, octOut))
                else Inr (\<lparr>r_intentId = intentId, r_status = PENDING,
                           r_message = QueuedForLiquidity\<rparr>,
                          st\<lparr>db := d1\<rparr>, None)))"

text \<open>
  \<open>fulfillEthToOct\<close>, split at its \<open>await sendOCT(...)\<close> like the other direction. On
  success it calls \<open>oracle.recordSwap('ETH_TO_OCT', octOut)\<close>.
\<close>

definition fulfillEthToOct_start ::
  "real \<Rightarrow> string \<Rightarrow> real \<Rightarrow> SolverState \<Rightarrow> SolverState \<times> Intent option"
where
  "fulfillEthToOct_start now intentId octOut st =
     (case getIntent (db st) intentId of
        None \<Rightarrow> (st, None)
      | Some intent \<Rightarrow>
          if i_status intent \<noteq> OPEN \<and> i_status intent \<noteq> PENDING then (st, None)
          else if now > i_expiry intent
          then (st\<lparr>db := updateIntent intentId (statusOnly EXPIRED) (db st)\<rparr>, None)
          else (st\<lparr>dispatched := dispatched st @ [SendOCT (i_targetAddress intent) octOut]\<rparr>,
                Some intent))"

definition fulfillEthToOct_finish ::
  "CONFIG \<Rightarrow> SendResult \<Rightarrow> real \<Rightarrow> string \<Rightarrow> real \<Rightarrow> Intent \<Rightarrow> SolverState \<Rightarrow> SolverState"
where
  "fulfillEthToOct_finish ocfg result doneAt intentId octOut intent st =
     (if sendSucceeded result
      then st\<lparr>db := updateIntent intentId (fulfilledUpdates result octOut doneAt) (db st),
              oracleSt := recordSwap ocfg doneAt ETH_TO_OCT octOut (oracleSt st)\<rparr>
      else st)"

definition fulfillEthToOct :: "CONFIG \<Rightarrow> FulfilEnv \<Rightarrow> string \<Rightarrow> real \<Rightarrow> SolverState \<Rightarrow> SolverState" where
  "fulfillEthToOct ocfg env intentId octOut st =
     (case fulfillEthToOct_start (fe_now env) intentId octOut st of
        (st1, None) \<Rightarrow> st1
      | (st1, Some intent) \<Rightarrow>
          fulfillEthToOct_finish ocfg (fe_result env) (fe_doneAt env) intentId octOut intent st1)"

text \<open>
  The periodic check of \<open>startExpiryChecker\<close>. Its first loop expires the open intents
  past their deadline. Its second loop handles one pending intent at a time:
  \<open>retryPendingIntent\<close> is the loop body, given the fresh balance fetched for that intent;
  when it decides to fulfil it returns the arguments of the un-awaited call to
  \<open>fulfillOctToEth\<close> or \<open>fulfillEthToOct\<close>.
\<close>

fun expireLoop :: "real \<Rightarrow> Intent list \<Rightarrow> Database \<Rightarrow> Database" where
  "expireLoop now [] d = d"
| "expireLoop now (intent # rest) d =
     expireLoop now rest
       (if now > i_expiry intent then updateIntent (i_intentId intent) (statusOnly EXPIRED) d
        else d)"

definition retryPendingIntent ::
  "SolverConfig \<Rightarrow> real \<Rightarrow> real \<Rightarrow> Intent \<Rightarrow> SolverState
     \<Rightarrow> SolverState \<times> (SwapDirection \<times> string \<times> real) option"
where
  "retryPendingIntent scfg now balance intent st =
     (if now > i_expiry intent
      then (st\<lparr>db := updateIntent (i_intentId intent) (statusOnly EXPIRED) (db st)\<rparr>, None)
      else
        (case i_direction intent of
           OCT_TO_ETH \<Rightarrow>
             (let ethOut = calculateEthOut (oracleSt st) (i_amountIn intent) (cfg_feeBps scfg);
                  requiredEth = ethOut * LIQUIDITY_BUFFER
              in if balance \<ge> requiredEth
                 then (st\<lparr>db := updateIntent (i_intentId intent) (statusOnly OPEN) (db st)\<rparr>,
                       Some (OCT_TO_ETH, i_intentId intent, ethOut))
                 else (st, None))
         | ETH_TO_OCT \<Rightarrow>
             (let octOut = calculateOctOut (oracleSt st) (i_amountIn intent) (cfg_feeBps scfg);
                  requiredOct = octOut * LIQUIDITY_BUFFER
              in if balance \<ge> requiredOct
                 then (st\<lparr>db := updateIntent (i_intentId intent) (statusOnly OPEN) (db st)\<rparr>,
                       Some (ETH_TO_OCT, i_intentId intent, octOut))
                 else (st, None))))"

text \<open>
  The loop body for an intent that is not expired, in the two parts that its await of the
  fresh balance separates (solver.ts:378 and 390): the quote, made before the probe, and
  the comparison, the update and the call of the fulfilment, made after it on the state
  found then. \<open>retryPendingIntent\<close> above is both parts on one state.
\<close>

definition retryPendingIntent_quote :: "SolverConfig \<Rightarrow> Intent \<Rightarrow> SolverState \<Rightarrow> real" where
  "retryPendingIntent_quote scfg intent st =
     (case i_direction intent of
        OCT_TO_ETH \<Rightarrow> calculateEthOut (oracleSt st) (i_amountIn intent) (cfg_feeBps scfg)
      | ETH_TO_OCT \<Rightarrow> calculateOctOut (oracleSt st) (i_amountIn intent) (cfg_feeBps scfg))"

definition retryPendingIntent_dispatch ::
  "real \<Rightarrow> Intent \<Rightarrow> real \<Rightarrow> SolverState
     \<Rightarrow> SolverState \<times> (SwapDirection \<times> string \<times> real) option"
where
  "retryPendingIntent_dispatch balance intent amountOut st =
     (let required = amountOut * LIQUIDITY_BUFFER
      in if balance \<ge> required
         then (st\<lparr>db := updateIntent (i_intentId intent) (statusOnly OPEN) (db st)\<rparr>,
               Some (i_direction intent, i_intentId intent, amountOut))
         else (st, None))"

text \<open>
  The whole check when nothing else runs during its probes, with the fresh balance of
  each iteration given by intent id; the calls it starts are returned in order.
\<close>

fun retryLoop ::
  "SolverConfig \<Rightarrow> real \<Rightarrow> (string \<Rightarrow> real) \<Rightarrow> Intent list \<Rightarrow> SolverState
     \<Rightarrow> SolverState \<times> (SwapDirection \<times> string \<times> real) list"
where
  "retryLoop scfg now balanceFor [] st = (st, [])"
| "retryLoop scfg now balanceFor (intent # rest) st =
     (case retryPendingIntent scfg now (balanceFor (i_intentId intent)) intent st of
        (st1, task) \<Rightarrow>
          (case retryLoop scfg now balanceFor rest st1 of
             (st2, tasks) \<Rightarrow> (st2, (case task of None \<Rightarrow> [] | Some t \<Rightarrow> [t]) @ tasks)))"

definition expiryCheck ::
  "SolverConfig \<Rightarrow> real \<Rightarrow> (string \<Rightarrow> real) \<Rightarrow> SolverState
     \<Rightarrow> SolverState \<times> (SwapDirection \<times> string \<times> real) list"
where
  "expiryCheck scfg now balanceFor st =
     (let st1 = st\<lparr>db := expireLoop now (getOpenIntents (db st)) (db st)\<rparr>
      in retryLoop scfg now balanceFor (getPendingIntents (db st1)) st1)"

text \<open>
  The validation steps of the two submission functions, written out as one predicate
  each: the transaction is found and confirmed, was sent to the escrow, carries a payload
  the parser accepts, is not expired, has a well-formed target address, an unused nonce,
  and the quoted output is not below the caller's minimum.
\<close>

definition octToEthValid :: "Runtime \<Rightarrow> SolverConfig \<Rightarrow> OctSubmitEnv \<Rightarrow> SolverState \<Rightarrow> bool" where
  "octToEthValid rt scfg env st =
     (case oe_tx env of
        None \<Rightarrow> False
      | Some tx \<Rightarrow>
          otx_status tx = confirmed \<and>
          (case parseIntentPayload rt (otx_message tx) of
             None \<Rightarrow> False
           | Some payload \<Rightarrow>
               otx_to tx = octraEscrowAddress scfg
               \<and> \<bar>otx_amount tx - p_amountIn payload\<bar> \<le> 0.000001
               \<and> oe_now env \<le> p_expiry payload
               \<and> isEvmAddress (p_targetAddress payload)
               \<and> p_nonce payload \<notin> nonces (db st)
               \<and> p_minAmountOut payload
                    \<le> calculateEthOut (oracleSt st) (p_amountIn payload) (cfg_feeBps scfg)))"

definition ethToOctValid :: "Runtime \<Rightarrow> SolverConfig \<Rightarrow> EthSubmitEnv \<Rightarrow> SolverState \<Rightarrow> bool" where
  "ethToOctValid rt scfg env st =
     (case ee_tx env of
        None \<Rightarrow> False
      | Some tx \<Rightarrow>
          stx_status tx = confirmed
          \<and> toLowerCase (stx_to tx) = toLowerCase (sepoliaEscrowAddress scfg)
          \<and> (case parseAndVerifyEvmEnvelope rt (case stx_input tx of Some i \<Rightarrow> i | None \<Rightarrow> []) of
                Inl err \<Rightarrow> False
              | Inr intentData \<Rightarrow>
                  startsWith (strOf (Some (ep_targetAddress intentData))) ''oct''
                  \<and> ee_now env \<le> ep_expiry intentData
                  \<and> (case nonceKey rt (ep_nonce intentData) of
                        Inl e \<Rightarrow> False
                      | Inr nonce \<Rightarrow> nonce \<notin> nonces (db st))
                  \<and> 0 < stx_value tx / 1000000000000000000
                  \<and> ep_minAmountOut intentData
                       \<le> calculateOctOut (oracleSt st) (stx_value tx / 1000000000000000000)
                            (cfg_feeBps scfg)))"

text \<open>The output quoted by a submission, when its transaction and payload are readable.\<close>

definition octQuote :: "Runtime \<Rightarrow> SolverConfig \<Rightarrow> OctSubmitEnv \<Rightarrow> SolverState \<Rightarrow> real" where
  "octQuote rt scfg env st =
     (case oe_tx env of
        None \<Rightarrow> 0
      | Some tx \<Rightarrow>
          (case parseIntentPayload rt (otx_message tx) of
             None \<Rightarrow> 0
           | Some payload \<Rightarrow>
               calculateEthOut (oracleSt st) (p_amountIn payload) (cfg_feeBps scfg)))"

definition ethQuote :: "SolverConfig \<Rightarrow> EthSubmitEnv \<Rightarrow> SolverState \<Rightarrow> real" where
  "ethQuote scfg env st =
     (case ee_tx env of
        None \<Rightarrow> 0
      | Some tx \<Rightarrow>
          calculateOctOut (oracleSt st) (stx_value tx / 1000000000000000000) (cfg_feeBps scfg))"

text \<open>
  The parts of \<open>verifyEvmEnvelope\<close> by name: the payload it reads from the envelope, the
  check of the required fields, and the record it returns.
\<close>

definition envelopePayload :: "JSON \<Rightarrow> JSON" where
  "envelopePayload envelope = orElse (getProp envelope ''payload'') envelope"

definition evmFieldsValid :: "JSON \<Rightarrow> bool" where
  "evmFieldsValid payload \<longleftrightarrow>
     truthy (getProp payload ''targetAddress'')
     \<and> typeofNumber (getProp payload ''minAmountOut'')
     \<and> typeofNumber (getProp payload ''expiry'')
     \<and> truthy (getProp payload ''nonce'')"

definition evmResultOf :: "JSON \<Rightarrow> EvmPayload" where
  "evmResultOf payload =
     \<lparr>ep_targetAddress = the (getProp payload ''targetAddress''),
      ep_minAmountOut = numOf (getProp payload ''minAmountOut''),
      ep_expiry = numOf (getProp payload ''expiry''),
      ep_nonce = the (getProp payload ''nonce'')\<rparr>"

section \<open>Example data\<close>

text \<open>
  An Octra memo whose envelope declares the hash \<open>00\<close>, and the value \<open>JSON.parse\<close> returns
  for it.
\<close>

definition exMemoText :: "nat list" where
  \<open>exMemoText = codeUnits ''{"payload":{"version":1,"intentType":"swap","fromAsset":"OCT","toAsset":"ETH","amountIn":100,"minAmountOut":0.099,"targetChain":"ethereum_sepolia","targetAddress":"0x00000000000000000000000000000000000000aa","expiry":600000,"nonce":"n1"},"hash":"00"}''\<close>

definition exMemoPayload :: "string \<Rightarrow> JSON" where
  "exMemoPayload nonce =
     JObj [(''version'', JNum 1), (''intentType'', JStr ''swap''), (''fromAsset'', JStr ''OCT''),
           (''toAsset'', JStr ''ETH''), (''amountIn'', JNum 100), (''minAmountOut'', JNum 0.099),
           (''targetChain'', JStr ''ethereum_sepolia''),
           (''targetAddress'', JStr ''0x00000000000000000000000000000000000000aa''),
           (''expiry'', JNum 600000), (''nonce'', JStr nonce)]"

definition exMemoEnvelope :: "string \<Rightarrow> JSON" where
  "exMemoEnvelope declaredHash =
     JObj [(''payload'', exMemoPayload ''n1''), (''hash'', JStr declaredHash)]"

text \<open>
  An EVM envelope as text, as hex call data, and base64-encoded inside hex call data; the
  value \<open>JSON.parse\<close> returns for the text, with the payload's \<open>version\<close> field as a
  parameter.
\<close>

definition exEvmText :: "nat list" where
  \<open>exEvmText = codeUnits ''{"payload":{"amountIn":1,"minAmountOut":900,"targetAddress":"oct1abc","expiry":600000,"nonce":"n2"},"hash":"ab"}''\<close>

definition exEvmInput :: string where
  "exEvmInput = ''0x7b227061796c6f6164223a7b22616d6f756e74496e223a312c226d696e416d6f756e744f7574223a3930302c2274617267657441646472657373223a226f637431616263222c22657870697279223a3630303030302c226e6f6e6365223a226e32227d2c2268617368223a226162227d''"

definition exEvmBase64 :: "nat list" where
  "exEvmBase64 = codeUnits ''eyJwYXlsb2FkIjp7ImFtb3VudEluIjoxLCJtaW5BbW91bnRPdXQiOjkwMCwidGFyZ2V0QWRkcmVzcyI6Im9jdDFhYmMiLCJleHBpcnkiOjYwMDAwMCwibm9uY2UiOiJuMiJ9LCJoYXNoIjoiYWIifQ==''"

definition exEvmInputBase64 :: string where
  "exEvmInputBase64 = ''0x65794a7759586c736232466b496a7037496d46746233567564456c75496a6f784c434a746157354262573931626e5250645851694f6a6b774d437769644746795a3256305157526b636d567a63794936496d396a64444668596d4d694c434a6c65484270636e6b694f6a59774d4441774d437769626d3975593255694f694a754d694a394c434a6f59584e6f496a6f695957496966513d3d''"

definition exEvmPayload :: JSON where
  "exEvmPayload =
     JObj [(''amountIn'', JNum 1), (''minAmountOut'', JNum 900),
           (''targetAddress'', JStr ''oct1abc''), (''expiry'', JNum 600000),
           (''nonce'', JStr ''n2'')]"

definition exEvmEnvelope :: JSON where
  "exEvmEnvelope = JObj [(''payload'', exEvmPayload), (''hash'', JStr ''ab'')]"

text \<open>
  The same envelope with a \<open>version\<close> member in its payload: the texts for the versions 1
  and 2 differ in one byte.
\<close>

definition exEvmVersioned :: "real \<Rightarrow> JSON" where
  "exEvmVersioned v =
     JObj [(''payload'',
            JObj [(''version'', JNum v), (''amountIn'', JNum 1), (''minAmountOut'', JNum 900),
                  (''targetAddress'', JStr ''oct1abc''), (''expiry'', JNum 600000),
                  (''nonce'', JStr ''n2'')]),
           (''hash'', JStr ''ab'')]"

text \<open>
  Further inputs: the base64 call data with a no-break space (bytes \<open>c2 a0\<close>) in front;
  call data whose envelope has no hash and a number as target address; and an Octra memo
  that is the bare payload, with a negative amountIn and the minimum output 0.
\<close>

definition exEvmInputNbsp :: string where
  "exEvmInputNbsp = ''0xc2a065794a7759586c736232466b496a7037496d46746233567564456c75496a6f784c434a746157354262573931626e5250645851694f6a6b774d437769644746795a3256305157526b636d567a63794936496d396a64444668596d4d694c434a6c65484270636e6b694f6a59774d4441774d437769626d3975593255694f694a754d694a394c434a6f59584e6f496a6f695957496966513d3d''"

definition exNumText :: "nat list" where
  \<open>exNumText = codeUnits ''{"payload":{"amountIn":1,"minAmountOut":900,"targetAddress":5,"expiry":600000,"nonce":"n5"}}''\<close>

definition exNumInput :: string where
  "exNumInput = ''0x7b227061796c6f6164223a7b22616d6f756e74496e223a312c226d696e416d6f756e744f7574223a3930302c2274617267657441646472657373223a352c22657870697279223a3630303030302c226e6f6e6365223a226e35227d7d''"

definition exNumEnvelope :: JSON where
  "exNumEnvelope =
     JObj [(''payload'',
            JObj [(''amountIn'', JNum 1), (''minAmountOut'', JNum 900),
                  (''targetAddress'', JNum 5), (''expiry'', JNum 600000),
                  (''nonce'', JStr ''n5'')])]"

definition exNegMemoText :: "nat list" where
  \<open>exNegMemoText = codeUnits ''{"version":1,"intentType":"swap","fromAsset":"OCT","toAsset":"ETH","amountIn":-0.0000005,"minAmountOut":0,"targetChain":"ethereum_sepolia","targetAddress":"0x00000000000000000000000000000000000000aa","expiry":600000,"nonce":"n4"}''\<close>

definition exNegMemo :: JSON where
  "exNegMemo =
     JObj [(''version'', JNum 1), (''intentType'', JStr ''swap''), (''fromAsset'', JStr ''OCT''),
           (''toAsset'', JStr ''ETH''), (''amountIn'', JNum (- (1 / 2000000))),
           (''minAmountOut'', JNum 0), (''targetChain'', JStr ''ethereum_sepolia''),
           (''targetAddress'', JStr ''0x00000000000000000000000000000000000000aa''),
           (''expiry'', JNum 600000), (''nonce'', JStr ''n4'')]"

text \<open>
  A runtime for the examples: its decoders and its parser know the texts above, and its
  stringify and digest tell the canonical payload of the example envelope (digest \<open>ab\<close>)
  from every other value (digest \<open>cd\<close>); its driver binds strings only.
\<close>

definition exRuntime :: Runtime where
  "exRuntime =
     \<lparr>hexToUtf8 = (\<lambda>s. if s = drop 2 exEvmInput then exEvmText
                       else if s = drop 2 exEvmInputBase64 then exEvmBase64
                       else if s = drop 2 exEvmInputNbsp then 160 # exEvmBase64
                       else if s = drop 2 exNumInput then exNumText else []),
      base64ToUtf8 = (\<lambda>s. if s = exEvmBase64 \<or> s = 160 # exEvmBase64 then exEvmText else []),
      JSON_parse = (\<lambda>s. if s = exMemoText then Some (exMemoEnvelope ''00'')
                        else if s = exEvmText then Some exEvmEnvelope
                        else if s = exNumText then Some exNumEnvelope
                        else if s = exNegMemoText then Some exNegMemo else None),
      JSON_stringify = (\<lambda>v. if v = fullPayload exEvmPayload then ''canonical'' else ''other''),
      sha256Hex = (\<lambda>s. if s = ''canonical'' then ''ab'' else ''cd''),
      sqlBind = (\<lambda>v. Inl TypeError)\<rparr>"

text \<open>The example envelope with another nonce and the declared hash kept.\<close>

definition exEvmTampered :: JSON where
  "exEvmTampered =
     JObj [(''payload'',
            JObj [(''amountIn'', JNum 1), (''minAmountOut'', JNum 900),
                  (''targetAddress'', JStr ''oct1abc''), (''expiry'', JNum 600000),
                  (''nonce'', JStr ''n3'')]),
           (''hash'', JStr ''ab'')]"

definition exConfig :: SolverConfig where
  "exConfig = \<lparr>octraEscrowAddress = ''oct1escrow'', sepoliaEscrowAddress = ''0xEscrow'',
               cfg_feeBps = 50\<rparr>"

definition exState :: SolverState where
  "exState = \<lparr>db = \<lparr>intents = [], nonces = {}\<rparr>, oracleSt = defaultOracle, dispatched = []\<rparr>"

definition exOctTx :: "TxStatus \<Rightarrow> OctraTransaction" where
  "exOctTx s = \<lparr>otx_hash = ''octtx1'', otx_from = ''oct1user'', otx_to = ''oct1escrow'',
                otx_amount = 100, otx_message = Some exMemoText, otx_status = s\<rparr>"

definition exOctEnv :: "TxStatus \<Rightarrow> real \<Rightarrow> OctSubmitEnv" where
  "exOctEnv s balance =
     \<lparr>oe_tx = Some (exOctTx s), oe_now = 1000, oe_ethBalance = balance, oe_uuid = ''id-1'',
      oe_createdAt = 1001\<rparr>"

definition exEthTx :: "TxStatus \<Rightarrow> SepoliaTransaction" where
  "exEthTx s = \<lparr>stx_hash = ''0xethtx1'', stx_from = ''0xuser'', stx_to = ''0xescrow'',
                stx_value = 1000000000000000000, stx_status = s, stx_input = Some exEvmInput\<rparr>"

definition exEthEnv :: "TxStatus \<Rightarrow> real \<Rightarrow> EthSubmitEnv" where
  "exEthEnv s balance =
     \<lparr>ee_tx = Some (exEthTx s), ee_now = 1000, ee_octBalance = balance, ee_uuid = ''id-2'',
      ee_createdAt = 1001\<rparr>"

text \<open>
  What the parsers return for the example texts, and the rows the two example
  submissions store.
\<close>

definition exPayload :: SwapIntentPayload where
  "exPayload =
     \<lparr>p_version = 1, p_intentType = ''swap'', p_fromAsset = ''OCT'', p_toAsset = ''ETH'',
      p_amountIn = 100, p_minAmountOut = 0.099, p_targetChain = ''ethereum_sepolia'',
      p_targetAddress = ''0x00000000000000000000000000000000000000aa'',
      p_expiry = 600000, p_nonce = ''n1''\<rparr>"

definition exRow :: "IntentStatus \<Rightarrow> Intent" where
  "exRow s = \<lparr>i_intentId = ''id-1'', i_direction = OCT_TO_ETH,
               i_sourceAddress = ''oct1user'', i_sourceTxHash = ''octtx1'',
               i_amountIn = 100,
               i_targetAddress = ''0x00000000000000000000000000000000000000aa'',
               i_targetTxHash = None, i_amountOut = None, i_minAmountOut = 0.099,
               i_status = s, i_expiry = 600000, i_createdAt = 1001,
               i_fulfilledAt = None, i_error = None, i_payload = exPayload\<rparr>"

definition exEvmResult :: EvmPayload where
  "exEvmResult = \<lparr>ep_targetAddress = JStr ''oct1abc'', ep_minAmountOut = 900,
                   ep_expiry = 600000, ep_nonce = JStr ''n2''\<rparr>"

definition exEthPayload :: SwapIntentPayload where
  "exEthPayload =
     \<lparr>p_version = 1, p_intentType = ''swap'', p_fromAsset = ''ETH'', p_toAsset = ''OCT'',
      p_amountIn = 1, p_minAmountOut = 900, p_targetChain = ''octra_mainnet'',
      p_targetAddress = ''oct1abc'', p_expiry = 600000, p_nonce = ''n2''\<rparr>"

definition exEthRow :: "IntentStatus \<Rightarrow> Intent" where
  "exEthRow s = \<lparr>i_intentId = ''id-2'', i_direction = ETH_TO_OCT,
                  i_sourceAddress = ''0xuser'', i_sourceTxHash = ''0xethtx1'',
                  i_amountIn = 1, i_targetAddress = ''oct1abc'',
                  i_targetTxHash = None, i_amountOut = None, i_minAmountOut = 900,
                  i_status = s, i_expiry = 600000, i_createdAt = 1001,
                  i_fulfilledAt = None, i_error = None, i_payload = exEthPayload\<rparr>"

text \<open>The example state once the Octra deposit has been stored as PENDING.\<close>

definition exPendingState :: SolverState where
  "exPendingState = exState\<lparr>db := \<lparr>intents = [exRow PENDING], nonces = {''n1''}\<rparr>\<rparr>"

text \<open>
  The example state when the periodic check finds the pending intent after the oracle has
  recorded another swap (\<open>cb_state1\<close>), the state once the check has re-opened the intent,
  and a fulfilment whose send succeeds.
\<close>

definition exRetryState :: SolverState where
  "exRetryState = exPendingState\<lparr>oracleSt := cb_state1\<rparr>"

definition exReopenedState :: SolverState where
  "exReopenedState =
     exRetryState\<lparr>db := \<lparr>intents = [exRow OPEN], nonces = {''n1''}\<rparr>\<rparr>"

definition exFulfilEnv :: FulfilEnv where
  "exFulfilEnv = \<lparr>fe_now = 90001,
                   fe_result = \<lparr>sr_success = True, sr_txHash = Some ''0xpayout''\<rparr>,
                   fe_doneAt = 95000\<rparr>"

text \<open>
  The example state once the Sepolia deposit of 1 ETH has been stored as OPEN with the
  quote 995000/1001 OCT, and the state after its fulfilment.
\<close>

definition exEthOpenState :: SolverState where
  "exEthOpenState = exState\<lparr>db := \<lparr>intents = [exEthRow OPEN], nonces = {''n2''}\<rparr>\<rparr>"

definition exEthFulfilledState :: SolverState where
  "exEthFulfilledState =
     fulfillEthToOct defaultConfig exFulfilEnv ''id-2'' (995000 / 1001) exEthOpenState"

text \<open>
  Two calls of \<open>processOctToEthSubmission\<close> for the example deposit that overlap: the state
  once the first call has stored its intent as OPEN, once its fulfilment has started the
  send, the row the second call stores, and the state once the second call has stored it.
\<close>

definition exFirstStored :: SolverState where
  "exFirstStored = exState\<lparr>db := \<lparr>intents = [exRow OPEN], nonces = {''n1''}\<rparr>\<rparr>"

definition exFirstSent :: SolverState where
  "exFirstSent =
     exFirstStored\<lparr>dispatched :=
       [SendETH ''0x00000000000000000000000000000000000000aa'' (995 / 10001)]\<rparr>"

definition exSecondRow :: Intent where
  "exSecondRow = (exRow OPEN)\<lparr>i_intentId := ''id-3'', i_createdAt := 1002\<rparr>"

definition exSecondStored :: SolverState where
  "exSecondStored =
     exFirstSent\<lparr>db := \<lparr>intents = [exRow OPEN, exSecondRow], nonces = {''n1''}\<rparr>\<rparr>"

text \<open>
  The Sepolia deposit that carries the call data with the numeric target address, and
  what the verifier returns for it.
\<close>

definition exNumTx :: SepoliaTransaction where
  "exNumTx = \<lparr>stx_hash = ''0xethtx2'', stx_from = ''0xuser'', stx_to = ''0xescrow'',
              stx_value = 1000000000000000000, stx_status = confirmed,
              stx_input = Some exNumInput\<rparr>"

definition exNumEnv :: EthSubmitEnv where
  "exNumEnv = \<lparr>ee_tx = Some exNumTx, ee_now = 1000, ee_octBalance = 2000, ee_uuid = ''id-5'',
               ee_createdAt = 1001\<rparr>"

definition exNumResult :: EvmPayload where
  "exNumResult = \<lparr>ep_targetAddress = JNum 5, ep_minAmountOut = 900, ep_expiry = 600000,
                  ep_nonce = JStr ''n5''\<rparr>"

text \<open>
  The Octra deposit with the negative amountIn: a confirmed transaction of amount 0 to the
  escrow, the payload the parser returns for its memo, the row its submission stores, the
  state once it is stored as OPEN, and the state after its fulfilment.
\<close>

definition exNegPayload :: SwapIntentPayload where
  "exNegPayload =
     \<lparr>p_version = 1, p_intentType = ''swap'', p_fromAsset = ''OCT'', p_toAsset = ''ETH'',
      p_amountIn = - (1 / 2000000), p_minAmountOut = 0, p_targetChain = ''ethereum_sepolia'',
      p_targetAddress = ''0x00000000000000000000000000000000000000aa'',
      p_expiry = 600000, p_nonce = ''n4''\<rparr>"

definition exNegTx :: OctraTransaction where
  "exNegTx = \<lparr>otx_hash = ''octtx2'', otx_from = ''oct1user'', otx_to = ''oct1escrow'',
              otx_amount = 0, otx_message = Some exNegMemoText, otx_status = confirmed\<rparr>"

definition exNegEnv :: OctSubmitEnv where
  "exNegEnv = \<lparr>oe_tx = Some exNegTx, oe_now = 1000, oe_ethBalance = 10, oe_uuid = ''id-4'',
               oe_createdAt = 1001\<rparr>"

definition exNegRow :: "IntentStatus \<Rightarrow> Intent" where
  "exNegRow s = \<lparr>i_intentId = ''id-4'', i_direction = OCT_TO_ETH,
                  i_sourceAddress = ''oct1user'', i_sourceTxHash = ''octtx2'',
                  i_amountIn = - (1 / 2000000),
                  i_targetAddress = ''0x00000000000000000000000000000000000000aa'',
                  i_targetTxHash = None, i_amountOut = None, i_minAmountOut = 0,
                  i_status = s, i_expiry = 600000, i_createdAt = 1001,
                  i_fulfilledAt = None, i_error = None, i_payload = exNegPayload\<rparr>"

definition exNegOpenState :: SolverState where
  "exNegOpenState = exState\<lparr>db := \<lparr>intents = [exNegRow OPEN], nonces = {''n4''}\<rparr>\<rparr>"

definition exNegFulfilledState :: SolverState where
  "exNegFulfilledState = fulfillOctToEth defaultConfig exFulfilEnv ''id-4'' 0 exNegOpenState"

section \<open>Theorems\<close>

text \<open>
  Claim C1. For every input amount, direction and fee, the quote over the reserves
  (reserveIn, reserveOut, k) is
  max 0 ((reserveOut - k / (reserveIn + a)) * (1 - feeBps / 10000)):
  the constant-product output less the fee fraction, and it is never negative; it is 0
  whenever the net output would be negative.
\<close>

theorem C1_quote_formula:
  assumes "reserveIn orc direction + a \<noteq> 0"
  shows "quote orc direction a fee_bps =
           max 0 ((reserveOut orc direction - k (reserves orc) / (reserveIn orc direction + a))
                  * (1 - fee_bps / 10000))
         \<and> 0 \<le> quote orc direction a fee_bps
         \<and> (reserveOut orc direction - k (reserves orc) / (reserveIn orc direction + a) \<le> 0
              \<and> fee_bps \<le> 10000
            \<longrightarrow> quote orc direction a fee_bps = 0)"
proof -
  let ?gross = "reserveOut orc direction - k (reserves orc) / (reserveIn orc direction + a)"
  have eq: "quote orc direction a fee_bps = max 0 (?gross * (1 - fee_bps / 10000))"
    by (cases direction)
       (simp_all add: quote_def reserveIn_def reserveOut_def calculateEthOut_def
          calculateOctOut_def Let_def algebra_simps)
  have inv: "?gross * (1 - fee_bps / 10000) \<le> 0" if "?gross \<le> 0" "fee_bps \<le> 10000"
    using that by (simp add: mult_le_0_iff)
  show ?thesis
    using eq inv by auto
qed

lemma defaultOracle_reserves:
  "reserves defaultOracle = \<lparr>octReserve = 1000000, ethReserve = 1000, k = 1000000000\<rparr>"
  by (simp add: defaultOracle_def newPriceOracle_def recordPrice_def Let_def)

lemma defaultOracle_simps:
  "spotPrice defaultOracle = 1 / 1000" "emaPrice defaultOracle = 1 / 1000"
  "circuitBreakerActive defaultOracle = False"
  "twapDataPoints defaultOracle = [\<lparr>dp_price = 1 / 1000, dp_timestamp = 0, dp_weight = 0\<rparr>]"
  "volumeHistory defaultOracle = []" "resetTimers defaultOracle = []"
  by (simp_all add: defaultOracle_def newPriceOracle_def recordPrice_def Let_def)

lemma defaultOracle_ok: "reserves_ok defaultOracle"
  by (simp add: reserves_ok_def defaultOracle_reserves)

text \<open>
  Witness for C1: the default oracle quotes 100 OCT at 50 bps as 995/10001 ETH, and an
  input that would invert the reserves (a negative amount) is quoted as 0.
\<close>

theorem C1_quote_formula_witness:
  "reserveIn defaultOracle OCT_TO_ETH + 100 \<noteq> 0
   \<and> quote defaultOracle OCT_TO_ETH 100 50 = 995 / 10001
   \<and> reserveIn defaultOracle OCT_TO_ETH + (-100) \<noteq> 0
   \<and> reserveOut defaultOracle OCT_TO_ETH
        - k (reserves defaultOracle) / (reserveIn defaultOracle OCT_TO_ETH + (-100)) \<le> 0
   \<and> (50::real) \<le> 10000
   \<and> quote defaultOracle OCT_TO_ETH (-100) 50 = 0"
  using C1_quote_formula [of defaultOracle OCT_TO_ETH 100 50]
        C1_quote_formula [of defaultOracle OCT_TO_ETH "-100" 50]
  by (simp add: reserveIn_def reserveOut_def defaultOracle_reserves)

subsection \<open>Monotonicity and price impact of the quote\<close>

lemma gross_mono:
  fixes x y kk a b :: real
  assumes "0 < x" "0 \<le> kk" "0 \<le> a" "a \<le> b"
  shows "y - kk / (x + a) \<le> y - kk / (x + b)"
proof -
  have "kk / (x + b) \<le> kk / (x + a)"
    using assms by (intro divide_left_mono) (auto intro: mult_pos_pos)
  then show ?thesis by simp
qed

lemma gross_steady:
  fixes x y a :: real
  assumes "0 < x" "0 \<le> a"
  shows "y - (x * y) / (x + a) = y * a / (x + a)"
  using assms by (simp add: field_simps)

lemma net_mono:
  fixes x y a b c :: real
  assumes "0 < x" "0 < y" "0 \<le> a" "a \<le> b"
  shows "max 0 ((y - (x * y) / (x + a)) * c) \<le> max 0 ((y - (x * y) / (x + b)) * c)"
proof (cases "0 \<le> c")
  case True
  have "y - (x * y) / (x + a) \<le> y - (x * y) / (x + b)"
    using assms by (intro gross_mono) auto
  then have "(y - (x * y) / (x + a)) * c \<le> (y - (x * y) / (x + b)) * c"
    using True by (rule mult_right_mono)
  then show ?thesis by auto
next
  case False
  have ga: "0 \<le> y - (x * y) / (x + a)"
    using assms by (simp add: gross_steady)
  have gb: "0 \<le> y - (x * y) / (x + b)"
    using assms by (simp add: gross_steady)
  have "(y - (x * y) / (x + a)) * c \<le> 0" "(y - (x * y) / (x + b)) * c \<le> 0"
    using ga gb False by (auto simp: mult_le_0_iff)
  then show ?thesis by auto
qed

lemma impact_strict:
  fixes x y a :: real
  assumes "0 < x" "0 < y" "0 < a"
  shows "max 0 (y - (x * y) / (x + a)) < (y / x) * a"
proof -
  have "y - (x * y) / (x + a) = y * a / (x + a)"
    using assms by (simp add: gross_steady)
  moreover have "y * a / (x + a) < y * a / x"
    using assms by (intro divide_strict_left_mono) (auto intro: mult_pos_pos)
  moreover have "0 < (y / x) * a" using assms by simp
  ultimately show ?thesis by simp
qed

lemma percent_positive:
  fixes s e :: real
  shows "0 < s \<Longrightarrow> e < s \<Longrightarrow> 0 < (s - e) / s * 100"
    and "0 < s \<Longrightarrow> s < e \<Longrightarrow> 0 < (e - s) / s * 100"
  by simp_all

lemma impact_positive:
  assumes ok: "reserves_ok orc" and b: "0 < b" and sp: "spotPrice orc = calculateSpotPrice orc"
  shows "0 < pi_priceImpactPercent (calculatePriceImpact orc OCT_TO_ETH b)"
    and "0 < pi_priceImpactPercent (calculatePriceImpact orc ETH_TO_OCT b)"
proof -
  let ?x = "octReserve (reserves orc)" and ?y = "ethReserve (reserves orc)"
  have pos: "0 < ?x" "0 < ?y" and kk: "k (reserves orc) = ?x * ?y"
    using ok by (simp_all add: reserves_ok_def)
  have spot: "spotPrice orc = ?y / ?x" and spos: "0 < spotPrice orc"
    using pos by (simp_all add: sp calculateSpotPrice_def)
  have eth: "calculateEthOut orc b 0 = ?y * b / (?x + b)"
    using pos b gross_steady [of ?x b ?y]
    by (simp add: calculateEthOut_def Let_def kk)
  have oct: "calculateOctOut orc b 0 = ?x * b / (?y + b)"
    using pos b gross_steady [of ?y b ?x]
    by (simp add: calculateOctOut_def Let_def kk mult.commute)
  have "?y * b / (?x + b) / b = ?y / (?x + b)"
    using b by simp
  moreover have "?y / (?x + b) < ?y / ?x"
    using pos b by (intro divide_strict_left_mono) (auto intro: mult_pos_pos)
  ultimately have e1: "calculateEthOut orc b 0 / b < spotPrice orc"
    by (simp only: eth spot)
  have "b / (?x * b / (?y + b)) = (?y + b) / ?x"
    using pos b by simp
  moreover have "?y / ?x < (?y + b) / ?x"
    using pos b by (intro divide_strict_right_mono) auto
  ultimately have e2: "spotPrice orc < b / calculateOctOut orc b 0"
    by (simp only: oct spot)
  show "0 < pi_priceImpactPercent (calculatePriceImpact orc OCT_TO_ETH b)"
    using percent_positive(1) [OF spos e1]
    by (simp only: calculatePriceImpact_def Let_def SwapDirection.case PriceImpact.simps)
  show "0 < pi_priceImpactPercent (calculatePriceImpact orc ETH_TO_OCT b)"
    using percent_positive(2) [OF spos e2]
    by (simp only: calculatePriceImpact_def Let_def SwapDirection.case PriceImpact.simps)
qed

text \<open>
  Claim C8, as amended. For a fixed reserve state at steady state (positive reserves whose
  product is k), the quote is monotonically non-decreasing in the input amount over the
  non-negative amounts, for either direction and any fee; and for every input amount
  greater than 0 the fee-free quote is strictly less than the linear extrapolation at the
  price of the reserves: \<open>calculateSpotPrice\<close> (ETH per OCT) times the amount for OCT to
  ETH, and its inverse times the amount for ETH to OCT. While the field \<open>spotPrice\<close>
  equals the price of the reserves, the same holds against the field, and the price
  impact that \<open>calculatePriceImpact\<close> reports is positive in both directions.
\<close>

theorem C8_quote_monotone_impact:
  assumes "reserves_ok orc" "0 \<le> a" "a \<le> b"
  shows "quote orc direction a fee_bps \<le> quote orc direction b fee_bps
         \<and> (0 < b \<longrightarrow>
              quote orc OCT_TO_ETH b 0 < calculateSpotPrice orc * b
              \<and> quote orc ETH_TO_OCT b 0 < (1 / calculateSpotPrice orc) * b)
         \<and> (0 < b \<and> spotPrice orc = calculateSpotPrice orc \<longrightarrow>
              quote orc OCT_TO_ETH b 0 < spotPrice orc * b
              \<and> quote orc ETH_TO_OCT b 0 < (1 / spotPrice orc) * b
              \<and> 0 < pi_priceImpactPercent (calculatePriceImpact orc OCT_TO_ETH b)
              \<and> 0 < pi_priceImpactPercent (calculatePriceImpact orc ETH_TO_OCT b))"
proof -
  let ?x = "octReserve (reserves orc)" and ?y = "ethReserve (reserves orc)"
  have pos: "0 < ?x" "0 < ?y" and kk: "k (reserves orc) = ?x * ?y"
    using assms(1) by (simp_all add: reserves_ok_def)
  have mono: "quote orc direction a fee_bps \<le> quote orc direction b fee_bps"
  proof (cases direction)
    case OCT_TO_ETH
    show ?thesis
      using net_mono [OF pos(1) pos(2) assms(2) assms(3), of "1 - fee_bps / 10000"]
      by (simp add: OCT_TO_ETH quote_def calculateEthOut_def Let_def kk algebra_simps)
  next
    case ETH_TO_OCT
    show ?thesis
      using net_mono [OF pos(2) pos(1) assms(2) assms(3), of "1 - fee_bps / 10000"]
      by (simp add: ETH_TO_OCT quote_def calculateOctOut_def Let_def kk algebra_simps)
  qed
  have strict: "quote orc OCT_TO_ETH b 0 < calculateSpotPrice orc * b
              \<and> quote orc ETH_TO_OCT b 0 < (1 / calculateSpotPrice orc) * b" if "0 < b"
    using impact_strict [OF pos(1) pos(2) that] impact_strict [OF pos(2) pos(1) that]
    by (simp add: quote_def calculateEthOut_def calculateOctOut_def Let_def kk
          calculateSpotPrice_def mult.commute)
  have field: "quote orc OCT_TO_ETH b 0 < spotPrice orc * b
              \<and> quote orc ETH_TO_OCT b 0 < (1 / spotPrice orc) * b
              \<and> 0 < pi_priceImpactPercent (calculatePriceImpact orc OCT_TO_ETH b)
              \<and> 0 < pi_priceImpactPercent (calculatePriceImpact orc ETH_TO_OCT b)"
    if "0 < b \<and> spotPrice orc = calculateSpotPrice orc"
    using strict that impact_positive [OF assms(1), of b] by simp
  show ?thesis using mono strict field by blast
qed

text \<open>
  Witness for C8: on the default oracle, whose field \<open>spotPrice\<close> is the price of its
  reserves, 100 OCT is quoted no higher than 200 OCT, and 200 units are quoted below the
  spot extrapolation in both directions, with a positive price impact.
\<close>

theorem C8_quote_monotone_impact_witness:
  "reserves_ok defaultOracle \<and> (0::real) \<le> 100 \<and> (100::real) \<le> 200
   \<and> quote defaultOracle OCT_TO_ETH 100 50 \<le> quote defaultOracle OCT_TO_ETH 200 50
   \<and> (0::real) < 200
   \<and> quote defaultOracle OCT_TO_ETH 200 0 < calculateSpotPrice defaultOracle * 200
   \<and> quote defaultOracle ETH_TO_OCT 200 0 < (1 / calculateSpotPrice defaultOracle) * 200
   \<and> spotPrice defaultOracle = calculateSpotPrice defaultOracle
   \<and> quote defaultOracle OCT_TO_ETH 200 0 < spotPrice defaultOracle * 200
   \<and> quote defaultOracle ETH_TO_OCT 200 0 < (1 / spotPrice defaultOracle) * 200
   \<and> 0 < pi_priceImpactPercent (calculatePriceImpact defaultOracle OCT_TO_ETH 200)
   \<and> 0 < pi_priceImpactPercent (calculatePriceImpact defaultOracle ETH_TO_OCT 200)"
proof -
  have sp: "spotPrice defaultOracle = calculateSpotPrice defaultOracle"
    by (simp add: defaultOracle_simps calculateSpotPrice_def defaultOracle_reserves)
  show ?thesis
    using C8_quote_monotone_impact [OF defaultOracle_ok, of 100 200 OCT_TO_ETH 50] sp
    by (simp add: defaultOracle_ok)
qed

subsection \<open>The constant product across recordSwap\<close>

lemma reserves_frame [simp]:
  "reserves (updateEMA cfg orc) = reserves orc"
  "reserves (updateTWAP cfg now orc) = reserves orc"
  "reserves (triggerCircuitBreaker now p orc) = reserves orc"
  "reserves (recordPrice now r reason vol dir orc) = reserves orc"
  "reserves (cleanupVolumeHistory now orc) = reserves orc"
  "reserves (circuitBreakerTimeout orc) = reserves orc"
  by (simp_all add: updateEMA_def updateTWAP_def triggerCircuitBreaker_def recordPrice_def
        cleanupVolumeHistory_def circuitBreakerTimeout_def Let_def)

lemma spotPrice_frame [simp]:
  "spotPrice (updateEMA cfg orc) = spotPrice orc"
  "spotPrice (updateTWAP cfg now orc) = spotPrice orc"
  "spotPrice (recordPrice now r reason vol dir orc) = spotPrice orc"
  "spotPrice (cleanupVolumeHistory now orc) = spotPrice orc"
  "spotPrice (circuitBreakerTimeout orc) = spotPrice orc"
  by (simp_all add: updateEMA_def updateTWAP_def recordPrice_def
        cleanupVolumeHistory_def circuitBreakerTimeout_def Let_def)

lemma recordSwap_split:
  "recordSwap cfg now direction amount orc =
     (let orc6 = applyPriceBounds cfg (recordSwap_upto_bounds cfg now direction amount orc)
      in cleanupVolumeHistory now
           (recordPrice now (spotPrice orc6) swap (Some amount) (Some direction) orc6))"
  by (simp add: recordSwap_def recordSwap_upto_bounds_def Let_def)

lemma upto_bounds_reserves [simp]:
  "reserves (recordSwap_upto_bounds cfg now direction amount orc)
     = reserves (applyTrade now direction amount orc)"
  by (simp add: recordSwap_upto_bounds_def Let_def)

lemma applyTrade_reserves:
  assumes "reserves_ok orc" "0 \<le> amount"
  shows "reserveIn (applyTrade now direction amount orc) direction
           = reserveIn orc direction + amount"
    and "reserveOut (applyTrade now direction amount orc) direction
           = reserveOut orc direction - quote orc direction amount 0"
    and "reserveOut (applyTrade now direction amount orc) direction
           = k (reserves orc) / (reserveIn orc direction + amount)"
    and "k (reserves (applyTrade now direction amount orc)) = k (reserves orc)"
proof -
  let ?x = "octReserve (reserves orc)" and ?y = "ethReserve (reserves orc)"
  have pos: "0 < ?x" "0 < ?y" and kk: "k (reserves orc) = ?x * ?y"
    using assms(1) by (simp_all add: reserves_ok_def)
  have g1: "0 \<le> ?y - ?x * ?y / (?x + amount)"
    using pos assms(2) by (simp add: gross_steady)
  have g2: "0 \<le> ?x - ?y * ?x / (?y + amount)"
    using pos assms(2) by (simp add: gross_steady)
  show "reserveIn (applyTrade now direction amount orc) direction
           = reserveIn orc direction + amount"
    by (cases direction) (simp_all add: applyTrade_def reserveIn_def Let_def)
  show "reserveOut (applyTrade now direction amount orc) direction
           = reserveOut orc direction - quote orc direction amount 0"
    by (cases direction) (simp_all add: applyTrade_def reserveOut_def quote_def Let_def)
  show "reserveOut (applyTrade now direction amount orc) direction
           = k (reserves orc) / (reserveIn orc direction + amount)"
    using g1 g2
    by (cases direction)
       (simp_all add: applyTrade_def reserveOut_def reserveIn_def calculateEthOut_def
          calculateOctOut_def Let_def kk mult.commute)
  show "k (reserves (applyTrade now direction amount orc)) = k (reserves orc)"
    by (cases direction) (simp_all add: applyTrade_def Let_def)
qed

lemma reserves_ok_dir:
  "reserves_ok orc \<longleftrightarrow>
     0 < reserveIn orc direction \<and> 0 < reserveOut orc direction
     \<and> reserveIn orc direction * reserveOut orc direction = k (reserves orc)"
  by (cases direction) (auto simp: reserves_ok_def reserveIn_def reserveOut_def mult.commute)

lemma applyTrade_ok:
  assumes "reserves_ok orc" "0 \<le> amount"
  shows "reserves_ok (applyTrade now direction amount orc)"
proof -
  have pos: "0 < reserveIn orc direction" "0 < reserveOut orc direction"
    and kk: "reserveIn orc direction * reserveOut orc direction = k (reserves orc)"
    using assms(1) reserves_ok_dir [of orc direction] by simp_all
  have kpos: "0 < k (reserves orc)"
    using pos kk mult_pos_pos [OF pos] by simp
  have "0 < reserveIn orc direction + amount" using pos assms(2) by simp
  then show ?thesis
    using kpos
    by (simp add: reserves_ok_dir [of _ direction] applyTrade_reserves(1,3,4) [OF assms])
qed

lemma applyPriceBounds_k [simp]:
  "k (reserves (applyPriceBounds cfg orc)) = k (reserves orc)"
  by (simp add: applyPriceBounds_def Let_def)

lemma sqrt_resynth:
  fixes kk p :: real
  assumes "0 < kk" "0 < p"
  shows "0 < sqrt (kk / p)" "0 < sqrt (kk * p)" "sqrt (kk / p) * sqrt (kk * p) = kk"
proof -
  show "0 < sqrt (kk / p)" "0 < sqrt (kk * p)" using assms by simp_all
  have "sqrt (kk / p) * sqrt (kk * p) = sqrt ((kk / p) * (kk * p))"
    by (rule real_sqrt_mult [symmetric])
  also have "(kk / p) * (kk * p) = kk * kk" using assms by simp
  also have "sqrt (kk * kk) = kk" using assms by simp
  finally show "sqrt (kk / p) * sqrt (kk * p) = kk" .
qed

lemma applyPriceBounds_cases:
  "spotPrice (applyPriceBounds cfg orc) = spotPrice orc
     \<and> reserves (applyPriceBounds cfg orc) = reserves orc
   \<or> spotPrice (applyPriceBounds cfg orc) \<noteq> spotPrice orc
     \<and> spotPrice (applyPriceBounds cfg orc) \<in> {minRate cfg, maxRate cfg}
     \<and> octReserve (reserves (applyPriceBounds cfg orc))
         = sqrt (k (reserves orc) / spotPrice (applyPriceBounds cfg orc))
     \<and> ethReserve (reserves (applyPriceBounds cfg orc))
         = sqrt (k (reserves orc) * spotPrice (applyPriceBounds cfg orc))"
  by (simp add: applyPriceBounds_def Let_def)

lemma applyPriceBounds_ok:
  assumes "reserves_ok orc" "0 < minRate cfg" "0 < maxRate cfg"
  shows "reserves_ok (applyPriceBounds cfg orc)"
proof -
  have kpos: "0 < k (reserves orc)"
    using assms(1) unfolding reserves_ok_def by (metis mult_pos_pos)
  from applyPriceBounds_cases [of cfg orc] show ?thesis
  proof (elim disjE conjE)
    assume "reserves (applyPriceBounds cfg orc) = reserves orc"
    then show ?thesis using assms(1) by (simp add: reserves_ok_def)
  next
    assume p: "spotPrice (applyPriceBounds cfg orc) \<in> {minRate cfg, maxRate cfg}"
      and o: "octReserve (reserves (applyPriceBounds cfg orc))
         = sqrt (k (reserves orc) / spotPrice (applyPriceBounds cfg orc))"
      and e: "ethReserve (reserves (applyPriceBounds cfg orc))
         = sqrt (k (reserves orc) * spotPrice (applyPriceBounds cfg orc))"
    have "0 < spotPrice (applyPriceBounds cfg orc)" using p assms(2,3) by auto
    from sqrt_resynth [OF kpos this] show ?thesis
      by (simp add: reserves_ok_def o e)
  qed
qed

lemma reserves_ok_cong: "reserves orc' = reserves orc \<Longrightarrow> reserves_ok orc' = reserves_ok orc"
  by (simp add: reserves_ok_def)

lemma upto_bounds_ok:
  assumes "reserves_ok orc" "0 \<le> amount"
  shows "reserves_ok (recordSwap_upto_bounds cfg now direction amount orc)"
  using applyTrade_ok [OF assms, of now direction]
  by (simp add: reserves_ok_cong [OF upto_bounds_reserves])

lemma recordSwap_ok:
  assumes "reserves_ok orc" "0 \<le> amount" "0 < minRate cfg" "0 < maxRate cfg"
  shows "reserves_ok (recordSwap cfg now direction amount orc)"
    and "k (reserves (recordSwap cfg now direction amount orc)) = k (reserves orc)"
proof -
  have "reserves (recordSwap cfg now direction amount orc)
          = reserves (applyPriceBounds cfg (recordSwap_upto_bounds cfg now direction amount orc))"
    by (simp add: recordSwap_split Let_def)
  from reserves_ok_cong [OF this]
  show "reserves_ok (recordSwap cfg now direction amount orc)"
    using applyPriceBounds_ok [OF upto_bounds_ok [OF assms(1,2)] assms(3,4)]
    by simp
  show "k (reserves (recordSwap cfg now direction amount orc)) = k (reserves orc)"
    by (simp add: recordSwap_split Let_def applyTrade_reserves(4) [OF assms(1,2)])
qed

text \<open>
  The steady state is an invariant of every sequence of recorded swaps with non-negative
  amounts, from any steady state, and the stored constant never changes.
\<close>

lemma recordSwaps_ok:
  assumes "0 < minRate cfg" "0 < maxRate cfg"
  shows "reserves_ok orc \<Longrightarrow> \<forall>(t, d, a) \<in> set swaps. 0 \<le> a \<Longrightarrow>
         reserves_ok (recordSwaps cfg swaps orc)
         \<and> k (reserves (recordSwaps cfg swaps orc)) = k (reserves orc)"
proof (induction swaps arbitrary: orc)
  case Nil
  then show ?case by simp
next
  case (Cons s swaps)
  obtain t d a where s: "s = (t, d, a)" by (cases s) auto
  have a: "0 \<le> a" using Cons.prems(2) by (simp add: s)
  have ok: "reserves_ok (recordSwap cfg t d a orc)"
    and kk: "k (reserves (recordSwap cfg t d a orc)) = k (reserves orc)"
    using recordSwap_ok [OF Cons.prems(1) a assms] by simp_all
  show ?case
    using Cons.IH [OF ok] Cons.prems(2) kk by (simp add: s)
qed

text \<open>
  What \<open>recordSwap\<close> keeps when the amount is not negative. On a steady reserve state
  and with positive price bounds, the product of the two virtual reserves equals the
  stored constant k, which is unchanged: the trade update itself preserves the product;
  when the clamp changes the price the reserves are resynthesized as
  octReserve = sqrt (k / price) and ethReserve = sqrt (k * price), whose product is again
  k; and when it does not, the reserves are those of the trade update.
\<close>

lemma recordSwap_product:
  assumes "reserves_ok orc" "0 \<le> amount" "0 < minRate cfg" "0 < maxRate cfg"
  shows "(let t = applyTrade now direction amount orc;
              b = recordSwap_upto_bounds cfg now direction amount orc;
              r = recordSwap cfg now direction amount orc
          in octReserve (reserves t) * ethReserve (reserves t) = k (reserves orc)
           \<and> octReserve (reserves r) * ethReserve (reserves r) = k (reserves r)
           \<and> k (reserves r) = k (reserves orc)
           \<and> (spotPrice (applyPriceBounds cfg b) \<noteq> spotPrice b \<longrightarrow>
                octReserve (reserves r) = sqrt (k (reserves r) / spotPrice r)
                \<and> ethReserve (reserves r) = sqrt (k (reserves r) * spotPrice r))
           \<and> (spotPrice (applyPriceBounds cfg b) = spotPrice b \<longrightarrow>
                reserves r = reserves t))"
proof -
  let ?t = "applyTrade now direction amount orc"
  let ?b = "recordSwap_upto_bounds cfg now direction amount orc"
  let ?r = "recordSwap cfg now direction amount orc"
  have t: "octReserve (reserves ?t) * ethReserve (reserves ?t) = k (reserves orc)"
    using applyTrade_ok [OF assms(1,2), of now direction]
          applyTrade_reserves(4) [OF assms(1,2), of now direction]
    by (simp add: reserves_ok_def)
  have r: "octReserve (reserves ?r) * ethReserve (reserves ?r) = k (reserves ?r)"
    using recordSwap_ok(1) [OF assms, of now direction] by (simp add: reserves_ok_def)
  have kk: "k (reserves ?r) = k (reserves orc)"
    by (rule recordSwap_ok(2) [OF assms])
  have rr: "reserves ?r = reserves (applyPriceBounds cfg ?b)"
    and rs: "spotPrice ?r = spotPrice (applyPriceBounds cfg ?b)"
    by (simp_all add: recordSwap_split Let_def)
  have clamp: "octReserve (reserves ?r) = sqrt (k (reserves ?r) / spotPrice ?r)
                \<and> ethReserve (reserves ?r) = sqrt (k (reserves ?r) * spotPrice ?r)"
    if h: "spotPrice (applyPriceBounds cfg ?b) \<noteq> spotPrice ?b"
  proof -
    from applyPriceBounds_cases [of cfg ?b] h
    have "octReserve (reserves (applyPriceBounds cfg ?b))
            = sqrt (k (reserves ?b) / spotPrice (applyPriceBounds cfg ?b))
          \<and> ethReserve (reserves (applyPriceBounds cfg ?b))
            = sqrt (k (reserves ?b) * spotPrice (applyPriceBounds cfg ?b))"
      by blast
    then show ?thesis by (simp add: rr rs)
  qed
  have keep: "reserves ?r = reserves ?t"
    if "spotPrice (applyPriceBounds cfg ?b) = spotPrice ?b"
    using applyPriceBounds_cases [of cfg ?b] that by (simp add: rr)
  show ?thesis
    unfolding Let_def using t r kk clamp keep by blast
qed

lemma wideConfig_simps:
  "minRate wideConfig = 1 / 4000" "maxRate wideConfig = 2 / 1000"
  "maxPriceChangePercent wideConfig = 100" "emaAlpha wideConfig = 1 / 10"
  "twapWindowMs wideConfig = 900000"
  by (simp_all add: wideConfig_def defaultConfig_def)

lemma sqrt_values: "sqrt 4000000000000 = 2000000" "sqrt 250000 = 500"
  by (rule real_sqrt_unique; simp)+

lemma big_trade_reserves:
  "reserves (applyTrade 1000 OCT_TO_ETH 1500000 defaultOracle)
     = \<lparr>octReserve = 2500000, ethReserve = 400, k = 1000000000\<rparr>"
  by (simp add: applyTrade_def calculateEthOut_def Let_def defaultOracle_reserves)

lemma big_trade_upto:
  "spotPrice (recordSwap_upto_bounds wideConfig 1000 OCT_TO_ETH 1500000 defaultOracle) = 400 / 2500000"
  by (simp add: recordSwap_upto_bounds_def Let_def calculateSpotPrice_def big_trade_reserves
        defaultOracle_simps wideConfig_simps)

lemma big_trade_bounds:
  "spotPrice (applyPriceBounds wideConfig
      (recordSwap_upto_bounds wideConfig 1000 OCT_TO_ETH 1500000 defaultOracle)) = 1 / 4000"
  by (simp add: applyPriceBounds_def Let_def big_trade_upto wideConfig_simps)

text \<open>
  Two instances: on the default oracle, 1500000 OCT under the wide configuration drives
  the spot price below the lower bound, and the reserves are resynthesized to
  (2000000, 500) with product k; 100 OCT under the default configuration leaves the price
  inside the bounds and the reserves are those of the trade update.
\<close>

lemma recordSwap_product_example:
  "reserves_ok defaultOracle \<and> (0::real) \<le> 1500000
   \<and> 0 < minRate wideConfig \<and> 0 < maxRate wideConfig
   \<and> spotPrice (applyPriceBounds wideConfig
        (recordSwap_upto_bounds wideConfig 1000 OCT_TO_ETH 1500000 defaultOracle))
       \<noteq> spotPrice (recordSwap_upto_bounds wideConfig 1000 OCT_TO_ETH 1500000 defaultOracle)
   \<and> reserves (recordSwap wideConfig 1000 OCT_TO_ETH 1500000 defaultOracle)
       = \<lparr>octReserve = 2000000, ethReserve = 500, k = 1000000000\<rparr>
   \<and> spotPrice (applyPriceBounds defaultConfig
        (recordSwap_upto_bounds defaultConfig 1000 OCT_TO_ETH 100 defaultOracle))
       = spotPrice (recordSwap_upto_bounds defaultConfig 1000 OCT_TO_ETH 100 defaultOracle)
   \<and> reserves (recordSwap defaultConfig 1000 OCT_TO_ETH 100 defaultOracle)
       = reserves (applyTrade 1000 OCT_TO_ETH 100 defaultOracle)"
proof -
  have w: "0 < minRate wideConfig" "0 < maxRate wideConfig"
    by (simp_all add: wideConfig_simps)
  have d: "0 < minRate defaultConfig" "0 < maxRate defaultConfig"
    by (simp_all add: defaultConfig_def)
  have sp: "spotPrice (recordSwap wideConfig 1000 OCT_TO_ETH 1500000 defaultOracle) = 1 / 4000"
    by (simp add: recordSwap_split Let_def big_trade_bounds)
  have small: "spotPrice (applyPriceBounds defaultConfig
        (recordSwap_upto_bounds defaultConfig 1000 OCT_TO_ETH 100 defaultOracle))
       = spotPrice (recordSwap_upto_bounds defaultConfig 1000 OCT_TO_ETH 100 defaultOracle)"
    by (simp add: applyPriceBounds_def Let_def recordSwap_upto_bounds_def calculateSpotPrice_def
          applyTrade_def calculateEthOut_def defaultOracle_reserves defaultOracle_simps
          defaultConfig_def triggerCircuitBreaker_def)
  have r1: "reserves (recordSwap wideConfig 1000 OCT_TO_ETH 1500000 defaultOracle)
       = \<lparr>octReserve = 2000000, ethReserve = 500, k = 1000000000\<rparr>"
    using recordSwap_product [OF defaultOracle_ok _ w, of 1500000 1000 OCT_TO_ETH]
    by (simp add: Let_def big_trade_bounds big_trade_upto sp defaultOracle_reserves sqrt_values)
  have r2: "reserves (recordSwap defaultConfig 1000 OCT_TO_ETH 100 defaultOracle)
       = reserves (applyTrade 1000 OCT_TO_ETH 100 defaultOracle)"
    using recordSwap_product [OF defaultOracle_ok _ d, of 100 1000 OCT_TO_ETH] small
    by (simp add: Let_def)
  show ?thesis
    using r1 r2 small w by (simp add: defaultOracle_ok big_trade_bounds big_trade_upto)
qed

subsection \<open>The circuit breaker and the effective rate\<close>

lemma applyTrade_frame [simp]:
  "spotPrice (applyTrade now direction amount orc) = spotPrice orc"
  "emaPrice (applyTrade now direction amount orc) = emaPrice orc"
  "twapDataPoints (applyTrade now direction amount orc) = twapDataPoints orc"
  "circuitBreakerActive (applyTrade now direction amount orc) = circuitBreakerActive orc"
  "resetTimers (applyTrade now direction amount orc) = resetTimers orc"
  by (cases direction; simp add: applyTrade_def Let_def)+

lemma updateTWAP_frame [simp]:
  "emaPrice (updateTWAP cfg now orc) = emaPrice orc"
  "circuitBreakerActive (updateTWAP cfg now orc) = circuitBreakerActive orc"
  "resetTimers (updateTWAP cfg now orc) = resetTimers orc"
  by (simp_all add: updateTWAP_def Let_def)

lemma updateTWAP_cong:
  "twapDataPoints orc' = twapDataPoints orc \<Longrightarrow> spotPrice orc' = spotPrice orc \<Longrightarrow>
   twapDataPoints (updateTWAP cfg now orc') = twapDataPoints (updateTWAP cfg now orc)"
  by (simp add: updateTWAP_def Let_def)

lemma finish_frame [simp]:
  "emaPrice (recordPrice now r reason vol dir orc) = emaPrice orc"
  "twapDataPoints (recordPrice now r reason vol dir orc) = twapDataPoints orc"
  "circuitBreakerActive (recordPrice now r reason vol dir orc) = circuitBreakerActive orc"
  "resetTimers (recordPrice now r reason vol dir orc) = resetTimers orc"
  "emaPrice (cleanupVolumeHistory now orc) = emaPrice orc"
  "twapDataPoints (cleanupVolumeHistory now orc) = twapDataPoints orc"
  "circuitBreakerActive (cleanupVolumeHistory now orc) = circuitBreakerActive orc"
  "resetTimers (cleanupVolumeHistory now orc) = resetTimers orc"
  by (simp_all add: recordPrice_def cleanupVolumeHistory_def Let_def)

lemma applyPriceBounds_frame [simp]:
  "twapDataPoints (applyPriceBounds cfg orc) = twapDataPoints orc"
  "circuitBreakerActive (applyPriceBounds cfg orc) = circuitBreakerActive orc"
  "resetTimers (applyPriceBounds cfg orc) = resetTimers orc"
  "emaPrice (applyPriceBounds cfg orc) = max (minRate cfg) (min (maxRate cfg) (emaPrice orc))"
  "spotPrice (applyPriceBounds cfg orc) =
     (if spotPrice orc < minRate cfg then minRate cfg
      else if spotPrice orc > maxRate cfg then maxRate cfg else spotPrice orc)"
  by (simp_all add: applyPriceBounds_def Let_def)

lemma upto_bounds_fields:
  "spotPrice (recordSwap_upto_bounds cfg now direction amount orc) =
     (if swapPriceChange now direction amount orc > maxPriceChangePercent cfg
      then emaPrice orc else calculateSpotPrice (applyTrade now direction amount orc))"
  "circuitBreakerActive (recordSwap_upto_bounds cfg now direction amount orc) =
     (swapPriceChange now direction amount orc > maxPriceChangePercent cfg
      \<or> circuitBreakerActive orc)"
  "resetTimers (recordSwap_upto_bounds cfg now direction amount orc) =
     (if swapPriceChange now direction amount orc > maxPriceChangePercent cfg
      then resetTimers orc @ [now + 5 * 60 * 1000] else resetTimers orc)"
  "emaPrice (recordSwap_upto_bounds cfg now direction amount orc) =
     emaAlpha cfg * spotPrice (recordSwap_upto_bounds cfg now direction amount orc)
       + (1 - emaAlpha cfg) * emaPrice orc"
  by (simp_all add: recordSwap_upto_bounds_def swapPriceChange_def Let_def
        triggerCircuitBreaker_def updateEMA_def)

lemma upto_bounds_twap:
  "twapDataPoints (recordSwap_upto_bounds cfg now direction amount orc) =
     twapDataPoints (updateTWAP cfg now
       (orc\<lparr>spotPrice := spotPrice (recordSwap_upto_bounds cfg now direction amount orc)\<rparr>))"
  unfolding recordSwap_upto_bounds_def Let_def
  by (rule updateTWAP_cong) (simp_all add: triggerCircuitBreaker_def updateEMA_def)

lemma recordSwap_fields:
  "circuitBreakerActive (recordSwap cfg now direction amount orc)
     = circuitBreakerActive (recordSwap_upto_bounds cfg now direction amount orc)"
  "resetTimers (recordSwap cfg now direction amount orc)
     = resetTimers (recordSwap_upto_bounds cfg now direction amount orc)"
  "twapDataPoints (recordSwap cfg now direction amount orc)
     = twapDataPoints (recordSwap_upto_bounds cfg now direction amount orc)"
  "emaPrice (recordSwap cfg now direction amount orc)
     = max (minRate cfg) (min (maxRate cfg)
         (emaPrice (recordSwap_upto_bounds cfg now direction amount orc)))"
  "spotPrice (recordSwap cfg now direction amount orc)
     = spotPrice (applyPriceBounds cfg (recordSwap_upto_bounds cfg now direction amount orc))"
  by (simp_all add: recordSwap_split Let_def del: applyPriceBounds_frame(5))

lemma defaultConfig_simps:
  "initialRate defaultConfig = 1 / 1000" "minRate defaultConfig = 1 / 2000"
  "maxRate defaultConfig = 1 / 500" "emaAlpha defaultConfig = 1 / 10"
  "twapWindowMs defaultConfig = 900000" "maxPriceChangePercent defaultConfig = 10"
  "feeBps defaultConfig = 50"
  by (simp_all add: defaultConfig_def)

lemma cb1_trade:
  "reserves (applyTrade 60000 OCT_TO_ETH 10000 defaultOracle)
     = \<lparr>octReserve = 1010000, ethReserve = 100000 / 101, k = 1000000000\<rparr>"
  by (simp add: applyTrade_def calculateEthOut_def Let_def defaultOracle_reserves)

lemma cb1_change: "swapPriceChange 60000 OCT_TO_ETH 10000 defaultOracle = 20100 / 10201"
  by (simp add: swapPriceChange_def calculateSpotPrice_def cb1_trade defaultOracle_simps)

lemma cb1_upto:
  "spotPrice (recordSwap_upto_bounds defaultConfig 60000 OCT_TO_ETH 10000 defaultOracle)
     = 10 / 10201"
  by (simp add: upto_bounds_fields cb1_change calculateSpotPrice_def cb1_trade defaultConfig_simps)

lemma cb_state1_simps:
  "reserves cb_state1 = \<lparr>octReserve = 1010000, ethReserve = 100000 / 101, k = 1000000000\<rparr>"
  "spotPrice cb_state1 = 10 / 10201"
  "emaPrice cb_state1 = 1 / 10201 + 9 / 10000"
  "circuitBreakerActive cb_state1 = False"
  "resetTimers cb_state1 = []"
proof -
  have b: "spotPrice (applyPriceBounds defaultConfig
             (recordSwap_upto_bounds defaultConfig 60000 OCT_TO_ETH 10000 defaultOracle))
           = 10 / 10201"
    by (simp add: cb1_upto defaultConfig_simps)
  then show "spotPrice cb_state1 = 10 / 10201"
    by (simp add: cb_state1_def recordSwap_fields(5))
  have "reserves cb_state1 = reserves (applyTrade 60000 OCT_TO_ETH 10000 defaultOracle)"
    using applyPriceBounds_cases
            [of defaultConfig "recordSwap_upto_bounds defaultConfig 60000 OCT_TO_ETH 10000 defaultOracle"]
          b
    by (simp add: cb_state1_def recordSwap_split Let_def cb1_upto del: applyPriceBounds_frame(5))
  then show "reserves cb_state1
     = \<lparr>octReserve = 1010000, ethReserve = 100000 / 101, k = 1000000000\<rparr>"
    by (simp add: cb1_trade)
  show "emaPrice cb_state1 = 1 / 10201 + 9 / 10000"
    by (simp add: cb_state1_def recordSwap_fields(4) upto_bounds_fields(4) cb1_upto
          defaultOracle_simps defaultConfig_simps)
  show "circuitBreakerActive cb_state1 = False"
    by (simp add: cb_state1_def recordSwap_fields(1) upto_bounds_fields(2) cb1_change
          defaultOracle_simps defaultConfig_simps)
  show "resetTimers cb_state1 = []"
    by (simp add: cb_state1_def recordSwap_fields(2) upto_bounds_fields(3) cb1_change
          defaultOracle_simps defaultConfig_simps)
qed

lemma cb_state1_twap:
  "twapDataPoints cb_state1 =
     [\<lparr>dp_price = 1 / 1000, dp_timestamp = 0, dp_weight = 60000\<rparr>,
      \<lparr>dp_price = 10 / 10201, dp_timestamp = 60000, dp_weight = 0\<rparr>]"
  by (simp add: cb_state1_def recordSwap_fields(3) upto_bounds_twap cb1_upto updateTWAP_def
        Let_def defaultOracle_simps defaultConfig_simps)

lemma cb2_trade:
  "reserves (applyTrade 120000 OCT_TO_ETH 200000 cb_state1)
     = \<lparr>octReserve = 1210000, ethReserve = 100000 / 121, k = 1000000000\<rparr>"
  by (simp add: applyTrade_def calculateEthOut_def Let_def cb_state1_simps)

lemma cb2_change: "swapPriceChange 120000 OCT_TO_ETH 200000 cb_state1 = 444000 / 14641"
  by (simp add: swapPriceChange_def calculateSpotPrice_def cb2_trade cb_state1_simps)

lemma cb2_upto:
  "spotPrice (recordSwap_upto_bounds defaultConfig 120000 OCT_TO_ETH 200000 cb_state1)
     = 1 / 10201 + 9 / 10000"
  by (simp add: upto_bounds_fields cb2_change cb_state1_simps defaultConfig_simps)

lemma cb_state2_simps:
  "spotPrice cb_state2 = 1 / 10201 + 9 / 10000"
  "emaPrice cb_state2 = 1 / 10201 + 9 / 10000"
  "circuitBreakerActive cb_state2 = True"
  "resetTimers cb_state2 = [420000]"
proof -
  show "spotPrice cb_state2 = 1 / 10201 + 9 / 10000"
    by (simp add: cb_state2_def recordSwap_fields(5) cb2_upto defaultConfig_simps)
  show "emaPrice cb_state2 = 1 / 10201 + 9 / 10000"
    by (simp add: cb_state2_def recordSwap_fields(4) upto_bounds_fields(4) cb2_upto
          cb_state1_simps defaultConfig_simps)
  show "circuitBreakerActive cb_state2 = True"
    by (simp add: cb_state2_def recordSwap_fields(1) upto_bounds_fields(2) cb2_change
          defaultConfig_simps)
  show "resetTimers cb_state2 = [420000]"
    by (simp add: cb_state2_def recordSwap_fields(2) upto_bounds_fields(3) cb2_change
          cb_state1_simps defaultConfig_simps)
qed

lemma cb_state2_twap:
  "twapDataPoints cb_state2 =
     [\<lparr>dp_price = 1 / 1000, dp_timestamp = 0, dp_weight = 60000\<rparr>,
      \<lparr>dp_price = 10 / 10201, dp_timestamp = 60000, dp_weight = 60000\<rparr>,
      \<lparr>dp_price = 1 / 10201 + 9 / 10000, dp_timestamp = 120000, dp_weight = 0\<rparr>]"
  by (simp add: cb_state2_def recordSwap_fields(3) upto_bounds_twap cb2_upto updateTWAP_def
        Let_def cb_state1_twap defaultConfig_simps)

lemma cb_rate_150000:
  "fst (fst (getRate defaultConfig 150000 cb_state2))
     = (60 + 600000 / 10201 + 30000 * (1 / 10201 + 9 / 10000)) / 150000"
  by (simp add: getRate_def getEffectivePrice_def calculateTWAP_def updateTWAP_def Let_def
        cb_state2_simps cb_state2_twap defaultConfig_simps)

text \<open>
  The claim as stated fails on the two swaps from the default oracle: the second swap
  moves the spot price by more than the threshold and sets the breaker, and 30 seconds
  later, inside the cooldown and with no reset yet run, the rate returned by
  \<open>getRate\<close> differs from the EMA before that swap.
\<close>

theorem C6_counterexample:
  "swapPriceChange 120000 OCT_TO_ETH 200000 cb_state1 > maxPriceChangePercent defaultConfig
   \<and> cb_state2 = recordSwap defaultConfig 120000 OCT_TO_ETH 200000 cb_state1
   \<and> circuitBreakerActive cb_state2
   \<and> runTimers 150000 cb_state2 = cb_state2
   \<and> fst (fst (getRate defaultConfig 150000 cb_state2)) \<noteq> emaPrice cb_state1"
  by (simp add: cb2_change cb_rate_150000 cb_state2_simps cb_state1_simps runTimers_def Let_def
        defaultConfig_simps cb_state2_def [symmetric])

lemma runTimers_fields:
  "circuitBreakerActive (runTimers t orc)
     = (circuitBreakerActive orc \<and> (\<forall>d \<in> set (resetTimers orc). \<not> d \<le> t))"
  "emaPrice (runTimers t orc) = emaPrice orc"
  "spotPrice (runTimers t orc) = spotPrice orc"
  "twapDataPoints (runTimers t orc) = twapDataPoints orc"
  "reserves (runTimers t orc) = reserves orc"
  by (auto simp: runTimers_def Let_def circuitBreakerTimeout_def filter_empty_conv)

lemma getRate_fields:
  "snd (getRate cfg t orc) = updateTWAP cfg t orc"
  "fst (fst (getRate cfg t orc)) =
     (if circuitBreakerActive orc then calculateTWAP (updateTWAP cfg t orc)
      else emaPrice orc * 0.7 + calculateTWAP (updateTWAP cfg t orc) * 0.3)"
  by (simp_all add: getRate_def getEffectivePrice_def Let_def)

text \<open>
  Claim C6, as amended. Whenever a recorded swap moves the spot price by more than the
  configured threshold percentage, the breaker flag is set, the spot price falls back to
  the pre-trade EMA (before the bounds are applied) and a reset is registered for 5
  minutes later. While no registered reset is due the flag stays set and the effective
  rate returned by \<open>getRate\<close> is the TWAP alone; once 5 minutes have passed and the
  resets have run, the flag is cleared and the effective rate is again the blend
  0.7 * EMA + 0.3 * TWAP.
\<close>

theorem C6_circuit_breaker_twap:
  assumes "swapPriceChange now direction amount orc > maxPriceChangePercent cfg"
  shows "(let r = recordSwap cfg now direction amount orc
          in circuitBreakerActive r
           \<and> spotPrice (recordSwap_upto_bounds cfg now direction amount orc) = emaPrice orc
           \<and> resetTimers r = resetTimers orc @ [now + 5 * 60 * 1000]
           \<and> ((\<forall>d \<in> set (resetTimers r). t < d) \<longrightarrow>
                circuitBreakerActive (runTimers t r)
                \<and> fst (fst (getRate cfg t (runTimers t r)))
                    = calculateTWAP (snd (getRate cfg t (runTimers t r))))
           \<and> (now + 5 * 60 * 1000 \<le> t' \<longrightarrow>
                \<not> circuitBreakerActive (runTimers t' r)
                \<and> fst (fst (getRate cfg t' (runTimers t' r)))
                    = emaPrice r * 0.7
                      + calculateTWAP (snd (getRate cfg t' (runTimers t' r))) * 0.3))"
proof -
  let ?r = "recordSwap cfg now direction amount orc"
  have flag: "circuitBreakerActive ?r"
    using assms by (simp add: recordSwap_fields(1) upto_bounds_fields(2))
  have spot: "spotPrice (recordSwap_upto_bounds cfg now direction amount orc) = emaPrice orc"
    using assms by (simp add: upto_bounds_fields(1))
  have timers: "resetTimers ?r = resetTimers orc @ [now + 5 * 60 * 1000]"
    using assms by (simp add: recordSwap_fields(2) upto_bounds_fields(3))
  have during: "circuitBreakerActive (runTimers t ?r)
                \<and> fst (fst (getRate cfg t (runTimers t ?r)))
                    = calculateTWAP (snd (getRate cfg t (runTimers t ?r)))"
    if "\<forall>d \<in> set (resetTimers ?r). t < d"
  proof -
    have "circuitBreakerActive (runTimers t ?r)"
      using that flag by (auto simp: runTimers_fields(1))
    then show ?thesis by (simp add: getRate_fields)
  qed
  have after: "\<not> circuitBreakerActive (runTimers t' ?r)
                \<and> fst (fst (getRate cfg t' (runTimers t' ?r)))
                    = emaPrice ?r * 0.7
                      + calculateTWAP (snd (getRate cfg t' (runTimers t' ?r))) * 0.3"
    if "now + 5 * 60 * 1000 \<le> t'"
  proof -
    have "\<not> circuitBreakerActive (runTimers t' ?r)"
      using that by (simp add: runTimers_fields(1) timers)
    then show ?thesis by (simp add: getRate_fields runTimers_fields(2))
  qed
  show ?thesis
    unfolding Let_def using flag spot timers during after by blast
qed

lemma cb_rate_420000:
  "fst (fst (getRate defaultConfig 420000 (runTimers 420000 cb_state2)))
     = (1 / 10201 + 9 / 10000) * 0.7
       + ((60 + 600000 / 10201 + 300000 * (1 / 10201 + 9 / 10000)) / 420000) * 0.3"
  by (simp add: getRate_fields runTimers_fields calculateTWAP_def updateTWAP_def Let_def
        cb_state2_simps cb_state2_twap defaultConfig_simps)

text \<open>
  Witness for C6: the second of the two swaps, observed 30 seconds and 5 minutes later.
\<close>

theorem C6_circuit_breaker_twap_witness:
  "swapPriceChange 120000 OCT_TO_ETH 200000 cb_state1 > maxPriceChangePercent defaultConfig
   \<and> resetTimers cb_state2 = [420000] \<and> (150000::real) < 420000
   \<and> circuitBreakerActive (runTimers 150000 cb_state2)
   \<and> fst (fst (getRate defaultConfig 150000 (runTimers 150000 cb_state2)))
       = calculateTWAP (snd (getRate defaultConfig 150000 (runTimers 150000 cb_state2)))
   \<and> (120000::real) + 5 * 60 * 1000 \<le> 420000
   \<and> \<not> circuitBreakerActive (runTimers 420000 cb_state2)
   \<and> fst (fst (getRate defaultConfig 420000 (runTimers 420000 cb_state2)))
       = emaPrice cb_state2 * 0.7
         + calculateTWAP (snd (getRate defaultConfig 420000 (runTimers 420000 cb_state2))) * 0.3"
proof -
  have trig: "swapPriceChange 120000 OCT_TO_ETH 200000 cb_state1
                > maxPriceChangePercent defaultConfig"
    by (simp add: cb2_change defaultConfig_simps)
  show ?thesis
    using C6_circuit_breaker_twap [OF trig, of 150000 420000] trig
    by (simp add: Let_def cb_state2_def [symmetric] cb_state2_simps)
qed

subsection \<open>Store lemmas\<close>

lemma getIntentByTxHash_None:
  "getIntentByTxHash d h = None \<longleftrightarrow> h \<notin> set (map i_sourceTxHash (intents d))"
  by (auto simp: getIntentByTxHash_def find_None_iff)

lemma getIntentByTxHash_Some:
  "getIntentByTxHash d h = Some row \<Longrightarrow> row \<in> set (intents d) \<and> i_sourceTxHash row = h"
  by (auto simp: getIntentByTxHash_def find_Some_iff)

lemma updateIntent_frame:
  "map i_sourceTxHash (intents (updateIntent intentId updates d)) = map i_sourceTxHash (intents d)"
  "map i_intentId (intents (updateIntent intentId updates d)) = map i_intentId (intents d)"
  "nonces (updateIntent intentId updates d) = nonces d"
  "length (intents (updateIntent intentId updates d)) = length (intents d)"
  by (auto simp: updateIntent_def Let_def split: option.splits)

lemma storedRow_fields [simp]:
  "i_intentId (storedRow intent) = i_intentId intent"
  "i_sourceTxHash (storedRow intent) = i_sourceTxHash intent"
  "i_status (storedRow intent) = i_status intent"
  "i_direction (storedRow intent) = i_direction intent"
  "i_amountIn (storedRow intent) = i_amountIn intent"
  "i_minAmountOut (storedRow intent) = i_minAmountOut intent"
  "i_expiry (storedRow intent) = i_expiry intent"
  "i_payload (storedRow intent) = i_payload intent"
  "i_targetAddress (storedRow intent) = toLowerCase (i_targetAddress intent)"
  by (simp_all add: storedRow_def)

lemma store_add_eq:
  "store_add intent d =
     (if getIntent d (i_intentId intent) \<noteq> None then Inl SqliteConstraint
      else Inr \<lparr>intents = intents d @ [storedRow intent],
                nonces = insert (p_nonce (i_payload intent)) (nonces d)\<rparr>)"
  by (simp add: store_add_def addIntent_def addNonce_def)

lemma expireLoop_frame:
  "map i_sourceTxHash (intents (expireLoop now rows d)) = map i_sourceTxHash (intents d)"
  "nonces (expireLoop now rows d) = nonces d"
  by (induction rows arbitrary: d) (simp_all add: updateIntent_frame)

lemma processOct_existing:
  "getIntentByTxHash (db st) h = Some existing \<Longrightarrow>
   processOctToEthSubmission rt scfg env h st =
     Inr (\<lparr>r_intentId = i_intentId existing, r_status = i_status existing,
           r_message = AlreadySubmitted\<rparr>, st, None)"
  by (simp add: processOctToEthSubmission_def)

lemma validateIntentPayload_None:
  "validateIntentPayload now payload tx escrow = None \<longleftrightarrow>
     otx_to tx = escrow \<and> \<bar>otx_amount tx - p_amountIn payload\<bar> \<le> 0.000001
     \<and> now \<le> p_expiry payload \<and> isEvmAddress (p_targetAddress payload)"
  by (simp add: validateIntentPayload_def not_less)

lemma processOct_invalid:
  assumes new: "getIntentByTxHash (db st) h = None" and inv: "\<not> octToEthValid rt scfg env st"
  shows "\<exists>m. processOctToEthSubmission rt scfg env h st = Inr (rejected m, st, None)"
proof (cases "oe_tx env")
  case None
  then show ?thesis by (auto simp: processOctToEthSubmission_def new)
next
  case (Some tx)
  show ?thesis
  proof (cases "otx_status tx = confirmed")
    case False
    then show ?thesis by (auto simp: processOctToEthSubmission_def new Some)
  next
    case conf: True
    show ?thesis
    proof (cases "parseIntentPayload rt (otx_message tx)")
      case None
      then show ?thesis by (auto simp: processOctToEthSubmission_def new Some conf)
    next
      case parsed: (Some payload)
      show ?thesis
      proof (cases "validateIntentPayload (oe_now env) payload tx (octraEscrowAddress scfg)")
        case (Some err)
        then show ?thesis
          by (auto simp: processOctToEthSubmission_def new \<open>oe_tx env = Some tx\<close> conf parsed)
      next
        case valid: None
        have rest: "p_nonce payload \<in> nonces (db st)
                    \<or> calculateEthOut (oracleSt st) (p_amountIn payload) (cfg_feeBps scfg)
                         < p_minAmountOut payload"
          using inv valid [unfolded validateIntentPayload_None]
          by (auto simp: octToEthValid_def \<open>oe_tx env = Some tx\<close> conf parsed)
        then show ?thesis
          by (auto simp: processOctToEthSubmission_def new \<open>oe_tx env = Some tx\<close> conf parsed
                valid isNonceUsed_def Let_def)
      qed
    qed
  qed
qed

lemma processOct_valid:
  assumes new: "getIntentByTxHash (db st) h = None" and ok: "octToEthValid rt scfg env st"
    and res: "processOctToEthSubmission rt scfg env h st = Inr (resp, st', task)"
  shows "\<exists>row. intents (db st') = intents (db st) @ [row]
           \<and> nonces (db st') = insert (p_nonce (i_payload row)) (nonces (db st))
           \<and> oracleSt st' = oracleSt st \<and> dispatched st' = dispatched st
           \<and> i_intentId row = oe_uuid env \<and> r_intentId resp = oe_uuid env
           \<and> i_sourceTxHash row = h
           \<and> i_direction row = OCT_TO_ETH
           \<and> i_status row = r_status resp
           \<and> r_status resp = (if oe_ethBalance env \<ge> octQuote rt scfg env st * LIQUIDITY_BUFFER
                               then OPEN else PENDING)
           \<and> task = (if oe_ethBalance env \<ge> octQuote rt scfg env st * LIQUIDITY_BUFFER
                      then Some (oe_uuid env, octQuote rt scfg env st) else None)"
proof -
  from ok obtain tx payload where tx: "oe_tx env = Some tx"
    and conf: "otx_status tx = confirmed"
    and parsed: "parseIntentPayload rt (otx_message tx) = Some payload"
    and valid: "validateIntentPayload (oe_now env) payload tx (octraEscrowAddress scfg) = None"
    and nonce: "\<not> isNonceUsed (db st) (p_nonce payload)"
    and out: "\<not> calculateEthOut (oracleSt st) (p_amountIn payload) (cfg_feeBps scfg)
                < p_minAmountOut payload"
    by (auto simp: octToEthValid_def validateIntentPayload_None isNonceUsed_def
          split: option.splits)
  have q: "octQuote rt scfg env st
             = calculateEthOut (oracleSt st) (p_amountIn payload) (cfg_feeBps scfg)"
    by (simp add: octQuote_def tx parsed)
  show ?thesis
    using res
    by (auto simp: processOctToEthSubmission_def new tx conf parsed valid nonce out q Let_def
          store_add_eq split: if_splits)
qed

lemma processEth_existing:
  "getIntentByTxHash (db st) h = Some existing \<Longrightarrow>
   processEthToOctSubmission rt scfg env h st =
     Inr (\<lparr>r_intentId = i_intentId existing, r_status = i_status existing,
           r_message = AlreadySubmitted\<rparr>, st, None)"
  by (simp add: processEthToOctSubmission_def)

lemma processEth_invalid:
  assumes new: "getIntentByTxHash (db st) h = None" and inv: "\<not> ethToOctValid rt scfg env st"
    and res: "processEthToOctSubmission rt scfg env h st = Inr (resp, st', task)"
  shows "\<exists>m. resp = rejected m \<and> st' = st \<and> task = None"
proof (cases "ee_tx env")
  case None
  then show ?thesis using res by (auto simp: processEthToOctSubmission_def new)
next
  case (Some tx)
  note tx = this
  let ?input = "case stx_input tx of Some i \<Rightarrow> i | None \<Rightarrow> []"
  show ?thesis
  proof (cases "stx_status tx = confirmed
                \<and> toLowerCase (stx_to tx) = toLowerCase (sepoliaEscrowAddress scfg)")
    case False
    then show ?thesis using res
      by (auto simp: processEthToOctSubmission_def new tx split: if_splits)
  next
    case pre: True
    show ?thesis
    proof (cases "parseAndVerifyEvmEnvelope rt ?input")
      case (Inl err)
      then show ?thesis using res pre
        by (auto simp: processEthToOctSubmission_def new tx)
    next
      case verified: (Inr intentData)
      from res pre verified obtain target where target: "ep_targetAddress intentData = JStr target"
        by (cases "ep_targetAddress intentData")
           (auto simp: processEthToOctSubmission_def new tx)
      show ?thesis
      proof (cases "startsWith target ''oct'' \<and> ee_now env \<le> ep_expiry intentData")
        case False
        then show ?thesis using res pre
          by (auto simp: processEthToOctSubmission_def new tx verified target split: if_splits)
      next
        case pre2: True
        from res pre pre2 obtain nonce where nonce: "nonceKey rt (ep_nonce intentData) = Inr nonce"
          by (cases "nonceKey rt (ep_nonce intentData)")
             (auto simp: processEthToOctSubmission_def new tx verified target)
        have rest: "nonce \<in> nonces (db st)
                    \<or> stx_value tx / 1000000000000000000 \<le> 0
                    \<or> calculateOctOut (oracleSt st) (stx_value tx / 1000000000000000000)
                          (cfg_feeBps scfg) < ep_minAmountOut intentData"
          using inv pre pre2
          by (auto simp: ethToOctValid_def tx verified target nonce strOf_def not_less)
        then show ?thesis using res pre pre2
          by (auto simp: processEthToOctSubmission_def new tx verified target nonce
                isNonceUsed_def Let_def split: if_splits)
      qed
    qed
  qed
qed

lemma processEth_valid:
  assumes new: "getIntentByTxHash (db st) h = None" and ok: "ethToOctValid rt scfg env st"
    and res: "processEthToOctSubmission rt scfg env h st = Inr (resp, st', task)"
  shows "\<exists>row. intents (db st') = intents (db st) @ [row]
           \<and> nonces (db st') = insert (p_nonce (i_payload row)) (nonces (db st))
           \<and> oracleSt st' = oracleSt st \<and> dispatched st' = dispatched st
           \<and> i_intentId row = ee_uuid env \<and> r_intentId resp = ee_uuid env
           \<and> i_sourceTxHash row = h
           \<and> i_direction row = ETH_TO_OCT
           \<and> i_status row = r_status resp
           \<and> r_status resp = (if ee_octBalance env \<ge> ethQuote scfg env st * LIQUIDITY_BUFFER
                               then OPEN else PENDING)
           \<and> task = (if ee_octBalance env \<ge> ethQuote scfg env st * LIQUIDITY_BUFFER
                      then Some (ee_uuid env, ethQuote scfg env st) else None)"
proof -
  from ok obtain tx intentData where tx: "ee_tx env = Some tx"
    and conf: "stx_status tx = confirmed"
    and to: "toLowerCase (stx_to tx) = toLowerCase (sepoliaEscrowAddress scfg)"
    and verified: "parseAndVerifyEvmEnvelope rt (case stx_input tx of Some i \<Rightarrow> i | None \<Rightarrow> [])
                     = Inr intentData"
    and oct: "startsWith (strOf (Some (ep_targetAddress intentData))) ''oct''"
    and exp: "ee_now env \<le> ep_expiry intentData"
    and fresh: "case nonceKey rt (ep_nonce intentData) of
                  Inl e \<Rightarrow> False | Inr nonce \<Rightarrow> nonce \<notin> nonces (db st)"
    and amount: "0 < stx_value tx / 1000000000000000000"
    and out: "ep_minAmountOut intentData
                \<le> calculateOctOut (oracleSt st) (stx_value tx / 1000000000000000000)
                     (cfg_feeBps scfg)"
    by (auto simp: ethToOctValid_def split: option.splits sum.splits)
  from res obtain target where target: "ep_targetAddress intentData = JStr target"
    by (cases "ep_targetAddress intentData")
       (auto simp: processEthToOctSubmission_def new tx conf to verified)
  have oct': "startsWith target ''oct''" using oct by (simp add: target strOf_def)
  from fresh obtain nonce where nonce: "nonceKey rt (ep_nonce intentData) = Inr nonce"
    by (cases "nonceKey rt (ep_nonce intentData)") auto
  have fresh': "\<not> isNonceUsed (db st) nonce"
    using fresh by (simp add: nonce isNonceUsed_def)
  have q: "ethQuote scfg env st
             = calculateOctOut (oracleSt st) (stx_value tx / 1000000000000000000) (cfg_feeBps scfg)"
    by (simp add: ethQuote_def tx)
  show ?thesis
    using res exp amount out
    by (auto simp: processEthToOctSubmission_def new tx conf to verified target oct' nonce fresh'
          q Let_def store_add_eq not_less split: if_splits)
qed

text \<open>
  A submission during whose awaits nothing else runs is its three parts on one state.
\<close>

lemma processOct_parts:
  "processOctToEthSubmission rt scfg env h st =
     (case processOctToEthSubmission_lookup h st of
        Some resp \<Rightarrow> Inr (resp, st, None)
      | None \<Rightarrow>
          (case processOctToEthSubmission_validate rt scfg (oe_tx env) (oe_now env) st of
             Inl resp \<Rightarrow> Inr (resp, st, None)
           | Inr checked \<Rightarrow>
               processOctToEthSubmission_store (oe_ethBalance env) (oe_uuid env)
                 (oe_createdAt env) h checked st))"
proof (cases "getIntentByTxHash (db st) h")
  case (Some existing)
  then show ?thesis
    by (simp add: processOctToEthSubmission_def processOctToEthSubmission_lookup_def)
next
  case new: None
  show ?thesis
  proof (cases "oe_tx env")
    case None
    then show ?thesis
      by (simp add: processOctToEthSubmission_def processOctToEthSubmission_lookup_def
            processOctToEthSubmission_validate_def new)
  next
    case tx: (Some tx)
    show ?thesis
    proof (cases "otx_status tx = confirmed")
      case False
      then show ?thesis
        by (simp add: processOctToEthSubmission_def processOctToEthSubmission_lookup_def
              processOctToEthSubmission_validate_def new tx)
    next
      case conf: True
      show ?thesis
      proof (cases "parseIntentPayload rt (otx_message tx)")
        case None
        then show ?thesis
          by (simp add: processOctToEthSubmission_def processOctToEthSubmission_lookup_def
                processOctToEthSubmission_validate_def new tx conf)
      next
        case parsed: (Some payload)
        show ?thesis
        proof (cases "validateIntentPayload (oe_now env) payload tx (octraEscrowAddress scfg)")
          case (Some err)
          then show ?thesis
            by (simp add: processOctToEthSubmission_def processOctToEthSubmission_lookup_def
                  processOctToEthSubmission_validate_def new tx conf parsed)
        next
          case valid: None
          show ?thesis
          proof (cases "isNonceUsed (db st) (p_nonce payload)")
            case True
            then show ?thesis
              by (simp add: processOctToEthSubmission_def processOctToEthSubmission_lookup_def
                    processOctToEthSubmission_validate_def new tx conf parsed valid)
          next
            case fresh: False
            show ?thesis
            proof (cases "calculateEthOut (oracleSt st) (p_amountIn payload) (cfg_feeBps scfg)
                            < p_minAmountOut payload")
              case True
              then show ?thesis
                by (simp add: processOctToEthSubmission_def processOctToEthSubmission_lookup_def
                      processOctToEthSubmission_validate_def new tx conf parsed valid fresh
                      Let_def)
            next
              case out: False
              show ?thesis
                unfolding processOctToEthSubmission_def processOctToEthSubmission_lookup_def
                  processOctToEthSubmission_validate_def processOctToEthSubmission_store_def
                by (simp only: new tx conf parsed valid fresh out Let_def option.case sum.case
                      prod.case if_True if_False not_True_eq_False not_False_eq_True simp_thms)
            qed
          qed
        qed
      qed
    qed
  qed
qed

lemma processEth_parts:
  "processEthToOctSubmission rt scfg env h st =
     (case processEthToOctSubmission_lookup h st of
        Some resp \<Rightarrow> Inr (resp, st, None)
      | None \<Rightarrow>
          (case processEthToOctSubmission_validate rt scfg (ee_tx env) (ee_now env) st of
             Inl e \<Rightarrow> Inl e
           | Inr (Inl resp) \<Rightarrow> Inr (resp, st, None)
           | Inr (Inr checked) \<Rightarrow>
               processEthToOctSubmission_store (ee_octBalance env) (ee_uuid env)
                 (ee_createdAt env) h checked st))"
proof (cases "getIntentByTxHash (db st) h")
  case (Some existing)
  then show ?thesis
    by (simp add: processEthToOctSubmission_def processEthToOctSubmission_lookup_def)
next
  case new: None
  note defs = processEthToOctSubmission_def processEthToOctSubmission_lookup_def
    processEthToOctSubmission_validate_def
  show ?thesis
  proof (cases "ee_tx env")
    case None
    then show ?thesis by (simp add: defs new)
  next
    case tx: (Some tx)
    let ?input = "case stx_input tx of Some i \<Rightarrow> i | None \<Rightarrow> []"
    show ?thesis
    proof (cases "stx_status tx = confirmed
                  \<and> toLowerCase (stx_to tx) = toLowerCase (sepoliaEscrowAddress scfg)")
      case False
      then show ?thesis by (auto simp add: defs new tx)
    next
      case pre: True
      show ?thesis
      proof (cases "parseAndVerifyEvmEnvelope rt ?input")
        case (Inl err)
        then show ?thesis using pre by (simp add: defs new tx)
      next
        case verified: (Inr intentData)
        show ?thesis
        proof (cases "\<exists>target. ep_targetAddress intentData = JStr target")
          case False
          then show ?thesis using pre
            by (cases "ep_targetAddress intentData") (simp_all add: defs new tx verified)
        next
          case True
          then obtain target where target: "ep_targetAddress intentData = JStr target" by blast
          show ?thesis
          proof (cases "startsWith target ''oct'' \<and> \<not> ee_now env > ep_expiry intentData")
            case False
            then show ?thesis using pre by (auto simp add: defs new tx verified target)
          next
            case pre2: True
            show ?thesis
            proof (cases "nonceKey rt (ep_nonce intentData)")
              case (Inl e)
              then show ?thesis using pre pre2 by (simp add: defs new tx verified target)
            next
              case key: (Inr nonce)
              show ?thesis
              proof (cases "isNonceUsed (db st) nonce
                            \<or> stx_value tx / 1000000000000000000 \<le> 0")
                case True
                then show ?thesis using pre pre2
                  by (auto simp add: defs new tx verified target key Let_def)
              next
                case pre3: False
                show ?thesis
                proof (cases "calculateOctOut (oracleSt st)
                                (stx_value tx / 1000000000000000000) (cfg_feeBps scfg)
                              < ep_minAmountOut intentData")
                  case True
                  then show ?thesis using pre pre2 pre3
                    by (simp add: defs new tx verified target key Let_def)
                next
                  case out: False
                  from pre pre2 pre3 have facts:
                    "stx_status tx = confirmed"
                    "toLowerCase (stx_to tx) = toLowerCase (sepoliaEscrowAddress scfg)"
                    "startsWith target ''oct''" "\<not> ee_now env > ep_expiry intentData"
                    "\<not> isNonceUsed (db st) nonce"
                    "\<not> stx_value tx / 1000000000000000000 \<le> 0"
                    by simp_all
                  show ?thesis
                    unfolding defs processEthToOctSubmission_store_def
                    by (simp only: new tx facts verified target key out Let_def option.case
                          sum.case prod.case JSON.case if_True if_False not_True_eq_False
                          not_False_eq_True simp_thms)
                qed
              qed
            qed
          qed
        qed
      qed
    qed
  qed
qed

subsection \<open>The example submissions\<close>

lemma ex_payloadOfParsed: "payloadOfParsed (exMemoEnvelope declaredHash) = Some exPayload"
  by (simp add: payloadOfParsed_def exMemoEnvelope_def exMemoPayload_def exPayload_def Let_def
        getProp_def orElse_def truthy_def typeofNumber_def typeofString_def numOf_def strOf_def)

lemma codeUnits_eq_iff: "codeUnits s = codeUnits t \<longleftrightarrow> s = t"
  by (simp add: codeUnits_def inj_map_eq_map inj_on_def)

lemma codeUnits_simps:
  "codeUnits [] = []" "codeUnits (c # cs) = of_char c # codeUnits cs"
  "codeUnits s = [] \<longleftrightarrow> s = []"
  by (simp_all add: codeUnits_def)

lemma ex_parse_memo: "parseIntentPayload exRuntime (Some exMemoText) = Some exPayload"
  by (simp add: parseIntentPayload_def exRuntime_def ex_payloadOfParsed)
     (simp add: exMemoText_def codeUnits_simps)

lemma ex_oct_quote:
  "calculateEthOut defaultOracle 100 50 = 995 / 10001"
  by (simp add: calculateEthOut_def Let_def defaultOracle_reserves)

lemma ex_isEvmAddress: "isEvmAddress ''0x00000000000000000000000000000000000000aa''"
  by (simp add: isEvmAddress_def)

lemma ex_validate:
  "validateIntentPayload 1000 exPayload (exOctTx s) ''oct1escrow'' = None"
  by (simp add: validateIntentPayload_None exOctTx_def ex_isEvmAddress) (simp add: exPayload_def ex_isEvmAddress)

lemma ex_oct_rejected:
  "processOctToEthSubmission exRuntime exConfig (exOctEnv pending 0) ''octtx1'' exState
     = Inr (rejected (TxNotConfirmed pending), exState, None)"
  by (simp add: processOctToEthSubmission_def exOctEnv_def exOctTx_def exState_def
        getIntentByTxHash_def)

lemma ex_oct_pending:
  "processOctToEthSubmission exRuntime exConfig (exOctEnv confirmed 0) ''octtx1'' exState
     = Inr (\<lparr>r_intentId = ''id-1'', r_status = PENDING, r_message = QueuedForLiquidity\<rparr>,
            exState\<lparr>db := \<lparr>intents = [exRow PENDING], nonces = {''n1''}\<rparr>\<rparr>, None)"
proof -
  have tx: "oe_tx (exOctEnv confirmed 0) = Some (exOctTx confirmed)"
    and fields: "oe_now (exOctEnv confirmed 0) = 1000" "oe_ethBalance (exOctEnv confirmed 0) = 0"
      "oe_uuid (exOctEnv confirmed 0) = ''id-1''" "oe_createdAt (exOctEnv confirmed 0) = 1001"
    by (simp_all add: exOctEnv_def)
  have txf: "otx_status (exOctTx confirmed) = confirmed"
    "otx_message (exOctTx confirmed) = Some exMemoText"
    "otx_from (exOctTx confirmed) = ''oct1user''"
    by (simp_all add: exOctTx_def)
  have cfg: "octraEscrowAddress exConfig = ''oct1escrow''" "cfg_feeBps exConfig = 50"
    by (simp_all add: exConfig_def)
  have st: "db exState = \<lparr>intents = [], nonces = {}\<rparr>" "oracleSt exState = defaultOracle"
    by (simp_all add: exState_def)
  have pf: "p_amountIn exPayload = 100" "p_minAmountOut exPayload = 0.099"
    "p_nonce exPayload = ''n1''" "p_expiry exPayload = 600000"
    "p_targetAddress exPayload = ''0x00000000000000000000000000000000000000aa''"
    by (simp_all add: exPayload_def)
  show ?thesis
    by (simp add: processOctToEthSubmission_def tx fields txf cfg st ex_parse_memo ex_validate
          pf ex_oct_quote isNonceUsed_def getIntentByTxHash_def Let_def LIQUIDITY_BUFFER_def
          store_add_eq getIntent_def storedRow_def exRow_def strOrNull_def numOrNull_def
          toLowerCase_def toLowerChar_def)
qed

lemma ex_lower: "toLowerCase ''0xEscrow'' = ''0xescrow''" "toLowerCase ''0xescrow'' = ''0xescrow''"
  by code_simp+

lemma trim_id:
  assumes "s \<noteq> []" "\<not> isSpace (hd s)" "\<not> isSpace (last s)"
  shows "trim s = s"
proof -
  have a: "dropWhile isSpace s = s"
    using assms(1,2) by (cases s) auto
  have "rev s \<noteq> []" "\<not> isSpace (hd (rev s))"
    using assms(1,3) by (simp_all add: hd_rev)
  then have b: "dropWhile isSpace (rev s) = rev s"
    by (cases "rev s") auto
  show ?thesis by (simp add: trim_def a b)
qed

lemma ex_trim_text: "trim exEvmText = exEvmText"
  by (rule trim_id) (simp_all add: exEvmText_def isSpace_def codeUnits_def)

lemma ex_trim_base64: "trim exEvmBase64 = exEvmBase64"
  by (rule trim_id) (simp_all add: exEvmBase64_def isSpace_def codeUnits_def)

lemma ex_base64_text: "isBase64Text exEvmBase64" "\<not> startsWith exEvmBase64 (codeUnits ''{'')"
  by (simp_all add: isBase64Text_def exEvmBase64_def startsWith_def codeUnits_def)

lemma ex_text_brace: "startsWith exEvmText (codeUnits ''{'')"
  by (simp add: exEvmText_def startsWith_def codeUnits_def)

lemma ex_texts_differ: "exEvmText \<noteq> exMemoText" "exEvmBase64 \<noteq> exEvmText"
  "drop 2 exEvmInputBase64 \<noteq> drop 2 exEvmInput"
  by (simp_all add: exEvmText_def exMemoText_def exEvmBase64_def exEvmInput_def
        exEvmInputBase64_def codeUnits_eq_iff)

lemma ex_inputs: "exEvmInput \<noteq> []" "exEvmInput \<noteq> ''0x''" "\<not> length exEvmInput < 4"
  "startsWith exEvmInput ''0x''"
  "exEvmInputBase64 \<noteq> []" "exEvmInputBase64 \<noteq> ''0x''" "\<not> length exEvmInputBase64 < 4"
  "startsWith exEvmInputBase64 ''0x''"
  by (simp_all add: exEvmInput_def exEvmInputBase64_def startsWith_def)

lemma ex_decode:
  "decodeEvmEnvelope exRuntime exEvmInput = Some exEvmEnvelope"
  "decodeEvmEnvelope exRuntime exEvmInputBase64 = Some exEvmEnvelope"
proof -
  have hex: "hexToUtf8 exRuntime (drop 2 exEvmInput) = exEvmText"
    "hexToUtf8 exRuntime (drop 2 exEvmInputBase64) = exEvmBase64"
    by (simp_all add: exRuntime_def ex_texts_differ)
  have b64: "base64ToUtf8 exRuntime exEvmBase64 = exEvmText"
    by (simp add: exRuntime_def)
  have parse: "JSON_parse exRuntime exEvmText = Some exEvmEnvelope"
    by (simp add: exRuntime_def ex_texts_differ)
  show "decodeEvmEnvelope exRuntime exEvmInput = Some exEvmEnvelope"
    by (simp add: decodeEvmEnvelope_def Let_def ex_inputs hex parse ex_trim_text ex_text_brace)
  show "decodeEvmEnvelope exRuntime exEvmInputBase64 = Some exEvmEnvelope"
    by (simp add: decodeEvmEnvelope_def Let_def ex_inputs hex b64 parse ex_trim_base64
          ex_base64_text)
qed

lemma ex_verify: "verifyEvmEnvelope exRuntime exEvmEnvelope = Inr exEvmResult"
proof -
  have p: "orElse (getProp exEvmEnvelope ''payload'') exEvmEnvelope = exEvmPayload"
    by (simp add: exEvmEnvelope_def exEvmPayload_def getProp_def orElse_def truthy_def)
  have h: "getProp exEvmEnvelope ''hash'' = Some (JStr ''ab'')"
    by (simp add: exEvmEnvelope_def getProp_def)
  have ok: "verifyPayloadHash exRuntime (fullPayload exEvmPayload) (JStr ''ab'')"
    by (simp add: verifyPayloadHash_def hashPayload_def exRuntime_def)
  have n: "exEvmEnvelope \<noteq> JNull" by (simp add: exEvmEnvelope_def)
  show ?thesis
    by (simp add: verifyEvmEnvelope_def Let_def n p h ok truthy_def)
       (simp add: exEvmPayload_def exEvmResult_def getProp_def truthy_def typeofNumber_def
          numOf_def)
qed

lemma ex_parse_evm:
  "parseAndVerifyEvmEnvelope exRuntime exEvmInput = Inr exEvmResult"
  "parseAndVerifyEvmEnvelope exRuntime exEvmInputBase64 = Inr exEvmResult"
  by (simp_all add: parseAndVerifyEvmEnvelope_def ex_inputs ex_decode ex_verify)

lemma ex_eth_quote: "calculateOctOut defaultOracle 1 50 = 995000 / 1001"
  by (simp add: calculateOctOut_def Let_def defaultOracle_reserves)

lemma ex_eth_rejected:
  "processEthToOctSubmission exRuntime exConfig (exEthEnv pending 2000) ''0xethtx1'' exState
     = Inr (rejected (TxNotConfirmed pending), exState, None)"
  by (simp add: processEthToOctSubmission_def exEthEnv_def exEthTx_def exState_def
        getIntentByTxHash_def)

lemma ex_eth_open:
  "processEthToOctSubmission exRuntime exConfig (exEthEnv confirmed 2000) ''0xethtx1'' exState
     = Inr (\<lparr>r_intentId = ''id-2'', r_status = OPEN, r_message = FulfillmentInProgress\<rparr>,
            exState\<lparr>db := \<lparr>intents = [exEthRow OPEN], nonces = {''n2''}\<rparr>\<rparr>,
            Some (''id-2'', 995000 / 1001))"
proof -
  have tx: "ee_tx (exEthEnv confirmed 2000) = Some (exEthTx confirmed)"
    and fields: "ee_now (exEthEnv confirmed 2000) = 1000"
      "ee_octBalance (exEthEnv confirmed 2000) = 2000"
      "ee_uuid (exEthEnv confirmed 2000) = ''id-2''"
      "ee_createdAt (exEthEnv confirmed 2000) = 1001"
    by (simp_all add: exEthEnv_def)
  have txf: "stx_status (exEthTx confirmed) = confirmed"
    "stx_input (exEthTx confirmed) = Some exEvmInput"
    "stx_from (exEthTx confirmed) = ''0xuser''"
    "stx_to (exEthTx confirmed) = ''0xescrow''"
    "stx_value (exEthTx confirmed) = 1000000000000000000"
    by (simp_all add: exEthTx_def)
  have cfg: "sepoliaEscrowAddress exConfig = ''0xEscrow''" "cfg_feeBps exConfig = 50"
    by (simp_all add: exConfig_def)
  have st: "db exState = \<lparr>intents = [], nonces = {}\<rparr>" "oracleSt exState = defaultOracle"
    by (simp_all add: exState_def)
  have res: "ep_targetAddress exEvmResult = JStr ''oct1abc''"
    "nonceKey exRuntime (ep_nonce exEvmResult) = Inr ''n2''"
    "ep_minAmountOut exEvmResult = 900" "ep_expiry exEvmResult = 600000"
    by (simp_all add: exEvmResult_def nonceKey_def)
  have low: "toLowerCase ''oct1abc'' = ''oct1abc''" "toLowerCase ''0xuser'' = ''0xuser''"
    by code_simp+
  show ?thesis
    by (simp add: processEthToOctSubmission_def tx fields txf cfg st ex_lower ex_parse_evm res
          startsWith_def ex_eth_quote isNonceUsed_def getIntentByTxHash_def Let_def
          LIQUIDITY_BUFFER_def store_add_eq getIntent_def storedRow_def exEthRow_def
          exEthPayload_def strOrNull_def numOrNull_def low)
qed

lemma ex_new: "getIntentByTxHash (db exState) h = None"
  by (simp add: getIntentByTxHash_def exState_def)

subsection \<open>Rejection and the nonce set\<close>

lemma processOct_state:
  assumes "processOctToEthSubmission rt scfg env h st = Inr (resp, st', task)"
  shows "(st' = st \<and> task = None)
         \<or> (getIntentByTxHash (db st) h = None \<and> octToEthValid rt scfg env st)"
proof (cases "getIntentByTxHash (db st) h")
  case (Some existing)
  then show ?thesis using assms by (simp add: processOct_existing)
next
  case None
  show ?thesis
  proof (cases "octToEthValid rt scfg env st")
    case False
    from processOct_invalid [OF None False] assms show ?thesis by auto
  next
    case True
    then show ?thesis using None by simp
  qed
qed

lemma processEth_state:
  assumes "processEthToOctSubmission rt scfg env h st = Inr (resp, st', task)"
  shows "(st' = st \<and> task = None)
         \<or> (getIntentByTxHash (db st) h = None \<and> ethToOctValid rt scfg env st)"
proof (cases "getIntentByTxHash (db st) h")
  case (Some existing)
  then show ?thesis using assms by (simp add: processEth_existing)
next
  case None
  show ?thesis
  proof (cases "ethToOctValid rt scfg env st")
    case False
    from processEth_invalid [OF None False assms] show ?thesis by auto
  next
    case True
    then show ?thesis using None by simp
  qed
qed

text \<open>
  Claim C10. A submission that returns REJECTED, in either direction, leaves the whole
  state, and so the nonce set, as it was, so that a submission that would pass the
  validations before it still passes them after it; and a submission changes the nonce
  set only by inserting the nonce of the one row it appends (\<open>IntentStore.add\<close>).
\<close>

theorem C10_rejected_keeps_nonce:
  "(processOctToEthSubmission rt scfg env h st = Inr (resp, st', task) \<longrightarrow>
      (r_status resp = REJECTED \<longrightarrow>
         st' = st \<and> nonces (db st') = nonces (db st)
         \<and> (octToEthValid rt scfg envB st \<longrightarrow> octToEthValid rt scfg envB st'))
      \<and> (nonces (db st') \<noteq> nonces (db st) \<longrightarrow>
           (\<exists>row. intents (db st') = intents (db st) @ [row]
              \<and> nonces (db st') = insert (p_nonce (i_payload row)) (nonces (db st)))))
   \<and> (processEthToOctSubmission rt scfg eenv h st = Inr (eresp, est', etask) \<longrightarrow>
      (r_status eresp = REJECTED \<longrightarrow>
         est' = st \<and> nonces (db est') = nonces (db st)
         \<and> (ethToOctValid rt scfg eenvB st \<longrightarrow> ethToOctValid rt scfg eenvB est'))
      \<and> (nonces (db est') \<noteq> nonces (db st) \<longrightarrow>
           (\<exists>row. intents (db est') = intents (db st) @ [row]
              \<and> nonces (db est') = insert (p_nonce (i_payload row)) (nonces (db st)))))"
proof (intro conjI impI)
  assume res: "processOctToEthSubmission rt scfg env h st = Inr (resp, st', task)"
    and rej: "r_status resp = REJECTED"
  from processOct_state [OF res] show "st' = st"
  proof
    assume "getIntentByTxHash (db st) h = None \<and> octToEthValid rt scfg env st"
    then have "r_status resp \<noteq> REJECTED"
      using processOct_valid [OF _ _ res] by (auto split: if_splits)
    then show ?thesis using rej by simp
  qed simp
  then show "nonces (db st') = nonces (db st)" by simp
  assume "octToEthValid rt scfg envB st"
  then show "octToEthValid rt scfg envB st'" using \<open>st' = st\<close> by simp
next
  assume res: "processOctToEthSubmission rt scfg env h st = Inr (resp, st', task)"
    and ch: "nonces (db st') \<noteq> nonces (db st)"
  from processOct_state [OF res] ch
  have "getIntentByTxHash (db st) h = None" "octToEthValid rt scfg env st" by auto
  from processOct_valid [OF this res]
  show "\<exists>row. intents (db st') = intents (db st) @ [row]
              \<and> nonces (db st') = insert (p_nonce (i_payload row)) (nonces (db st))"
    by blast
next
  assume res: "processEthToOctSubmission rt scfg eenv h st = Inr (eresp, est', etask)"
    and rej: "r_status eresp = REJECTED"
  from processEth_state [OF res] show "est' = st"
  proof
    assume "getIntentByTxHash (db st) h = None \<and> ethToOctValid rt scfg eenv st"
    then have "r_status eresp \<noteq> REJECTED"
      using processEth_valid [OF _ _ res] by (auto split: if_splits)
    then show ?thesis using rej by simp
  qed simp
  then show "nonces (db est') = nonces (db st)" by simp
  assume "ethToOctValid rt scfg eenvB st"
  then show "ethToOctValid rt scfg eenvB est'" using \<open>est' = st\<close> by simp
next
  assume res: "processEthToOctSubmission rt scfg eenv h st = Inr (eresp, est', etask)"
    and ch: "nonces (db est') \<noteq> nonces (db st)"
  from processEth_state [OF res] ch
  have "getIntentByTxHash (db st) h = None" "ethToOctValid rt scfg eenv st" by auto
  from processEth_valid [OF this res]
  show "\<exists>row. intents (db est') = intents (db st) @ [row]
              \<and> nonces (db est') = insert (p_nonce (i_payload row)) (nonces (db st))"
    by blast
qed

lemma ex_oct_valid: "octToEthValid exRuntime exConfig (exOctEnv confirmed b) exState"
proof -
  have env: "oe_tx (exOctEnv confirmed b) = Some (exOctTx confirmed)"
    "oe_now (exOctEnv confirmed b) = 1000"
    by (simp_all add: exOctEnv_def)
  have tx: "otx_status (exOctTx confirmed) = confirmed"
    "otx_message (exOctTx confirmed) = Some exMemoText"
    by (simp_all add: exOctTx_def)
  have v: "otx_to (exOctTx confirmed) = ''oct1escrow''
           \<and> \<bar>otx_amount (exOctTx confirmed) - p_amountIn exPayload\<bar> \<le> 0.000001
           \<and> 1000 \<le> p_expiry exPayload \<and> isEvmAddress (p_targetAddress exPayload)"
    using ex_validate [of confirmed] by (simp only: validateIntentPayload_None)
  have rest: "p_nonce exPayload \<notin> nonces (db exState)"
    "p_minAmountOut exPayload \<le> calculateEthOut (oracleSt exState) (p_amountIn exPayload)
                                    (cfg_feeBps exConfig)"
    by (simp_all add: exState_def exPayload_def exConfig_def ex_oct_quote)
  have esc: "octraEscrowAddress exConfig = ''oct1escrow''" by (simp add: exConfig_def)
  show ?thesis
    unfolding octToEthValid_def using v rest by (simp add: env tx ex_parse_memo esc)
qed

text \<open>
  Witness for C10: the example deposits are rejected while pending, with the nonce set
  still empty, and the same envelopes are accepted, and their nonces stored, once the
  transactions are confirmed.
\<close>

theorem C10_rejected_keeps_nonce_witness:
  "processOctToEthSubmission exRuntime exConfig (exOctEnv pending 0) ''octtx1'' exState
     = Inr (rejected (TxNotConfirmed pending), exState, None)
   \<and> r_status (rejected (TxNotConfirmed pending)) = REJECTED
   \<and> nonces (db exState) = {}
   \<and> octToEthValid exRuntime exConfig (exOctEnv confirmed 0) exState
   \<and> processOctToEthSubmission exRuntime exConfig (exOctEnv confirmed 0) ''octtx1'' exState
       = Inr (\<lparr>r_intentId = ''id-1'', r_status = PENDING, r_message = QueuedForLiquidity\<rparr>,
              exState\<lparr>db := \<lparr>intents = [exRow PENDING], nonces = {''n1''}\<rparr>\<rparr>, None)
   \<and> processEthToOctSubmission exRuntime exConfig (exEthEnv pending 2000) ''0xethtx1'' exState
       = Inr (rejected (TxNotConfirmed pending), exState, None)
   \<and> processEthToOctSubmission exRuntime exConfig (exEthEnv confirmed 2000) ''0xethtx1'' exState
       = Inr (\<lparr>r_intentId = ''id-2'', r_status = OPEN, r_message = FulfillmentInProgress\<rparr>,
            exState\<lparr>db := \<lparr>intents = [exEthRow OPEN], nonces = {''n2''}\<rparr>\<rparr>,
            Some (''id-2'', 995000 / 1001))"
  using C10_rejected_keeps_nonce [where st = exState and h = "''octtx1''" and rt = exRuntime
          and scfg = exConfig and env = "exOctEnv pending 0"
          and resp = "rejected (TxNotConfirmed pending)" and st' = exState and task = None
          and envB = "exOctEnv confirmed 0"
          and eenv = "exEthEnv pending 2000" and eresp = "rejected TxNotFound"
          and est' = exState and etask = None and eenvB = "exEthEnv confirmed 2000"]
        C10_rejected_keeps_nonce [where st = exState and h = "''octtx1''" and rt = exRuntime
          and scfg = exConfig and env = "exOctEnv confirmed 0"
          and resp = "\<lparr>r_intentId = ''id-1'', r_status = PENDING,
                        r_message = QueuedForLiquidity\<rparr>"
          and st' = "exState\<lparr>db := \<lparr>intents = [exRow PENDING], nonces = {''n1''}\<rparr>\<rparr>"
          and task = None and envB = "exOctEnv confirmed 0"
          and eenv = "exEthEnv pending 2000" and eresp = "rejected TxNotFound"
          and est' = exState and etask = None and eenvB = "exEthEnv confirmed 2000"]
        C10_rejected_keeps_nonce [where st = exState and h = "''0xethtx1''" and rt = exRuntime
          and scfg = exConfig and env = "exOctEnv pending 0"
          and resp = "rejected TxNotFound" and st' = exState and task = None
          and envB = "exOctEnv confirmed 0"
          and eenv = "exEthEnv pending 2000"
          and eresp = "rejected (TxNotConfirmed pending)"
          and est' = exState and etask = None and eenvB = "exEthEnv confirmed 2000"]
        C10_rejected_keeps_nonce [where st = exState and h = "''0xethtx1''" and rt = exRuntime
          and scfg = exConfig and env = "exOctEnv pending 0"
          and resp = "rejected TxNotFound" and st' = exState and task = None
          and envB = "exOctEnv confirmed 0"
          and eenv = "exEthEnv confirmed 2000"
          and eresp = "\<lparr>r_intentId = ''id-2'', r_status = OPEN,
                         r_message = FulfillmentInProgress\<rparr>"
          and est' = "exState\<lparr>db := \<lparr>intents = [exEthRow OPEN], nonces = {''n2''}\<rparr>\<rparr>"
          and etask = "Some (''id-2'', 995000 / 1001)" and eenvB = "exEthEnv confirmed 2000"]
  by (simp add: ex_oct_rejected ex_oct_pending ex_eth_rejected ex_eth_open rejected_def
        ex_oct_valid) (simp add: exState_def)

subsection \<open>The example deposit once stored\<close>

lemma ex_oct_stored:
  "processOctToEthSubmission exRuntime exConfig (exOctEnv confirmed 0) ''octtx1'' exState
     = Inr (\<lparr>r_intentId = ''id-1'', r_status = PENDING, r_message = QueuedForLiquidity\<rparr>,
            exPendingState, None)"
  by (simp add: ex_oct_pending exPendingState_def)

lemma ex_pending_fields:
  "intents (db exPendingState) = [exRow PENDING]" "intents (db exState) = []"
  "i_intentId (exRow s) = ''id-1''" "i_status (exRow s) = s"
  "i_sourceTxHash (exRow s) = ''octtx1''"
  by (simp_all add: exPendingState_def exState_def exRow_def)

subsection \<open>The amount a retry dispatches\<close>

lemma retryPendingIntent_task:
  assumes "retryPendingIntent scfg now balance intent st = (st1, Some (d, i, amt))"
  shows "d = i_direction intent \<and> i = i_intentId intent
         \<and> amt = quote (oracleSt st) (i_direction intent) (i_amountIn intent) (cfg_feeBps scfg)
         \<and> balance \<ge> amt * LIQUIDITY_BUFFER \<and> \<not> now > i_expiry intent
         \<and> st1 = st\<lparr>db := updateIntent (i_intentId intent) (statusOnly OPEN) (db st)\<rparr>"
  using assms
  by (cases "i_direction intent")
     (auto simp: retryPendingIntent_def quote_def Let_def split: if_splits)

lemma fulfil_start_dispatch:
  "fulfillOctToEth_start t i amt st = (st2, Some row) \<Longrightarrow>
     dispatched st2 = dispatched st @ [SendETH (i_targetAddress row) amt]
     \<and> getIntent (db st) i = Some row"
  "fulfillEthToOct_start t i amt st = (st2, Some row) \<Longrightarrow>
     dispatched st2 = dispatched st @ [SendOCT (i_targetAddress row) amt]
     \<and> getIntent (db st) i = Some row"
  by (auto simp: fulfillOctToEth_start_def fulfillEthToOct_start_def
        split: option.splits if_splits)

lemma retryPendingIntent_parts:
  "retryPendingIntent scfg now balance intent st =
     (if now > i_expiry intent
      then (st\<lparr>db := updateIntent (i_intentId intent) (statusOnly EXPIRED) (db st)\<rparr>, None)
      else retryPendingIntent_dispatch balance intent
             (retryPendingIntent_quote scfg intent st) st)"
  by (cases "i_direction intent")
     (simp_all add: retryPendingIntent_def retryPendingIntent_dispatch_def
        retryPendingIntent_quote_def Let_def)

lemma retry_dispatch_task:
  assumes "retryPendingIntent_dispatch balance intent
             (retryPendingIntent_quote scfg intent st) stP = (stQ, Some (d, i, amt))"
  shows "d = i_direction intent \<and> i = i_intentId intent
         \<and> amt = quote (oracleSt st) (i_direction intent) (i_amountIn intent) (cfg_feeBps scfg)
         \<and> balance \<ge> amt * LIQUIDITY_BUFFER
         \<and> stQ = stP\<lparr>db := updateIntent (i_intentId intent) (statusOnly OPEN) (db stP)\<rparr>"
  using assms
  by (cases "i_direction intent")
     (auto simp: retryPendingIntent_dispatch_def retryPendingIntent_quote_def quote_def Let_def
        split: if_splits)

text \<open>
  Claim C4, as amended. When the periodic check re-attempts a pending intent, the amount
  it hands to the fulfilment is the quote of the intent's amountIn at the oracle's
  reserves at the time of the check, with the configured fee, and the fresh balance
  covers that amount times the liquidity buffer; a fulfilment that reaches its send
  dispatches exactly the amount it was handed. The amount is a re-quote: it is determined
  by the reserves at the time of the check, not by the quote made at creation. The last
  part is the same for the two parts of the loop body: the amount is the quote at the
  state the body read before its balance probe, whatever state it finds after it.
\<close>

theorem C4_retry_requotes:
  "(retryPendingIntent scfg now balance intent st = (stB, Some (d, i, amt)) \<longrightarrow>
      d = i_direction intent \<and> i = i_intentId intent
      \<and> amt = quote (oracleSt st) (i_direction intent) (i_amountIn intent) (cfg_feeBps scfg)
      \<and> balance \<ge> amt * LIQUIDITY_BUFFER \<and> \<not> now > i_expiry intent)
   \<and> (fulfillOctToEth_start t i amt stB = (stC, Some row) \<longrightarrow>
        dispatched stC = dispatched stB @ [SendETH (i_targetAddress row) amt])
   \<and> (fulfillEthToOct_start t i amt stB = (stD, Some erow) \<longrightarrow>
        dispatched stD = dispatched stB @ [SendOCT (i_targetAddress erow) amt])
   \<and> (retryPendingIntent_dispatch balance intent (retryPendingIntent_quote scfg intent st) stP
         = (stQ, Some (d, i, amt)) \<longrightarrow>
        d = i_direction intent \<and> i = i_intentId intent
        \<and> amt = quote (oracleSt st) (i_direction intent) (i_amountIn intent) (cfg_feeBps scfg)
        \<and> balance \<ge> amt * LIQUIDITY_BUFFER
        \<and> stQ = stP\<lparr>db := updateIntent (i_intentId intent) (statusOnly OPEN) (db stP)\<rparr>)"
  using retryPendingIntent_task [of scfg now balance intent st stB d i amt]
        fulfil_start_dispatch(1) [of t i amt stB stC row]
        fulfil_start_dispatch(2) [of t i amt stB stD erow]
        retry_dispatch_task [of balance intent scfg st stP stQ d i amt]
  by blast

lemma exConfig_fields:
  "octraEscrowAddress exConfig = ''oct1escrow''" "sepoliaEscrowAddress exConfig = ''0xEscrow''"
  "cfg_feeBps exConfig = 50"
  by (simp_all add: exConfig_def)

lemma cb1_quote: "calculateEthOut cb_state1 100 50 = 99500 / 1020201"
  by (simp add: calculateEthOut_def Let_def cb_state1_simps)

lemma exRetry_fields:
  "db exRetryState = \<lparr>intents = [exRow PENDING], nonces = {''n1''}\<rparr>"
  "oracleSt exRetryState = cb_state1" "dispatched exRetryState = []"
  "db exReopenedState = \<lparr>intents = [exRow OPEN], nonces = {''n1''}\<rparr>"
  "oracleSt exReopenedState = cb_state1" "dispatched exReopenedState = []"
  by (simp_all add: exRetryState_def exReopenedState_def exPendingState_def exState_def)

lemma exRow_fields:
  "i_intentId (exRow s) = ''id-1''" "i_status (exRow s) = s" "i_expiry (exRow s) = 600000"
  "i_direction (exRow s) = OCT_TO_ETH" "i_amountIn (exRow s) = 100"
  "i_minAmountOut (exRow s) = 0.099" "i_createdAt (exRow s) = 1001"
  "i_targetAddress (exRow s) = ''0x00000000000000000000000000000000000000aa''"
  "i_sourceTxHash (exRow s) = ''octtx1''"
  by (simp_all add: exRow_def)

lemma exRow_reopen:
  "updateIntent ''id-1'' (statusOnly OPEN) \<lparr>intents = [exRow PENDING], nonces = {''n1''}\<rparr>
     = \<lparr>intents = [exRow OPEN], nonces = {''n1''}\<rparr>"
  by (simp add: updateIntent_def getIntent_def exRow_def statusOnly_def mergeUpdates_def
        Let_def strOrNull_def numOrNull_def)

lemma ex_retry:
  "retryPendingIntent exConfig 90000 10 (exRow PENDING) exRetryState
     = (exReopenedState, Some (OCT_TO_ETH, ''id-1'', 99500 / 1020201))"
  by (simp add: retryPendingIntent_def exRow_fields exRetry_fields Let_def cb1_quote
        exConfig_def LIQUIDITY_BUFFER_def exRow_reopen)

lemma ex_expiryCheck:
  "expiryCheck exConfig 90000 (\<lambda>i. 10) exRetryState
     = (exReopenedState, [(OCT_TO_ETH, ''id-1'', 99500 / 1020201)])"
proof -
  have o: "getOpenIntents (db exRetryState) = []"
    by (simp add: getOpenIntents_def exRetry_fields exRow_fields)
  have p: "getPendingIntents (db exRetryState) = [exRow PENDING]"
    by (simp add: getPendingIntents_def exRetry_fields exRow_fields)
  have same: "exRetryState\<lparr>db := db exRetryState\<rparr> = exRetryState" by simp
  show ?thesis
    by (simp add: expiryCheck_def Let_def o same p ex_retry exRow_fields)
qed

lemma ex_fulfil_start:
  "fulfillOctToEth_start 90001 ''id-1'' (99500 / 1020201) exReopenedState
     = (exReopenedState\<lparr>dispatched :=
          [SendETH ''0x00000000000000000000000000000000000000aa'' (99500 / 1020201)]\<rparr>,
        Some (exRow OPEN))"
  by (simp add: fulfillOctToEth_start_def getIntent_def exRetry_fields exRow_fields)

text \<open>
  The claim as stated fails on the example deposit: it is stored as PENDING when its
  quote is 995/10001 ETH; another swap then moves the oracle to \<open>cb_state1\<close>; the
  periodic check re-opens the intent with the quote 99500/1020201 ETH, and that is the
  amount the fulfilment sends. It is also below the intent's minAmountOut.
\<close>

theorem C4_counterexample:
  "processOctToEthSubmission exRuntime exConfig (exOctEnv confirmed 0) ''octtx1'' exState
     = Inr (\<lparr>r_intentId = ''id-1'', r_status = PENDING, r_message = QueuedForLiquidity\<rparr>,
            exPendingState, None)
   \<and> octQuote exRuntime exConfig (exOctEnv confirmed 0) exState = 995 / 10001
   \<and> exRetryState = exPendingState\<lparr>oracleSt := cb_state1\<rparr>
   \<and> expiryCheck exConfig 90000 (\<lambda>i. 10) exRetryState
       = (exReopenedState, [(OCT_TO_ETH, ''id-1'', 99500 / 1020201)])
   \<and> dispatched (fst (fulfillOctToEth_start 90001 ''id-1'' (99500 / 1020201) exReopenedState))
       = [SendETH ''0x00000000000000000000000000000000000000aa'' (99500 / 1020201)]
   \<and> (99500 / 1020201 :: real) \<noteq> 995 / 10001
   \<and> (99500 / 1020201 :: real) < i_minAmountOut (exRow OPEN)"
proof -
  have q: "octQuote exRuntime exConfig (exOctEnv confirmed 0) exState = 995 / 10001"
    by (simp add: octQuote_def exOctEnv_def exOctTx_def ex_parse_memo exPayload_def exState_def
          exConfig_def ex_oct_quote)
  show ?thesis
    by (simp add: ex_oct_stored q ex_expiryCheck ex_fulfil_start exRow_fields)
       (simp add: exRetryState_def)
qed

lemma ex_retry_parts:
  "retryPendingIntent_quote exConfig (exRow PENDING) exPendingState = 995 / 10001"
  "retryPendingIntent_dispatch 10 (exRow PENDING) (995 / 10001) exRetryState
     = (exReopenedState, Some (OCT_TO_ETH, ''id-1'', 995 / 10001))"
proof -
  have o: "oracleSt exPendingState = defaultOracle"
    by (simp add: exPendingState_def exState_def)
  show "retryPendingIntent_quote exConfig (exRow PENDING) exPendingState = 995 / 10001"
    by (simp add: retryPendingIntent_quote_def exRow_fields o exConfig_fields ex_oct_quote)
  show "retryPendingIntent_dispatch 10 (exRow PENDING) (995 / 10001) exRetryState
     = (exReopenedState, Some (OCT_TO_ETH, ''id-1'', 995 / 10001))"
    by (simp add: retryPendingIntent_dispatch_def exRow_fields exRetry_fields Let_def
          LIQUIDITY_BUFFER_def exRow_reopen)
qed

text \<open>
  Witness for C4: the retry of the example intent and the send that follows it; and the
  same retry when the oracle moves from the default state to \<open>cb_state1\<close> during the
  balance probe.
\<close>

theorem C4_retry_requotes_witness:
  "retryPendingIntent exConfig 90000 10 (exRow PENDING) exRetryState
     = (exReopenedState, Some (OCT_TO_ETH, ''id-1'', 99500 / 1020201))
   \<and> quote (oracleSt exRetryState) OCT_TO_ETH 100 50 = 99500 / 1020201
   \<and> fulfillOctToEth_start 90001 ''id-1'' (99500 / 1020201) exReopenedState
       = (exReopenedState\<lparr>dispatched :=
            [SendETH ''0x00000000000000000000000000000000000000aa'' (99500 / 1020201)]\<rparr>,
          Some (exRow OPEN))
   \<and> retryPendingIntent_quote exConfig (exRow PENDING) exPendingState = 995 / 10001
   \<and> retryPendingIntent_dispatch 10 (exRow PENDING)
         (retryPendingIntent_quote exConfig (exRow PENDING) exPendingState) exRetryState
       = (exReopenedState, Some (OCT_TO_ETH, ''id-1'', 995 / 10001))
   \<and> quote (oracleSt exPendingState) OCT_TO_ETH 100 50 = 995 / 10001"
  using C4_retry_requotes [where scfg = exConfig and now = 90000 and balance = 10
          and intent = "exRow PENDING" and st = exRetryState and stB = exReopenedState
          and d = OCT_TO_ETH and i = "''id-1''" and amt = "99500 / 1020201"
          and t = 90001
          and stC = "exReopenedState\<lparr>dispatched :=
            [SendETH ''0x00000000000000000000000000000000000000aa'' (99500 / 1020201)]\<rparr>"
          and row = "exRow OPEN"
          and stD = exReopenedState and erow = "exRow OPEN"
          and stP = exRetryState and stQ = exRetryState]
        C4_retry_requotes [where scfg = exConfig and now = 90000 and balance = 10
          and intent = "exRow PENDING" and st = exPendingState and stB = exReopenedState
          and d = OCT_TO_ETH and i = "''id-1''" and amt = "995 / 10001"
          and t = 90001 and stC = exReopenedState and row = "exRow OPEN"
          and stD = exReopenedState and erow = "exRow OPEN"
          and stP = exRetryState and stQ = exReopenedState]
  by (simp add: ex_retry ex_fulfil_start exRow_fields exConfig_fields ex_retry_parts)

subsection \<open>What a fulfilment records in the oracle\<close>

text \<open>
  A fulfilment whose send succeeds calls \<open>recordSwap\<close> once: with the intent's amountIn
  for OCT to ETH, and with the OCT amount it paid out for ETH to OCT.
\<close>

lemma fulfil_finish_oracle:
  "oracleSt (fulfillOctToEth_finish ocfg result doneAt i amt intent st)
     = (if sendSucceeded result
        then recordSwap ocfg doneAt OCT_TO_ETH (i_amountIn intent) (oracleSt st)
        else oracleSt st)"
  "oracleSt (fulfillEthToOct_finish ocfg result doneAt i amt intent st)
     = (if sendSucceeded result
        then recordSwap ocfg doneAt ETH_TO_OCT amt (oracleSt st)
        else oracleSt st)"
  by (simp_all add: fulfillOctToEth_finish_def fulfillEthToOct_finish_def)

lemma fulfil_start_oracle:
  "oracleSt (fst (fulfillOctToEth_start t i amt st)) = oracleSt st"
  "oracleSt (fst (fulfillEthToOct_start t i amt st)) = oracleSt st"
  by (simp_all add: fulfillOctToEth_start_def fulfillEthToOct_start_def split: option.splits)

lemma exEth_fields:
  "db exEthOpenState = \<lparr>intents = [exEthRow OPEN], nonces = {''n2''}\<rparr>"
  "oracleSt exEthOpenState = defaultOracle" "dispatched exEthOpenState = []"
  by (simp_all add: exEthOpenState_def exState_def)

lemma exEthRow_fields:
  "i_intentId (exEthRow s) = ''id-2''" "i_status (exEthRow s) = s"
  "i_expiry (exEthRow s) = 600000" "i_direction (exEthRow s) = ETH_TO_OCT"
  "i_amountIn (exEthRow s) = 1" "i_targetAddress (exEthRow s) = ''oct1abc''"
  by (simp_all add: exEthRow_def)

lemma exFulfilEnv_fields:
  "fe_now exFulfilEnv = 90001" "fe_doneAt exFulfilEnv = 95000"
  "sendSucceeded (fe_result exFulfilEnv)"
  "sr_txHash (fe_result exFulfilEnv) = Some ''0xpayout''"
  by (simp_all add: exFulfilEnv_def sendSucceeded_def strOrNull_def)

lemma ex_eth_start:
  "fulfillEthToOct_start 90001 ''id-2'' (995000 / 1001) exEthOpenState
     = (exEthOpenState\<lparr>dispatched := [SendOCT ''oct1abc'' (995000 / 1001)]\<rparr>,
        Some (exEthRow OPEN))"
  by (simp add: fulfillEthToOct_start_def getIntent_def exEth_fields exEthRow_fields)

lemma ex_eth_fulfilled_oracle:
  "oracleSt exEthFulfilledState
     = recordSwap defaultConfig 95000 ETH_TO_OCT (995000 / 1001) defaultOracle"
  by (simp add: exEthFulfilledState_def fulfillEthToOct_def ex_eth_start exFulfilEnv_fields
        fulfil_finish_oracle exEth_fields)

lemma ex_eth_fulfilled_rows:
  "intents (db exEthFulfilledState)
     = [(exEthRow FULFILLED)\<lparr>i_targetTxHash := Some ''0xpayout'',
                               i_amountOut := Some (995000 / 1001),
                               i_fulfilledAt := Some 95000\<rparr>]"
  by (simp add: exEthFulfilledState_def fulfillEthToOct_def ex_eth_start exFulfilEnv_fields
        fulfillEthToOct_finish_def exEth_fields updateIntent_def getIntent_def exEthRow_def
        fulfilledUpdates_def mergeUpdates_def Let_def strOrNull_def numOrNull_def)

lemma ex_eth_trade:
  "reserves (applyTrade 95000 ETH_TO_OCT (995000 / 1001) defaultOracle)
     = \<lparr>octReserve = 250250000 / 499, ethReserve = 1996000 / 1001, k = 1000000000\<rparr>"
  by (simp add: applyTrade_def calculateOctOut_def Let_def defaultOracle_reserves)

lemma ex_eth_change:
  "swapPriceChange 95000 ETH_TO_OCT (995000 / 1001) defaultOracle > 10"
  by (simp add: swapPriceChange_def calculateSpotPrice_def ex_eth_trade defaultOracle_simps)

lemma ex_eth_reserves:
  "reserves (recordSwap defaultConfig 95000 ETH_TO_OCT (995000 / 1001) defaultOracle)
     = \<lparr>octReserve = 250250000 / 499, ethReserve = 1996000 / 1001, k = 1000000000\<rparr>"
proof -
  have s: "spotPrice (recordSwap_upto_bounds defaultConfig 95000 ETH_TO_OCT (995000 / 1001)
             defaultOracle) = 1 / 1000"
    using ex_eth_change by (simp add: upto_bounds_fields defaultConfig_simps defaultOracle_simps)
  have "spotPrice (applyPriceBounds defaultConfig
          (recordSwap_upto_bounds defaultConfig 95000 ETH_TO_OCT (995000 / 1001) defaultOracle))
        = spotPrice (recordSwap_upto_bounds defaultConfig 95000 ETH_TO_OCT (995000 / 1001)
             defaultOracle)"
    by (simp add: s defaultConfig_simps)
  with applyPriceBounds_cases [of defaultConfig
         "recordSwap_upto_bounds defaultConfig 95000 ETH_TO_OCT (995000 / 1001) defaultOracle"]
  have "reserves (recordSwap defaultConfig 95000 ETH_TO_OCT (995000 / 1001) defaultOracle)
          = reserves (applyTrade 95000 ETH_TO_OCT (995000 / 1001) defaultOracle)"
    by (simp add: recordSwap_split Let_def del: applyPriceBounds_frame(5))
  then show ?thesis by (simp add: ex_eth_trade)
qed

text \<open>
  Claim C5 at the example Sepolia deposit. The intent has direction ETH to OCT and
  amountIn 1 ETH; its fulfilment sets it to FULFILLED and calls \<open>recordSwap\<close> once, with the
  995000/1001 OCT paid out as the amount, so the input-side (ETH) reserve goes from 1000
  to 1000 + 995000/1001 and not to 1001.
\<close>

theorem C5_eth_to_oct_records_output_amount:
  "exEthFulfilledState
     = fulfillEthToOct defaultConfig exFulfilEnv ''id-2'' (995000 / 1001) exEthOpenState
   \<and> intents (db exEthOpenState) = [exEthRow OPEN]
   \<and> i_direction (exEthRow OPEN) = ETH_TO_OCT \<and> i_amountIn (exEthRow OPEN) = 1
   \<and> map i_status (intents (db exEthFulfilledState)) = [FULFILLED]
   \<and> oracleSt exEthFulfilledState
       = recordSwap defaultConfig 95000 ETH_TO_OCT (995000 / 1001) (oracleSt exEthOpenState)
   \<and> reserveIn (oracleSt exEthOpenState) ETH_TO_OCT = 1000
   \<and> reserveIn (oracleSt exEthFulfilledState) ETH_TO_OCT = 1000 + 995000 / 1001
   \<and> reserveIn (oracleSt exEthFulfilledState) ETH_TO_OCT
       \<noteq> reserveIn (oracleSt exEthOpenState) ETH_TO_OCT + i_amountIn (exEthRow OPEN)"
  by (simp add: ex_eth_fulfilled_oracle ex_eth_fulfilled_rows exEth_fields exEthRow_fields
        reserveIn_def ex_eth_reserves defaultOracle_reserves)
     (simp add: exEthFulfilledState_def)

subsection \<open>The hash check of the envelope\<close>

lemma verifyEvmEnvelope_unfold:
  assumes "envelope \<noteq> JNull"
  shows "verifyEvmEnvelope rt envelope =
           (if truthy (getProp envelope ''hash'')
               \<and> getProp envelope ''hash''
                   \<noteq> Some (JStr (hashPayload rt (fullPayload (envelopePayload envelope))))
            then Inl PayloadHashMismatch
            else if evmFieldsValid (envelopePayload envelope)
            then Inr (evmResultOf (envelopePayload envelope))
            else Inl InvalidPayloadStructure)"
proof (cases "getProp envelope ''hash''")
  case None
  then show ?thesis
    using assms
    by (simp add: verifyEvmEnvelope_def Let_def envelopePayload_def evmFieldsValid_def
          evmResultOf_def truthy_def)
next
  case (Some h)
  then show ?thesis
    using assms
    by (auto simp add: verifyEvmEnvelope_def Let_def envelopePayload_def evmFieldsValid_def
          evmResultOf_def verifyPayloadHash_def)
qed

lemma parse_evm_decoded:
  assumes "parseAndVerifyEvmEnvelope rt txInput = Inr result"
  shows "\<exists>envelope. decodeEvmEnvelope rt txInput = Some envelope
           \<and> verifyEvmEnvelope rt envelope = Inr result"
  using assms
  by (auto simp add: parseAndVerifyEvmEnvelope_def split: if_splits option.splits)

lemma verify_not_null:
  "verifyEvmEnvelope rt envelope = Inr result \<Longrightarrow> envelope \<noteq> JNull"
  by (auto simp add: verifyEvmEnvelope_def)

text \<open>
  Claim C2, as amended, for the envelope in the input of an EVM transaction. When the
  envelope declares a truthy hash, \<open>verifyEvmEnvelope\<close> accepts only if the declared hash
  is the hex SHA-256 digest of \<open>JSON.stringify\<close> of the payload it rebuilds from the
  envelope, and answers \<open>PayloadHashMismatch\<close> ('Payload hash mismatch - data may have been
  tampered') otherwise; with that hash it accepts when the required fields are there
  (\<open>evmFieldsValid\<close>: targetAddress and nonce truthy, minAmountOut and expiry numbers).
  Without a truthy hash it accepts exactly when the required fields are there. What
  \<open>parseAndVerifyEvmEnvelope\<close> accepts was decoded, by either encoding, to an envelope that
  passes this check. An envelope that keeps the declared hash of an accepted one and whose
  rebuilt payload has another digest gets the hash-mismatch error.
\<close>

theorem C2_evm_hash_check:
  "(verifyEvmEnvelope rt envelope = Inr result \<and> truthy (getProp envelope ''hash'')
      \<longrightarrow> getProp envelope ''hash''
            = Some (JStr (sha256Hex rt (JSON_stringify rt (fullPayload (envelopePayload envelope))))))
   \<and> (envelope \<noteq> JNull \<and> truthy (getProp envelope ''hash'')
        \<and> getProp envelope ''hash''
            \<noteq> Some (JStr (sha256Hex rt (JSON_stringify rt (fullPayload (envelopePayload envelope)))))
      \<longrightarrow> verifyEvmEnvelope rt envelope = Inl PayloadHashMismatch)
   \<and> (envelope \<noteq> JNull
        \<and> getProp envelope ''hash''
            = Some (JStr (sha256Hex rt (JSON_stringify rt (fullPayload (envelopePayload envelope)))))
        \<and> evmFieldsValid (envelopePayload envelope)
      \<longrightarrow> verifyEvmEnvelope rt envelope = Inr (evmResultOf (envelopePayload envelope)))
   \<and> (envelope \<noteq> JNull \<and> \<not> truthy (getProp envelope ''hash'')
      \<longrightarrow> verifyEvmEnvelope rt envelope
            = (if evmFieldsValid (envelopePayload envelope)
               then Inr (evmResultOf (envelopePayload envelope))
               else Inl InvalidPayloadStructure))
   \<and> (parseAndVerifyEvmEnvelope rt txInput = Inr result
      \<longrightarrow> (\<exists>decoded. decodeEvmEnvelope rt txInput = Some decoded
             \<and> verifyEvmEnvelope rt decoded = Inr result))
   \<and> (verifyEvmEnvelope rt envelope = Inr result \<and> truthy (getProp envelope ''hash'')
        \<and> mutated \<noteq> JNull \<and> getProp mutated ''hash'' = getProp envelope ''hash''
        \<and> hashPayload rt (fullPayload (envelopePayload mutated))
            \<noteq> hashPayload rt (fullPayload (envelopePayload envelope))
      \<longrightarrow> verifyEvmEnvelope rt mutated = Inl PayloadHashMismatch)"
proof (intro conjI impI)
  assume a: "verifyEvmEnvelope rt envelope = Inr result \<and> truthy (getProp envelope ''hash'')"
  then have n: "envelope \<noteq> JNull" by (auto dest: verify_not_null)
  from a show "getProp envelope ''hash''
      = Some (JStr (sha256Hex rt (JSON_stringify rt (fullPayload (envelopePayload envelope)))))"
    by (simp add: verifyEvmEnvelope_unfold [OF n] hashPayload_def split: if_splits)
next
  assume a: "envelope \<noteq> JNull \<and> truthy (getProp envelope ''hash'')
        \<and> getProp envelope ''hash''
            \<noteq> Some (JStr (sha256Hex rt (JSON_stringify rt (fullPayload (envelopePayload envelope)))))"
  then have n: "envelope \<noteq> JNull" by simp
  from a show "verifyEvmEnvelope rt envelope = Inl PayloadHashMismatch"
    by (simp add: verifyEvmEnvelope_unfold [OF n] hashPayload_def)
next
  assume a: "envelope \<noteq> JNull
        \<and> getProp envelope ''hash''
            = Some (JStr (sha256Hex rt (JSON_stringify rt (fullPayload (envelopePayload envelope)))))
        \<and> evmFieldsValid (envelopePayload envelope)"
  then have n: "envelope \<noteq> JNull" by simp
  from a show "verifyEvmEnvelope rt envelope = Inr (evmResultOf (envelopePayload envelope))"
    by (simp add: verifyEvmEnvelope_unfold [OF n] hashPayload_def)
next
  assume a: "envelope \<noteq> JNull \<and> \<not> truthy (getProp envelope ''hash'')"
  then have n: "envelope \<noteq> JNull" by simp
  from a show "verifyEvmEnvelope rt envelope
            = (if evmFieldsValid (envelopePayload envelope)
               then Inr (evmResultOf (envelopePayload envelope))
               else Inl InvalidPayloadStructure)"
    by (simp add: verifyEvmEnvelope_unfold [OF n])
next
  assume "parseAndVerifyEvmEnvelope rt txInput = Inr result"
  then show "\<exists>decoded. decodeEvmEnvelope rt txInput = Some decoded
             \<and> verifyEvmEnvelope rt decoded = Inr result"
    by (rule parse_evm_decoded)
next
  assume a: "verifyEvmEnvelope rt envelope = Inr result \<and> truthy (getProp envelope ''hash'')
        \<and> mutated \<noteq> JNull \<and> getProp mutated ''hash'' = getProp envelope ''hash''
        \<and> hashPayload rt (fullPayload (envelopePayload mutated))
            \<noteq> hashPayload rt (fullPayload (envelopePayload envelope))"
  then have n: "envelope \<noteq> JNull" by (auto dest: verify_not_null)
  from a have m: "mutated \<noteq> JNull" by simp
  from a have "getProp envelope ''hash''
      = Some (JStr (hashPayload rt (fullPayload (envelopePayload envelope))))"
    by (simp add: verifyEvmEnvelope_unfold [OF n] split: if_splits)
  with a show "verifyEvmEnvelope rt mutated = Inl PayloadHashMismatch"
    by (auto simp add: verifyEvmEnvelope_unfold [OF m])
qed

lemma exEvm_parts:
  "exEvmEnvelope \<noteq> JNull"
  "getProp exEvmEnvelope ''hash'' = Some (JStr ''ab'')"
  "envelopePayload exEvmEnvelope = exEvmPayload"
  "truthy (getProp exEvmEnvelope ''hash'')"
  by (simp_all add: exEvmEnvelope_def exEvmPayload_def getProp_def envelopePayload_def
        orElse_def truthy_def)

lemma exTampered_parts:
  "exEvmTampered \<noteq> JNull"
  "getProp exEvmTampered ''hash'' = Some (JStr ''ab'')"
  "fullPayload (envelopePayload exEvmTampered) \<noteq> fullPayload exEvmPayload"
  by (simp_all add: exEvmTampered_def exEvmPayload_def getProp_def envelopePayload_def
        orElse_def truthy_def fullPayload_def objectOf_def)

lemma ex_hashes:
  "hashPayload exRuntime (fullPayload exEvmPayload) = ''ab''"
  "hashPayload exRuntime (fullPayload (envelopePayload exEvmTampered)) = ''cd''"
  by (simp_all add: hashPayload_def exRuntime_def exTampered_parts)

lemma trim_leading:
  assumes "isSpace c" "s \<noteq> []" "\<not> isSpace (hd s)" "\<not> isSpace (last s)"
  shows "trim (c # s) = s"
proof -
  have a: "dropWhile isSpace (c # s) = s"
    using assms(1,2,3) by (cases s) auto
  have "rev s \<noteq> []" "\<not> isSpace (hd (rev s))"
    using assms(2,4) by (simp_all add: hd_rev)
  then have b: "dropWhile isSpace (rev s) = rev s"
    by (cases "rev s") auto
  show ?thesis unfolding trim_def a b by simp
qed

lemma ex_nbsp_input: "exEvmInputNbsp \<noteq> []" "exEvmInputNbsp \<noteq> ''0x''"
  "\<not> length exEvmInputNbsp < 4" "startsWith exEvmInputNbsp ''0x''"
  "drop 2 exEvmInputNbsp \<noteq> drop 2 exEvmInput"
  "drop 2 exEvmInputNbsp \<noteq> drop 2 exEvmInputBase64"
  by (simp_all add: exEvmInputNbsp_def exEvmInput_def exEvmInputBase64_def startsWith_def)

lemma ex_nbsp_trim: "trim (160 # exEvmBase64) = exEvmBase64"
  by (rule trim_leading) (simp_all add: exEvmBase64_def isSpace_def codeUnits_def)

lemma ex_nbsp_decode: "decodeEvmEnvelope exRuntime exEvmInputNbsp = Some exEvmEnvelope"
proof -
  have hex: "hexToUtf8 exRuntime (drop 2 exEvmInputNbsp) = 160 # exEvmBase64"
    by (simp add: exRuntime_def ex_nbsp_input)
  have b64: "base64ToUtf8 exRuntime (160 # exEvmBase64) = exEvmText"
    by (simp add: exRuntime_def)
  have parse: "JSON_parse exRuntime exEvmText = Some exEvmEnvelope"
    by (simp add: exRuntime_def ex_texts_differ)
  show ?thesis
    by (simp add: decodeEvmEnvelope_def Let_def ex_nbsp_input hex b64 parse ex_nbsp_trim
          ex_base64_text)
qed

lemma ex_nbsp_parse: "parseAndVerifyEvmEnvelope exRuntime exEvmInputNbsp = Inr exEvmResult"
  by (simp add: parseAndVerifyEvmEnvelope_def ex_nbsp_input ex_nbsp_decode ex_verify)

text \<open>
  The theorem at the example envelope and the same envelope with another nonce; the
  envelope is decoded from the hex of its JSON text, from the hex of its base64 form, and
  from the latter with a no-break space in front, which \<open>trim\<close> strips before the base64
  test.
\<close>

theorem C2_evm_hash_check_witness:
  "verifyEvmEnvelope exRuntime exEvmEnvelope = Inr exEvmResult
   \<and> getProp exEvmEnvelope ''hash''
       = Some (JStr (sha256Hex exRuntime (JSON_stringify exRuntime (fullPayload exEvmPayload))))
   \<and> parseAndVerifyEvmEnvelope exRuntime exEvmInput = Inr exEvmResult
   \<and> decodeEvmEnvelope exRuntime exEvmInput = Some exEvmEnvelope
   \<and> parseAndVerifyEvmEnvelope exRuntime exEvmInputBase64 = Inr exEvmResult
   \<and> decodeEvmEnvelope exRuntime exEvmInputBase64 = Some exEvmEnvelope
   \<and> parseAndVerifyEvmEnvelope exRuntime exEvmInputNbsp = Inr exEvmResult
   \<and> decodeEvmEnvelope exRuntime exEvmInputNbsp = Some exEvmEnvelope
   \<and> getProp exEvmTampered ''hash'' = getProp exEvmEnvelope ''hash''
   \<and> verifyEvmEnvelope exRuntime exEvmTampered = Inl PayloadHashMismatch"
  using C2_evm_hash_check [where rt = exRuntime and envelope = exEvmEnvelope
      and result = exEvmResult and txInput = exEvmInput and mutated = exEvmTampered]
  by (simp add: ex_verify ex_parse_evm ex_decode exEvm_parts exTampered_parts ex_hashes
        truthy_def hashPayload_def [symmetric] ex_nbsp_parse ex_nbsp_decode)

lemma versioned_same:
  "verifyEvmEnvelope rt (exEvmVersioned v) = verifyEvmEnvelope rt exEvmEnvelope"
  by (simp add: verifyEvmEnvelope_def exEvmVersioned_def exEvmEnvelope_def exEvmPayload_def
        Let_def getProp_def orElse_def truthy_def fullPayload_def objectOf_def
        typeofNumber_def numOf_def)

text \<open>
  Claim C2 as the specification states it does not hold. On the Octra path,
  \<open>parseIntentPayload\<close> accepts the same payload under the declared hashes \<open>00\<close> and
  \<open>ff\<close>, of which at most one is its digest. On the EVM path, the envelopes with
  \<open>version\<close> 1 and 2 differ, declare the same hash, and get the same answer under every
  runtime; here both are accepted.
\<close>

theorem C2_counterexample:
  "payloadOfParsed (exMemoEnvelope ''00'') = Some exPayload
   \<and> payloadOfParsed (exMemoEnvelope ''ff'') = Some exPayload
   \<and> (\<forall>rt. \<not> (verifyPayloadHash rt (exMemoPayload ''n1'') (JStr ''00'')
              \<and> verifyPayloadHash rt (exMemoPayload ''n1'') (JStr ''ff'')))
   \<and> parseIntentPayload exRuntime (Some exMemoText) = Some exPayload
   \<and> \<not> verifyPayloadHash exRuntime (exMemoPayload ''n1'') (JStr ''00'')
   \<and> exEvmVersioned 2 \<noteq> exEvmVersioned 1
   \<and> getProp (exEvmVersioned 2) ''hash'' = getProp (exEvmVersioned 1) ''hash''
   \<and> (\<forall>rt. verifyEvmEnvelope rt (exEvmVersioned 2) = verifyEvmEnvelope rt (exEvmVersioned 1))
   \<and> verifyEvmEnvelope exRuntime (exEvmVersioned 1) = Inr exEvmResult
   \<and> verifyEvmEnvelope exRuntime (exEvmVersioned 2) = Inr exEvmResult"
proof -
  have a: "\<forall>rt. \<not> (verifyPayloadHash rt (exMemoPayload ''n1'') (JStr ''00'')
              \<and> verifyPayloadHash rt (exMemoPayload ''n1'') (JStr ''ff''))"
    by (auto simp add: verifyPayloadHash_def)
  have b: "\<not> verifyPayloadHash exRuntime (exMemoPayload ''n1'') (JStr ''00'')"
    by (simp add: verifyPayloadHash_def hashPayload_def exRuntime_def)
  have c: "exEvmVersioned 2 \<noteq> exEvmVersioned 1"
    "getProp (exEvmVersioned 2) ''hash'' = getProp (exEvmVersioned 1) ''hash''"
    by (simp_all add: exEvmVersioned_def getProp_def)
  show ?thesis
    using a b c by (simp add: ex_payloadOfParsed ex_parse_memo versioned_same ex_verify)
qed

subsection \<open>One intent per deposit reference\<close>

lemma ex_oct_lookup: "processOctToEthSubmission_lookup ''octtx1'' exState = None"
  by (simp add: processOctToEthSubmission_lookup_def ex_new)

lemma ex_oct_checked:
  "processOctToEthSubmission_validate exRuntime exConfig (Some (exOctTx confirmed)) 1000 exState
     = Inr (exOctTx confirmed, exPayload, 995 / 10001)"
proof -
  have txf: "otx_status (exOctTx confirmed) = confirmed"
    "otx_message (exOctTx confirmed) = Some exMemoText"
    by (simp_all add: exOctTx_def)
  have st: "db exState = \<lparr>intents = [], nonces = {}\<rparr>" "oracleSt exState = defaultOracle"
    by (simp_all add: exState_def)
  have pf: "p_amountIn exPayload = 100" "p_minAmountOut exPayload = 0.099"
    "p_nonce exPayload = ''n1''"
    by (simp_all add: exPayload_def)
  show ?thesis
    by (simp add: processOctToEthSubmission_validate_def txf exConfig_fields st ex_parse_memo
          ex_validate pf ex_oct_quote isNonceUsed_def Let_def)
qed

lemma exPayload_fields:
  "p_amountIn exPayload = 100" "p_minAmountOut exPayload = 0.099"
  "p_nonce exPayload = ''n1''" "p_expiry exPayload = 600000"
  "p_targetAddress exPayload = ''0x00000000000000000000000000000000000000aa''"
  by (simp_all add: exPayload_def)

lemma ex_low_address:
  "toLowerCase ''0x00000000000000000000000000000000000000aa''
     = ''0x00000000000000000000000000000000000000aa''"
  "toLowerCase ''oct1user'' = ''oct1user''"
  by code_simp+

lemma ex_first_store:
  "processOctToEthSubmission_store 10 ''id-1'' 1001 ''octtx1''
       (exOctTx confirmed, exPayload, 995 / 10001) exState
     = Inr (\<lparr>r_intentId = ''id-1'', r_status = OPEN, r_message = FulfillmentInProgress\<rparr>,
            exFirstStored, Some (''id-1'', 995 / 10001))"
proof -
  have st: "db exState = \<lparr>intents = [], nonces = {}\<rparr>"
    by (simp add: exState_def)
  have sender: "otx_from (exOctTx confirmed) = ''oct1user''" by (simp add: exOctTx_def)
  show ?thesis
    by (simp add: processOctToEthSubmission_store_def Let_def LIQUIDITY_BUFFER_def st sender
          exPayload_fields store_add_eq getIntent_def storedRow_def ex_low_address
          strOrNull_def numOrNull_def exFirstStored_def exRow_def)
qed

lemma ex_first_send:
  "fulfillOctToEth_start 1002 ''id-1'' (995 / 10001) exFirstStored = (exFirstSent, Some (exRow OPEN))"
  by (simp add: fulfillOctToEth_start_def exFirstStored_def exFirstSent_def exState_def
        getIntent_def exRow_fields)

lemma ex_second_store:
  "processOctToEthSubmission_store 10 ''id-3'' 1002 ''octtx1''
       (exOctTx confirmed, exPayload, 995 / 10001) exFirstSent
     = Inr (\<lparr>r_intentId = ''id-3'', r_status = OPEN, r_message = FulfillmentInProgress\<rparr>,
            exSecondStored, Some (''id-3'', 995 / 10001))"
proof -
  have st: "db exFirstSent = \<lparr>intents = [exRow OPEN], nonces = {''n1''}\<rparr>"
    by (simp add: exFirstSent_def exFirstStored_def exState_def)
  have sender: "otx_from (exOctTx confirmed) = ''oct1user''" by (simp add: exOctTx_def)
  show ?thesis
    by (simp add: processOctToEthSubmission_store_def Let_def LIQUIDITY_BUFFER_def st sender
          exPayload_fields store_add_eq getIntent_def storedRow_def ex_low_address
          strOrNull_def numOrNull_def exSecondStored_def exSecondRow_def exRow_def)
qed

lemma ex_second_send:
  "fulfillOctToEth_start 1003 ''id-3'' (995 / 10001) exSecondStored
     = (exSecondStored\<lparr>dispatched :=
          [SendETH ''0x00000000000000000000000000000000000000aa'' (995 / 10001),
           SendETH ''0x00000000000000000000000000000000000000aa'' (995 / 10001)]\<rparr>,
        Some exSecondRow)"
  by (simp add: fulfillOctToEth_start_def exSecondStored_def exFirstSent_def exFirstStored_def
        exState_def getIntent_def exRow_fields exSecondRow_def)

lemma ex_second_rows:
  "map i_sourceTxHash (intents (db exSecondStored)) = [''octtx1'', ''octtx1'']"
  "map i_intentId (intents (db exSecondStored)) = [''id-1'', ''id-3'']"
  "map i_status (intents (db exSecondStored)) = [OPEN, OPEN]"
  by (simp_all add: exSecondStored_def exSecondRow_def exRow_fields)

lemma ex_late_lookup:
  "processOctToEthSubmission_lookup ''octtx1'' exFirstStored
     = Some \<lparr>r_intentId = ''id-1'', r_status = OPEN, r_message = AlreadySubmitted\<rparr>"
  by (simp add: processOctToEthSubmission_lookup_def getIntentByTxHash_def exFirstStored_def
        exRow_fields)

text \<open>
  Claim C3 fails when two submissions of one deposit reference overlap. Both calls look
  the reference up on the empty store and find nothing, and both pass the checks after
  their fetch; the first then stores its intent with id \<open>id-1\<close> and starts its payout; the
  second, resumed after its balance probe, stores a second row with id \<open>id-3\<close> for the
  same sourceTxHash and starts a second payout. A call that begins after the first row is
  stored is answered with \<open>id-1\<close>.
\<close>

theorem C3_overlapping_submissions_store_two_rows:
  "processOctToEthSubmission_lookup ''octtx1'' exState = None
   \<and> processOctToEthSubmission_validate exRuntime exConfig (Some (exOctTx confirmed)) 1000
         exState
       = Inr (exOctTx confirmed, exPayload, 995 / 10001)
   \<and> processOctToEthSubmission_store 10 ''id-1'' 1001 ''octtx1''
         (exOctTx confirmed, exPayload, 995 / 10001) exState
       = Inr (\<lparr>r_intentId = ''id-1'', r_status = OPEN, r_message = FulfillmentInProgress\<rparr>,
              exFirstStored, Some (''id-1'', 995 / 10001))
   \<and> fulfillOctToEth_start 1002 ''id-1'' (995 / 10001) exFirstStored
       = (exFirstSent, Some (exRow OPEN))
   \<and> processOctToEthSubmission_store 10 ''id-3'' 1002 ''octtx1''
         (exOctTx confirmed, exPayload, 995 / 10001) exFirstSent
       = Inr (\<lparr>r_intentId = ''id-3'', r_status = OPEN, r_message = FulfillmentInProgress\<rparr>,
              exSecondStored, Some (''id-3'', 995 / 10001))
   \<and> map i_sourceTxHash (intents (db exSecondStored)) = [''octtx1'', ''octtx1'']
   \<and> map i_intentId (intents (db exSecondStored)) = [''id-1'', ''id-3'']
   \<and> \<not> distinct (map i_sourceTxHash (intents (db exSecondStored)))
   \<and> dispatched (fst (fulfillOctToEth_start 1003 ''id-3'' (995 / 10001) exSecondStored))
       = [SendETH ''0x00000000000000000000000000000000000000aa'' (995 / 10001),
          SendETH ''0x00000000000000000000000000000000000000aa'' (995 / 10001)]
   \<and> processOctToEthSubmission_lookup ''octtx1'' exFirstStored
       = Some \<lparr>r_intentId = ''id-1'', r_status = OPEN, r_message = AlreadySubmitted\<rparr>"
  by (simp add: ex_oct_lookup ex_oct_checked ex_first_store ex_first_send ex_second_store
        ex_second_rows ex_second_send ex_late_lookup)

subsection \<open>Submissions that should be rejected\<close>

lemma ex_num_texts:
  "exNumText \<noteq> exMemoText" "exNumText \<noteq> exEvmText"
  "drop 2 exNumInput \<noteq> drop 2 exEvmInput" "drop 2 exNumInput \<noteq> drop 2 exEvmInputBase64"
  "drop 2 exNumInput \<noteq> drop 2 exEvmInputNbsp"
  by (simp_all add: exNumText_def exMemoText_def exEvmText_def exNumInput_def exEvmInput_def
        exEvmInputBase64_def exEvmInputNbsp_def codeUnits_eq_iff)

lemma ex_num_input: "exNumInput \<noteq> []" "exNumInput \<noteq> ''0x''" "\<not> length exNumInput < 4"
  "startsWith exNumInput ''0x''"
  by (simp_all add: exNumInput_def startsWith_def)

lemma ex_num_trim: "trim exNumText = exNumText" "startsWith exNumText (codeUnits ''{'')"
  by (rule trim_id) (simp_all add: exNumText_def isSpace_def codeUnits_def startsWith_def)

lemma ex_num_decode: "decodeEvmEnvelope exRuntime exNumInput = Some exNumEnvelope"
proof -
  have hex: "hexToUtf8 exRuntime (drop 2 exNumInput) = exNumText"
    by (simp add: exRuntime_def ex_num_texts)
  have parse: "JSON_parse exRuntime exNumText = Some exNumEnvelope"
    by (simp add: exRuntime_def ex_num_texts)
  show ?thesis
    by (simp add: decodeEvmEnvelope_def Let_def ex_num_input hex parse ex_num_trim)
qed

lemma ex_num_verify: "verifyEvmEnvelope exRuntime exNumEnvelope = Inr exNumResult"
  by (simp add: verifyEvmEnvelope_def exNumEnvelope_def exNumResult_def Let_def getProp_def
        orElse_def truthy_def typeofNumber_def numOf_def)

lemma ex_num_parse: "parseAndVerifyEvmEnvelope exRuntime exNumInput = Inr exNumResult"
  by (simp add: parseAndVerifyEvmEnvelope_def ex_num_input ex_num_decode ex_num_verify)

lemma ex_num_throws:
  "processEthToOctSubmission exRuntime exConfig exNumEnv ''0xethtx2'' exState = Inl TypeError"
proof -
  have tx: "ee_tx exNumEnv = Some exNumTx" by (simp add: exNumEnv_def)
  have txf: "stx_status exNumTx = confirmed" "stx_input exNumTx = Some exNumInput"
    "stx_to exNumTx = ''0xescrow''"
    by (simp_all add: exNumTx_def)
  have target: "ep_targetAddress exNumResult = JNum 5" by (simp add: exNumResult_def)
  show ?thesis
    by (simp add: processEthToOctSubmission_def ex_new tx txf exConfig_fields ex_lower
          ex_num_parse target)
qed

lemma ex_memo_hash:
  "JSON_parse exRuntime exMemoText = Some (exMemoEnvelope ''00'')"
  "getProp (exMemoEnvelope ''00'') ''payload'' = Some (exMemoPayload ''n1'')"
  "getProp (exMemoEnvelope ''00'') ''hash'' = Some (JStr ''00'')"
  "hashPayload exRuntime (exMemoPayload ''n1'') = ''cd''"
  by (simp_all add: exRuntime_def exMemoEnvelope_def getProp_def hashPayload_def
        exMemoPayload_def fullPayload_def objectOf_def exEvmPayload_def orElse_def truthy_def)

text \<open>
  Claim C9 fails at two deposits. The memo of the example Octra deposit declares the hash
  \<open>00\<close>, which is not the digest of its payload; \<open>parseIntentPayload\<close> returns the payload
  whatever hash is declared, and the submission stores the intent as PENDING instead of
  rejecting it. The call data of the second Sepolia deposit has the number 5 as target
  address; the verifier accepts it and \<open>processEthToOctSubmission\<close> then throws a TypeError
  instead of returning REJECTED.
\<close>

theorem C9_unauthentic_memo_stored:
  "JSON_parse exRuntime exMemoText = Some (exMemoEnvelope ''00'')
   \<and> getProp (exMemoEnvelope ''00'') ''payload'' = Some (exMemoPayload ''n1'')
   \<and> getProp (exMemoEnvelope ''00'') ''hash'' = Some (JStr ''00'')
   \<and> hashPayload exRuntime (exMemoPayload ''n1'') = ''cd''
   \<and> \<not> verifyPayloadHash exRuntime (exMemoPayload ''n1'') (JStr ''00'')
   \<and> payloadOfParsed (exMemoEnvelope declaredHash) = Some exPayload
   \<and> processOctToEthSubmission exRuntime exConfig (exOctEnv confirmed 0) ''octtx1'' exState
       = Inr (\<lparr>r_intentId = ''id-1'', r_status = PENDING, r_message = QueuedForLiquidity\<rparr>,
              exPendingState, None)
   \<and> intents (db exPendingState) = [exRow PENDING]
   \<and> parseAndVerifyEvmEnvelope exRuntime exNumInput = Inr exNumResult
   \<and> ep_targetAddress exNumResult = JNum 5
   \<and> processEthToOctSubmission exRuntime exConfig exNumEnv ''0xethtx2'' exState
       = Inl TypeError"
  by (simp add: ex_memo_hash verifyPayloadHash_def ex_payloadOfParsed ex_oct_stored
        ex_pending_fields ex_num_parse ex_num_throws)
     (simp add: exNumResult_def)

text \<open>The same with the declared hash \<open>ff\<close> in the memo.\<close>

theorem C9_unauthentic_memo_stored_witness:
  "payloadOfParsed (exMemoEnvelope ''ff'') = Some exPayload
   \<and> \<not> verifyPayloadHash exRuntime (exMemoPayload ''n1'') (JStr ''ff'')
   \<and> processOctToEthSubmission exRuntime exConfig (exOctEnv confirmed 0) ''octtx1'' exState
       = Inr (\<lparr>r_intentId = ''id-1'', r_status = PENDING, r_message = QueuedForLiquidity\<rparr>,
              exPendingState, None)"
  using C9_unauthentic_memo_stored [of "''ff''"]
  by (simp add: verifyPayloadHash_def)

subsection \<open>A negative amount reaches recordSwap\<close>

lemma ex_neg_texts:
  "exNegMemoText \<noteq> exMemoText" "exNegMemoText \<noteq> exEvmText" "exNegMemoText \<noteq> exNumText"
  "exNegMemoText \<noteq> []"
  by (simp_all add: exNegMemoText_def exMemoText_def exEvmText_def exNumText_def
        codeUnits_eq_iff codeUnits_simps)

lemma ex_neg_parse: "parseIntentPayload exRuntime (Some exNegMemoText) = Some exNegPayload"
proof -
  have "JSON_parse exRuntime exNegMemoText = Some exNegMemo"
    by (simp add: exRuntime_def ex_neg_texts)
  moreover have "payloadOfParsed exNegMemo = Some exNegPayload"
    by (simp add: payloadOfParsed_def exNegMemo_def exNegPayload_def Let_def getProp_def
          orElse_def truthy_def typeofNumber_def typeofString_def numOf_def strOf_def)
  ultimately show ?thesis by (simp add: parseIntentPayload_def ex_neg_texts)
qed

lemma exNegPayload_fields:
  "p_amountIn exNegPayload = - (1 / 2000000)" "p_minAmountOut exNegPayload = 0"
  "p_nonce exNegPayload = ''n4''" "p_expiry exNegPayload = 600000"
  "p_targetAddress exNegPayload = ''0x00000000000000000000000000000000000000aa''"
  by (simp_all add: exNegPayload_def)

lemma exNegTx_fields:
  "otx_status exNegTx = confirmed" "otx_message exNegTx = Some exNegMemoText"
  "otx_from exNegTx = ''oct1user''" "otx_to exNegTx = ''oct1escrow''" "otx_amount exNegTx = 0"
  by (simp_all add: exNegTx_def)

lemma ex_neg_validate: "validateIntentPayload 1000 exNegPayload exNegTx ''oct1escrow'' = None"
  by (simp add: validateIntentPayload_None exNegTx_fields exNegPayload_fields ex_isEvmAddress)

lemma ex_neg_quote:
  "calculateEthOut defaultOracle (- (1 / 2000000)) 50 = 0"
  "calculateEthOut defaultOracle (- (1 / 2000000)) 0 = 0"
  by (simp_all add: calculateEthOut_def Let_def defaultOracle_reserves)

lemma ex_neg_open:
  "processOctToEthSubmission exRuntime exConfig exNegEnv ''octtx2'' exState
     = Inr (\<lparr>r_intentId = ''id-4'', r_status = OPEN, r_message = FulfillmentInProgress\<rparr>,
            exNegOpenState, Some (''id-4'', 0))"
proof -
  have env: "oe_tx exNegEnv = Some exNegTx" "oe_now exNegEnv = 1000"
    "oe_ethBalance exNegEnv = 10" "oe_uuid exNegEnv = ''id-4''" "oe_createdAt exNegEnv = 1001"
    by (simp_all add: exNegEnv_def)
  have st: "db exState = \<lparr>intents = [], nonces = {}\<rparr>" "oracleSt exState = defaultOracle"
    by (simp_all add: exState_def)
  show ?thesis
    by (simp add: processOctToEthSubmission_def getIntentByTxHash_def env exNegTx_fields
          exConfig_fields st
          ex_neg_parse ex_neg_validate exNegPayload_fields ex_neg_quote isNonceUsed_def Let_def
          LIQUIDITY_BUFFER_def store_add_eq getIntent_def storedRow_def ex_low_address
          strOrNull_def numOrNull_def exNegOpenState_def exNegRow_def)
qed

lemma exNeg_fields:
  "db exNegOpenState = \<lparr>intents = [exNegRow OPEN], nonces = {''n4''}\<rparr>"
  "oracleSt exNegOpenState = defaultOracle" "dispatched exNegOpenState = []"
  by (simp_all add: exNegOpenState_def exState_def)

lemma exNegRow_fields:
  "i_intentId (exNegRow s) = ''id-4''" "i_status (exNegRow s) = s"
  "i_expiry (exNegRow s) = 600000" "i_direction (exNegRow s) = OCT_TO_ETH"
  "i_amountIn (exNegRow s) = - (1 / 2000000)"
  "i_targetAddress (exNegRow s) = ''0x00000000000000000000000000000000000000aa''"
  by (simp_all add: exNegRow_def)

lemma ex_neg_start:
  "fulfillOctToEth_start 90001 ''id-4'' 0 exNegOpenState
     = (exNegOpenState\<lparr>dispatched :=
          [SendETH ''0x00000000000000000000000000000000000000aa'' 0]\<rparr>,
        Some (exNegRow OPEN))"
  by (simp add: fulfillOctToEth_start_def getIntent_def exNeg_fields exNegRow_fields)

lemma ex_neg_fulfilled_oracle:
  "oracleSt exNegFulfilledState
     = recordSwap defaultConfig 95000 OCT_TO_ETH (- (1 / 2000000)) defaultOracle"
  by (simp add: exNegFulfilledState_def fulfillOctToEth_def ex_neg_start exFulfilEnv_fields
        fulfil_finish_oracle exNeg_fields exNegRow_fields)

lemma ex_neg_fulfilled_rows:
  "map i_status (intents (db exNegFulfilledState)) = [FULFILLED]"
  by (simp add: exNegFulfilledState_def fulfillOctToEth_def ex_neg_start exFulfilEnv_fields
        fulfillOctToEth_finish_def exNeg_fields updateIntent_def getIntent_def exNegRow_def
        fulfilledUpdates_def mergeUpdates_def Let_def strOrNull_def numOrNull_def)

lemma ex_neg_trade:
  "reserves (applyTrade 95000 OCT_TO_ETH (- (1 / 2000000)) defaultOracle)
     = \<lparr>octReserve = 1999999999999 / 2000000, ethReserve = 1000, k = 1000000000\<rparr>"
  by (simp add: applyTrade_def ex_neg_quote Let_def defaultOracle_reserves)

lemma ex_neg_change:
  "\<not> swapPriceChange 95000 OCT_TO_ETH (- (1 / 2000000)) defaultOracle > 10"
  by (simp add: swapPriceChange_def calculateSpotPrice_def ex_neg_trade defaultOracle_simps)

lemma ex_neg_reserves:
  "reserves (recordSwap defaultConfig 95000 OCT_TO_ETH (- (1 / 2000000)) defaultOracle)
     = \<lparr>octReserve = 1999999999999 / 2000000, ethReserve = 1000, k = 1000000000\<rparr>"
proof -
  have s: "spotPrice (recordSwap_upto_bounds defaultConfig 95000 OCT_TO_ETH (- (1 / 2000000))
             defaultOracle) = 2000000000 / 1999999999999"
    using ex_neg_change
    by (simp add: upto_bounds_fields defaultConfig_simps calculateSpotPrice_def ex_neg_trade)
  have "spotPrice (applyPriceBounds defaultConfig
          (recordSwap_upto_bounds defaultConfig 95000 OCT_TO_ETH (- (1 / 2000000)) defaultOracle))
        = spotPrice (recordSwap_upto_bounds defaultConfig 95000 OCT_TO_ETH (- (1 / 2000000))
             defaultOracle)"
    by (simp add: s defaultConfig_simps)
  with applyPriceBounds_cases [of defaultConfig
         "recordSwap_upto_bounds defaultConfig 95000 OCT_TO_ETH (- (1 / 2000000)) defaultOracle"]
  have "reserves (recordSwap defaultConfig 95000 OCT_TO_ETH (- (1 / 2000000)) defaultOracle)
          = reserves (applyTrade 95000 OCT_TO_ETH (- (1 / 2000000)) defaultOracle)"
    by (simp add: recordSwap_split Let_def del: applyPriceBounds_frame(5))
  then show ?thesis by (simp add: ex_neg_trade)
qed

text \<open>
  Claim C7 fails at a call of \<open>recordSwap\<close> that the solver makes. The Octra deposit of
  amount 0 whose memo asks to swap -0.0000005 OCT for at least 0 ETH passes every check of
  \<open>processOctToEthSubmission\<close> (there is no check that amountIn is positive) and is stored
  as OPEN with the quote 0; its fulfilment calls \<open>recordSwap\<close> with the intent's amountIn.
  The trade update adds the negative amount to the OCT reserve and takes 0 from the ETH
  reserve, the clamp changes nothing, and the product of the reserves is no longer k.
\<close>

theorem C7_negative_amount_breaks_product:
  "processOctToEthSubmission exRuntime exConfig exNegEnv ''octtx2'' exState
     = Inr (\<lparr>r_intentId = ''id-4'', r_status = OPEN, r_message = FulfillmentInProgress\<rparr>,
            exNegOpenState, Some (''id-4'', 0))
   \<and> intents (db exNegOpenState) = [exNegRow OPEN]
   \<and> i_amountIn (exNegRow OPEN) = - (1 / 2000000)
   \<and> exNegFulfilledState = fulfillOctToEth defaultConfig exFulfilEnv ''id-4'' 0 exNegOpenState
   \<and> map i_status (intents (db exNegFulfilledState)) = [FULFILLED]
   \<and> oracleSt exNegFulfilledState
       = recordSwap defaultConfig 95000 OCT_TO_ETH (i_amountIn (exNegRow OPEN))
           (oracleSt exNegOpenState)
   \<and> octReserve (reserves (oracleSt exNegOpenState))
       * ethReserve (reserves (oracleSt exNegOpenState)) = k (reserves (oracleSt exNegOpenState))
   \<and> reserves (oracleSt exNegFulfilledState)
       = \<lparr>octReserve = 1999999999999 / 2000000, ethReserve = 1000, k = 1000000000\<rparr>
   \<and> spotPrice (oracleSt exNegFulfilledState) = 2000000000 / 1999999999999
   \<and> octReserve (reserves (oracleSt exNegFulfilledState))
       * ethReserve (reserves (oracleSt exNegFulfilledState))
       \<noteq> k (reserves (oracleSt exNegFulfilledState))"
proof -
  have s: "spotPrice (recordSwap defaultConfig 95000 OCT_TO_ETH (- (1 / 2000000)) defaultOracle)
             = 2000000000 / 1999999999999"
    using ex_neg_change
    by (simp add: recordSwap_fields(5) upto_bounds_fields defaultConfig_simps
          calculateSpotPrice_def ex_neg_trade)
  show ?thesis
    by (simp add: ex_neg_open exNeg_fields exNegRow_fields ex_neg_fulfilled_rows
          ex_neg_fulfilled_oracle ex_neg_reserves defaultOracle_reserves s)
       (simp add: exNegFulfilledState_def)
qed

subsection \<open>The field spotPrice and the price of the reserves\<close>

text \<open>
  When the field \<open>spotPrice\<close> is the price of the reserves: after construction, and after a
  recorded swap of a non-negative amount that does not trigger the circuit breaker (the
  clamp resynthesizes the reserves at the clamped price).
\<close>

lemma sqrt_ratio:
  fixes kk p :: real
  assumes "0 < kk" "0 < p"
  shows "sqrt (kk * p) / sqrt (kk / p) = p"
proof -
  have "sqrt (kk * p) / sqrt (kk / p) = sqrt ((kk * p) / (kk / p))"
    by (rule real_sqrt_divide [symmetric])
  also have "(kk * p) / (kk / p) = p * p" using assms by simp
  also have "sqrt (p * p) = p" using assms by simp
  finally show ?thesis .
qed

lemma newPriceOracle_spot:
  "spotPrice (newPriceOracle now virtualOct virtualEth)
     = calculateSpotPrice (newPriceOracle now virtualOct virtualEth)"
  by (simp add: newPriceOracle_def recordPrice_def Let_def calculateSpotPrice_def)

lemma recordSwap_spot:
  assumes ok: "reserves_ok orc" and a: "0 \<le> amount"
    and bounds: "0 < minRate cfg" "0 < maxRate cfg"
    and calm: "\<not> swapPriceChange now direction amount orc > maxPriceChangePercent cfg"
  shows "spotPrice (recordSwap cfg now direction amount orc)
           = calculateSpotPrice (recordSwap cfg now direction amount orc)"
proof -
  let ?b = "recordSwap_upto_bounds cfg now direction amount orc"
  let ?r = "recordSwap cfg now direction amount orc"
  have rr: "reserves ?r = reserves (applyPriceBounds cfg ?b)"
    and rs: "spotPrice ?r = spotPrice (applyPriceBounds cfg ?b)"
    by (simp_all add: recordSwap_split Let_def del: applyPriceBounds_frame(5))
  have sb: "spotPrice ?b = calculateSpotPrice ?b"
    using calm by (simp add: upto_bounds_fields(1) calculateSpotPrice_def)
  have kpos: "0 < k (reserves ?b)"
    using upto_bounds_ok [OF ok a, of cfg now direction]
    unfolding reserves_ok_def by (metis mult_pos_pos)
  from applyPriceBounds_cases [of cfg ?b] show ?thesis
  proof (elim disjE conjE)
    assume "spotPrice (applyPriceBounds cfg ?b) = spotPrice ?b"
      and "reserves (applyPriceBounds cfg ?b) = reserves ?b"
    then show ?thesis using sb by (simp add: rs calculateSpotPrice_def rr)
  next
    assume p: "spotPrice (applyPriceBounds cfg ?b) \<in> {minRate cfg, maxRate cfg}"
      and o: "octReserve (reserves (applyPriceBounds cfg ?b))
                = sqrt (k (reserves ?b) / spotPrice (applyPriceBounds cfg ?b))"
      and e: "ethReserve (reserves (applyPriceBounds cfg ?b))
                = sqrt (k (reserves ?b) * spotPrice (applyPriceBounds cfg ?b))"
    from p bounds have ppos: "0 < spotPrice (applyPriceBounds cfg ?b)" by auto
    have "calculateSpotPrice ?r = spotPrice (applyPriceBounds cfg ?b)"
      unfolding calculateSpotPrice_def rr o e by (rule sqrt_ratio [OF kpos ppos])
    then show ?thesis by (simp only: rs)
  qed
qed

lemma cb_state2_reserves:
  "reserves cb_state2 = \<lparr>octReserve = 1210000, ethReserve = 100000 / 121, k = 1000000000\<rparr>"
proof -
  have "spotPrice (applyPriceBounds defaultConfig
          (recordSwap_upto_bounds defaultConfig 120000 OCT_TO_ETH 200000 cb_state1))
        = spotPrice (recordSwap_upto_bounds defaultConfig 120000 OCT_TO_ETH 200000 cb_state1)"
    by (simp add: cb2_upto defaultConfig_simps)
  with applyPriceBounds_cases [of defaultConfig
         "recordSwap_upto_bounds defaultConfig 120000 OCT_TO_ETH 200000 cb_state1"]
  have "reserves cb_state2 = reserves (applyTrade 120000 OCT_TO_ETH 200000 cb_state1)"
    by (simp add: cb_state2_def recordSwap_split Let_def del: applyPriceBounds_frame(5))
  then show ?thesis by (simp add: cb2_trade)
qed

lemma cb2_fee_free_quote: "calculateOctOut cb_state2 1 0 = 146410000 / 100121"
  by (simp add: calculateOctOut_def Let_def cb_state2_reserves)

text \<open>
  Claim C8 as stated fails once the circuit breaker has set the field \<open>spotPrice\<close> to the
  EMA while the reserves keep the trade. In \<open>cb_state2\<close>, the default oracle after swaps
  of 10000 and 200000 OCT, the reserves are steady, the field is 1/10201 + 9/10000 and
  the price of the reserves is 10/14641; the fee-free quote for 1 ETH is
  146410000/100121 OCT, above the extrapolation at the field, and
  \<open>calculatePriceImpact\<close> is negative.
\<close>

theorem C8_counterexample:
  "cb_state2 = recordSwap defaultConfig 120000 OCT_TO_ETH 200000
                 (recordSwap defaultConfig 60000 OCT_TO_ETH 10000 defaultOracle)
   \<and> reserves_ok cb_state2
   \<and> spotPrice cb_state2 = 1 / 10201 + 9 / 10000
   \<and> calculateSpotPrice cb_state2 = 10 / 14641
   \<and> quote cb_state2 ETH_TO_OCT 1 0 = 146410000 / 100121
   \<and> (1 / spotPrice cb_state2) * 1 < quote cb_state2 ETH_TO_OCT 1 0
   \<and> spotPrice cb_state2 * 1 < quote cb_state2 ETH_TO_OCT 1 0
   \<and> pi_priceImpactPercent (calculatePriceImpact cb_state2 ETH_TO_OCT 1) < 0"
  by (simp add: cb_state2_def [symmetric] cb_state1_def [symmetric] reserves_ok_def
        cb_state2_reserves cb_state2_simps calculateSpotPrice_def quote_def cb2_fee_free_quote
        calculatePriceImpact_def Let_def)

end
